(* ===== verification/Prelude.thy ===== *)
theory Prelude
  imports Main "HOL-Library.Sublist" "HOL-Library.Code_Target_Numeral"
begin

text \<open>
  Shared vocabulary of the development: the names of the model's basic types
  (addresses, amounts in wei, loan identifiers, seconds), the collections of
  unfolding rules the component theories fill, and generic lemmas on lists that
  the task list of the orchestrator and the loan list of the ledger both use.
\<close>

named_theorems ledger_simps "unfolding rules of the ledger operations"
named_theorems js_simps "evaluation rules of the JavaScript built-ins"
named_theorems app_simps "unfolding rules of the frontend handlers"

type_synonym address = nat
type_synonym wei = nat
type_synonym loan_id = nat
type_synonym seconds = nat

text \<open>
  Removing the element at a position of a list: a settled promise leaves the
  list of pending tasks this way.
\<close>

definition del_nth :: "nat \<Rightarrow> 'a list \<Rightarrow> 'a list" where
  "del_nth i xs = take i xs @ drop (Suc i) xs"

lemma set_del_nth_subset: "set (del_nth i xs) \<subseteq> set xs"
  by (auto simp: del_nth_def dest: in_set_takeD in_set_dropD)

lemma filter_del_nth:
  "i < length xs \<Longrightarrow> \<not> P (xs ! i) \<Longrightarrow> filter P (del_nth i xs) = filter P xs"
proof -
  assume i: "i < length xs" and np: "\<not> P (xs ! i)"
  have "xs = take i xs @ xs ! i # drop (Suc i) xs"
    using i by (simp add: id_take_nth_drop)
  then have "filter P xs = filter P (take i xs) @ filter P (drop (Suc i) xs)"
    using np by (metis filter.simps(2) filter_append)
  then show ?thesis by (simp add: del_nth_def)
qed

lemma length_filter_del_nth:
  "i < length xs \<Longrightarrow> P (xs ! i) \<Longrightarrow>
     length (filter P (del_nth i xs)) = length (filter P xs) - 1"
proof -
  assume i: "i < length xs" and p: "P (xs ! i)"
  have "xs = take i xs @ xs ! i # drop (Suc i) xs"
    using i by (simp add: id_take_nth_drop)
  then have "length (filter P xs) = Suc (length (filter P (del_nth i xs)))"
    using p by (metis del_nth_def filter.simps(2) filter_append length_Cons length_append
        add_Suc_right)
  then show ?thesis by simp
qed

lemma length_filter_del_nth_le: "length (filter P (del_nth i xs)) \<le> length (filter P xs)"
proof (cases "i < length xs")
  case True
  then show ?thesis by (cases "P (xs ! i)") (simp_all add: length_filter_del_nth filter_del_nth)
next
  case False
  then show ?thesis by (simp add: del_nth_def)
qed

lemma length_filter_update_same:
  "i < length xs \<Longrightarrow> P (xs ! i) = P x \<Longrightarrow>
     length (filter P (xs[i := x])) = length (filter P xs)"
  by (induction xs arbitrary: i) (auto split: nat.splits)

lemma in_set_del_nth: "x \<in> set xs \<Longrightarrow> x \<noteq> xs ! i \<Longrightarrow> x \<in> set (del_nth i xs)"
proof -
  assume x: "x \<in> set xs" and ne: "x \<noteq> xs ! i"
  then obtain j where j: "j < length xs" "xs ! j = x" by (auto simp: in_set_conv_nth)
  with ne have "j \<noteq> i" by auto
  show ?thesis
  proof (cases "j < i")
    case True
    with j have "x \<in> set (take i xs)" by (auto simp: in_set_conv_nth intro!: exI [where x = j])
    then show ?thesis by (simp add: del_nth_def)
  next
    case False
    with j \<open>j \<noteq> i\<close> have "x \<in> set (drop (Suc i) xs)"
      by (auto simp: in_set_conv_nth intro!: exI [where x = "j - Suc i"])
    then show ?thesis by (simp add: del_nth_def)
  qed
qed

lemma length_del_nth: "i < length xs \<Longrightarrow> length (del_nth i xs) = length xs - 1"
  by (simp add: del_nth_def)

text \<open>\<open>List.map_filter\<close> under the list operations the task list undergoes.\<close>

lemma map_filter_append: "List.map_filter f (xs @ ys) = List.map_filter f xs @ List.map_filter f ys"
  by (simp add: List.map_filter_def)
lemma map_filter_update_same:
  "i < length xs \<Longrightarrow> f y = f (xs ! i) \<Longrightarrow> List.map_filter f (xs[i := y]) = List.map_filter f xs"
proof (induction xs arbitrary: i)
  case Nil
  then show ?case by simp
next
  case (Cons x xs)
  then show ?case by (cases i) (simp_all split: option.splits)
qed
lemma map_filter_del_nth_None:
  "i < length xs \<Longrightarrow> f (xs ! i) = None \<Longrightarrow> List.map_filter f (del_nth i xs) = List.map_filter f xs"
proof -
  assume i: "i < length xs" and n: "f (xs ! i) = None"
  have "xs = take i xs @ xs ! i # drop (Suc i) xs" using i by (simp add: id_take_nth_drop)
  then have "List.map_filter f xs = List.map_filter f (take i xs @ xs ! i # drop (Suc i) xs)"
    by simp
  also have "\<dots> = List.map_filter f (take i xs) @ List.map_filter f (drop (Suc i) xs)"
    using n by (simp add: map_filter_append)
  finally show ?thesis by (simp add: del_nth_def map_filter_append)
qed
lemma set_map_filter_del_nth: "set (List.map_filter f (del_nth i xs)) \<subseteq> set (List.map_filter f xs)"
  by (auto simp: List.map_filter_def del_nth_def dest: in_set_takeD in_set_dropD)


text \<open>Weights summed over a list, under update and removal by position.\<close>

lemma sum_list_map_update:
  fixes f :: "'a \<Rightarrow> nat"
  shows "i < length xs \<Longrightarrow> sum_list (map f (xs[i := x])) + f (xs ! i) = sum_list (map f xs) + f x"
proof (induction xs arbitrary: i)
  case (Cons y ys)
  then show ?case by (cases i) auto
qed simp

lemma sum_list_map_del_nth:
  fixes f :: "'a \<Rightarrow> nat"
  assumes "i < length xs"
  shows "sum_list (map f (del_nth i xs)) + f (xs ! i) = sum_list (map f xs)"
proof -
  have "xs = take i xs @ xs ! i # drop (Suc i) xs" using assms by (rule id_take_nth_drop)
  then have "sum_list (map f xs) = sum_list (map f (take i xs)) + f (xs ! i) + sum_list (map f (drop (Suc i) xs))"
    by (metis add.assoc map_append sum_list_append list.map(2) sum_list.Cons)
  then show ?thesis by (simp add: del_nth_def)
qed

end
