(* ===== verification/JsRuntime.thy ===== *)
theory JsRuntime
  imports Prelude Complex_Main
begin

text \<open>
  The JavaScript built-ins the sources call, with the semantics of the ECMAScript
  standard: numbers (with \<open>NaN\<close> and the infinities), truthiness and \<open><\<close> on
  numbers, \<open>String.prototype.trim\<close>, \<open>String.prototype.includes\<close>, the global
  \<open>parseInt\<close> (no radix argument) and \<open>parseFloat\<close>. Finite numbers are kept
  as exact rationals: a decimal string is read without rounding to a double, which
  agrees with the engine for every input of at most fifteen significant digits.
  Characters are bytes, so the white space \<open>trim\<close> removes is the ASCII white
  space (tab, line feed, vertical tab, form feed, carriage return, space).
\<close>

datatype jsnum = NaN | Num rat | PosInf | NegInf

text \<open>\<open>!x\<close> on a number: \<open>NaN\<close> and zero are falsy.\<close>

fun js_falsy :: "jsnum \<Rightarrow> bool" where
  "js_falsy NaN = True"
| "js_falsy (Num q) = (q = 0)"
| "js_falsy PosInf = False"
| "js_falsy NegInf = False"

text \<open>\<open>x < y\<close> on numbers: false whenever one side is \<open>NaN\<close>.\<close>

fun js_less :: "jsnum \<Rightarrow> jsnum \<Rightarrow> bool" where
  "js_less NaN _ = False"
| "js_less _ NaN = False"
| "js_less (Num a) (Num b) = (a < b)"
| "js_less NegInf y = (y \<noteq> NegInf)"
| "js_less x PosInf = (x \<noteq> PosInf)"
| "js_less _ _ = False"

fun js_isNaN :: "jsnum \<Rightarrow> bool" where
  "js_isNaN NaN = True"
| "js_isNaN _ = False"

lemma js_less_NaN_right [simp]: "\<not> js_less x NaN"
  by (cases x) simp_all

lemma js_less_Num_Num [simp]: "js_less (Num a) (Num b) \<longleftrightarrow> a < b"
  by simp

text \<open>
  The primitive values the sources compare with \<open>===\<close>: numbers, BigInts (what
  ethers v6 returns for chain ids and \<open>uint256\<close> fields), strings and booleans.
  Strict equality never holds between values of different types, and \<open>NaN\<close> is
  not equal to itself.
\<close>

datatype jsprim = PNum jsnum | PBig int | PStr string | PBool bool

fun js_num_eq :: "jsnum \<Rightarrow> jsnum \<Rightarrow> bool" where
  "js_num_eq (Num a) (Num b) = (a = b)"
| "js_num_eq PosInf PosInf = True"
| "js_num_eq NegInf NegInf = True"
| "js_num_eq _ _ = False"

fun js_strict_eq :: "jsprim \<Rightarrow> jsprim \<Rightarrow> bool" where
  "js_strict_eq (PNum a) (PNum b) = js_num_eq a b"
| "js_strict_eq (PBig a) (PBig b) = (a = b)"
| "js_strict_eq (PStr a) (PStr b) = (a = b)"
| "js_strict_eq (PBool a) (PBool b) = (a = b)"
| "js_strict_eq _ _ = False"

subsection \<open>Strings\<close>

definition js_ws :: "char \<Rightarrow> bool" where
  "js_ws c \<longleftrightarrow> c \<in> {CHR 0x09, CHR 0x0A, CHR 0x0B, CHR 0x0C, CHR 0x0D, CHR 0x20}"

definition js_trim :: "string \<Rightarrow> string" where
  "js_trim s = rev (dropWhile js_ws (rev (dropWhile js_ws s)))"

fun starts_with :: "string \<Rightarrow> string \<Rightarrow> bool" where
  "starts_with _ [] = True"
| "starts_with [] (_ # _) = False"
| "starts_with (c # cs) (d # ds) = (c = d \<and> starts_with cs ds)"

text \<open>\<open>hay.includes(needle)\<close>: the needle occurs at some position of the haystack.\<close>

fun js_includes :: "string \<Rightarrow> string \<Rightarrow> bool" where
  "js_includes [] ndl = (ndl = [])"
| "js_includes (c # cs) ndl = (starts_with (c # cs) ndl \<or> js_includes cs ndl)"

lemma starts_with_prefix: "starts_with hay ndl \<longleftrightarrow> prefix ndl hay"
  by (induction hay ndl rule: starts_with.induct) auto

text \<open>The scanning definition agrees with the library's notion of a contiguous sublist.\<close>

lemma js_includes_sublist: "js_includes hay ndl \<longleftrightarrow> sublist ndl hay"
  by (induction hay) (auto simp: starts_with_prefix sublist_Cons_right)

lemma js_includes_append_middle [simp]: "js_includes (xs @ ndl @ ys) ndl"
  by (simp add: js_includes_sublist)

subsection \<open>Reading numbers: parseInt and parseFloat\<close>

text \<open>Character classes by code point: \<open>0\<close>-\<open>9\<close> are 48-57, \<open>A\<close>-\<open>F\<close> 65-70, \<open>a\<close>-\<open>f\<close> 97-102.\<close>

definition is_digit :: "char \<Rightarrow> bool" where
  "is_digit c \<longleftrightarrow> 48 \<le> (of_char c :: nat) \<and> (of_char c :: nat) \<le> 57"

definition is_hex_digit :: "char \<Rightarrow> bool" where
  "is_hex_digit c \<longleftrightarrow> is_digit c \<or> (97 \<le> (of_char c :: nat) \<and> (of_char c :: nat) \<le> 102)
     \<or> (65 \<le> (of_char c :: nat) \<and> (of_char c :: nat) \<le> 70)"

definition digit_val :: "char \<Rightarrow> nat" where
  "digit_val c =
     (if is_digit c then of_char c - 48
      else if 97 \<le> (of_char c :: nat) then of_char c - 87
      else of_char c - 55)"

definition digits_value :: "nat \<Rightarrow> string \<Rightarrow> nat" where
  "digits_value radix ds = foldl (\<lambda>acc c. radix * acc + digit_val c) 0 ds"

text \<open>An optional sign in front of the digits: \<open>True\<close> for a minus.\<close>

fun split_sign :: "string \<Rightarrow> bool \<times> string" where
  "split_sign (c # cs) =
     (if c = CHR ''-'' then (True, cs) else if c = CHR ''+'' then (False, cs) else (False, c # cs))"
| "split_sign [] = (False, [])"

fun split_radix :: "string \<Rightarrow> nat \<times> string" where
  "split_radix (c1 # c2 # cs) =
     (if c1 = CHR ''0'' \<and> (c2 = CHR ''x'' \<or> c2 = CHR ''X'') then (16, cs) else (10, c1 # c2 # cs))"
| "split_radix cs = (10, cs)"

definition signed :: "bool \<Rightarrow> rat \<Rightarrow> rat" where
  "signed neg q = (if neg then - q else q)"

text \<open>
  \<open>parseInt(s)\<close>: leading white space, a sign, a \<open>0x\<close> prefix that switches to
  base 16, then the longest run of digits of the base; \<open>NaN\<close> when that run is
  empty.
\<close>

definition js_parseInt :: "string \<Rightarrow> jsnum" where
  "js_parseInt s =
     (let (neg, s2) = split_sign (dropWhile js_ws s);
          (radix, s3) = split_radix s2;
          ds = takeWhile (if radix = 16 then is_hex_digit else is_digit) s3
      in if ds = [] then NaN else Num (signed neg (of_nat (digits_value radix ds))))"

definition pow10 :: "int \<Rightarrow> rat" where
  "pow10 e = (if 0 \<le> e then 10 ^ nat e else inverse (10 ^ nat (- e)))"

text \<open>
  The exponent part \<open>e[+-]digits\<close> after a mantissa; when no digit follows the
  \<open>e\<close>, the longest numeric prefix stops before it and the exponent is zero.
\<close>

fun scan_exponent :: "string \<Rightarrow> int" where
  "scan_exponent (c # cs) =
     (if c = CHR ''e'' \<or> c = CHR ''E'' then
        (let (neg, r) = split_sign cs; ds = takeWhile is_digit r
         in if ds = [] then 0
            else if neg then - int (digits_value 10 ds) else int (digits_value 10 ds))
      else 0)"
| "scan_exponent [] = 0"

text \<open>
  \<open>parseFloat(s)\<close>: the longest prefix (after white space) that is a
  \<open>StrDecimalLiteral\<close>: a sign, then \<open>Infinity\<close> or digits with an optional
  fraction and exponent; \<open>NaN\<close> when no prefix is one.
\<close>

definition js_parseFloat :: "string \<Rightarrow> jsnum" where
  "js_parseFloat s =
     (let (neg, s2) = split_sign (dropWhile js_ws s)
      in if take 8 s2 = ''Infinity'' then (if neg then NegInf else PosInf)
         else
           (let ip = takeWhile is_digit s2;
                r1 = drop (length ip) s2;
                fp = (case r1 of c # r \<Rightarrow> if c = CHR ''.'' then takeWhile is_digit r else []
                               | [] \<Rightarrow> []);
                r2 = (case r1 of c # r \<Rightarrow> if c = CHR ''.'' then drop (length fp) r else r1
                               | [] \<Rightarrow> [])
            in if ip = [] \<and> fp = [] then NaN
               else Num (signed neg (of_nat (digits_value 10 (ip @ fp)) / 10 ^ length fp
                                     * pow10 (scan_exponent r2)))))"

lemmas js_eval [js_simps] = js_parseInt_def js_parseFloat_def js_trim_def js_ws_def
  is_digit_def is_hex_digit_def digit_val_def digits_value_def signed_def pow10_def

subsection \<open>Printing a natural number in decimal, and reading it back\<close>

fun show_nat :: "nat \<Rightarrow> string" where
  "show_nat n =
     (if n < 10 then [char_of (48 + n)] else show_nat (n div 10) @ [char_of (48 + n mod 10)])"

declare show_nat.simps [simp del]

lemma digit_char: "d < 10 \<Longrightarrow> is_digit (char_of (48 + d)) \<and> digit_val (char_of (48 + d)) = d"
  by (simp add: is_digit_def digit_val_def)

lemma show_nat_digits: "\<forall>c \<in> set (show_nat n). is_digit c"
proof (induction n rule: show_nat.induct)
  case (1 n)
  then show ?case by (subst show_nat.simps) (auto simp: digit_char)
qed

lemma show_nat_nonempty: "show_nat n \<noteq> []"
  by (subst show_nat.simps) simp

lemma digits_value_snoc:
  "digits_value r (xs @ [c]) = r * digits_value r xs + digit_val c"
  by (simp add: digits_value_def)

lemma digits_value_show_nat: "digits_value 10 (show_nat n) = n"
proof (induction n rule: show_nat.induct)
  case (1 n)
  show ?case
  proof (cases "n < 10")
    case True
    then show ?thesis
      by (subst show_nat.simps) (simp add: digits_value_def digit_char)
  next
    case False
    then have "digits_value 10 (show_nat (n div 10)) = n div 10" using "1" by simp
    with False show ?thesis
      by (subst show_nat.simps) (simp add: digits_value_snoc digit_char)
  qed
qed


subsection \<open>A string of digits reads back as its value\<close>

lemma is_digit_not_special: "is_digit c \<Longrightarrow>
    \<not> js_ws c \<and> c \<noteq> CHR ''-'' \<and> c \<noteq> CHR ''+'' \<and> c \<noteq> CHR ''I'' \<and> c \<noteq> CHR ''.''
    \<and> c \<noteq> CHR ''x'' \<and> c \<noteq> CHR ''X''"
  by (auto simp: is_digit_def js_ws_def)

lemma digits_dropWhile_ws: "\<forall>c \<in> set s. is_digit c \<Longrightarrow> dropWhile js_ws s = s"
  by (cases s) (simp_all add: is_digit_not_special)

lemma digits_trim: "\<forall>c \<in> set s. is_digit c \<Longrightarrow> js_trim s = s"
  by (simp add: js_trim_def digits_dropWhile_ws)

lemma digits_split_sign: "\<forall>c \<in> set s. is_digit c \<Longrightarrow> split_sign s = (False, s)"
  by (cases s) (simp_all add: is_digit_not_special)

lemma digits_split_radix: "\<forall>c \<in> set s. is_digit c \<Longrightarrow> split_radix s = (10, s)"
  by (cases s rule: split_radix.cases) (simp_all add: is_digit_not_special)

lemma digits_takeWhile: "\<forall>c \<in> set s. is_digit c \<Longrightarrow> takeWhile is_digit s = s"
  by (simp add: takeWhile_eq_all_conv)

lemma digits_parseInt:
  "s \<noteq> [] \<Longrightarrow> \<forall>c \<in> set s. is_digit c \<Longrightarrow> js_parseInt s = Num (of_nat (digits_value 10 s))"
  by (simp add: js_parseInt_def Let_def digits_dropWhile_ws digits_split_sign digits_split_radix
      digits_takeWhile signed_def)

lemma digits_parseFloat:
  assumes "s \<noteq> []" and "\<forall>c \<in> set s. is_digit c"
  shows "js_parseFloat s = Num (of_nat (digits_value 10 s))"
proof -
  obtain c cs where s: "s = c # cs" and c: "is_digit c" using assms by (cases s) auto
  then have "take 8 s \<noteq> ''Infinity''" by (auto simp: is_digit_not_special)
  with assms show ?thesis
    by (simp add: js_parseFloat_def Let_def digits_dropWhile_ws digits_split_sign digits_takeWhile
        signed_def pow10_def)
qed

corollary show_nat_parse:
  "js_trim (show_nat n) = show_nat n \<and> js_parseInt (show_nat n) = Num (of_nat n)
   \<and> js_parseFloat (show_nat n) = Num (of_nat n)"
  using show_nat_digits [of n] show_nat_nonempty [of n]
  by (simp add: digits_trim digits_parseInt digits_parseFloat digits_value_show_nat)

end
