(* ===== verification/ErrorClassifier.thy ===== *)
theory ErrorClassifier
  imports JsRuntime
begin

text \<open>
  The error classifier: \<open>handleTxError\<close> of \<open>src/frontend/src/App.jsx\<close>
  (lines 12-27), the one place where every failure of a mutating action is turned
  into a notification. A thrown value is either nullish or an object of which the
  classifier reads three places: \<open>e.code\<close>, \<open>e?.data?.originalError?.code\<close> and
  \<open>e?.message\<close>. The result is the spec's closed taxonomy: the user cancelled,
  the payment was insufficient, or a generic failure carrying the caller's default
  message. \<open>e.code\<close> is read without optional chaining, so a nullish thrown value
  makes the classifier itself throw a \<open>TypeError\<close>: the model returns that as
  \<open>Inl\<close>.
\<close>

record err_obj =
  code :: "jsprim option"
  orig_code :: "jsprim option"
  message :: "string option"

datatype thrown = ThrowNullish | ThrowObj err_obj

datatype js_exc = TypeError

datatype tx_class = UserCancelled | InsufficientPayment | Generic string

text \<open>The wallet provider's standard code for a request the user rejected (EIP-1193).\<close>

definition user_rejected_code :: jsprim where
  "user_rejected_code = PNum (Num 4001)"

definition insufficient_text :: string where
  "insufficient_text = ''Monto insuficiente''"

definition is_user_cancel :: "err_obj \<Rightarrow> bool" where
  "is_user_cancel e \<longleftrightarrow>
     (case code e of Some c \<Rightarrow> js_strict_eq c user_rejected_code | None \<Rightarrow> False)
     \<or> (case orig_code e of Some c \<Rightarrow> js_strict_eq c user_rejected_code | None \<Rightarrow> False)"

text \<open>\<open>const msg = e?.message || ""\<close>\<close>

definition err_msg :: "err_obj \<Rightarrow> string" where
  "err_msg e = (case message e of Some m \<Rightarrow> m | None \<Rightarrow> [])"

definition handleTxError :: "thrown \<Rightarrow> string \<Rightarrow> js_exc + tx_class" where
  "handleTxError t defaultMsg =
     (case t of
        ThrowNullish \<Rightarrow> Inl TypeError
      | ThrowObj e \<Rightarrow>
          if is_user_cancel e then Inr UserCancelled
          else if js_includes (err_msg e) insufficient_text then Inr InsufficientPayment
          else Inr (Generic defaultMsg))"

subsection \<open>Error shapes produced by the collaborators\<close>

text \<open>
  A rejection as the EIP-1193 provider reports it (code 4001 on the error itself),
  the same rejection as ethers v6 wraps it (code \<open>ACTION_REJECTED\<close>, the provider's
  code moved to \<open>e.info.error.code\<close>, which the classifier does not read), and a
  call that the contract reverts when ethers estimates its gas before sending it
  (\<open>JsonRpcSigner.sendTransaction\<close> calls \<open>estimateGas\<close>; the node's revert
  data is decoded into the message \<open>execution reverted: "reason"\<close>).
\<close>

definition eip1193_rejection :: err_obj where
  "eip1193_rejection = \<lparr>code = Some (PNum (Num 4001)), orig_code = None,
     message = Some ''User rejected the request.''\<rparr>"

definition ethers6_rejection :: err_obj where
  "ethers6_rejection = \<lparr>code = Some (PStr ''ACTION_REJECTED''), orig_code = None,
     message = Some ''user rejected action''\<rparr>"

definition revert_error :: "string \<Rightarrow> err_obj" where
  "revert_error reason = \<lparr>code = Some (PStr ''CALL_EXCEPTION''), orig_code = None,
     message = Some (''execution reverted: \"'' @ reason @ ''\"'')\<rparr>"

text \<open>
  ethers v6 \<open>TransactionResponse.wait()\<close> on a mined transaction whose status is 0:
  \<open>makeError("transaction execution reverted", "CALL_EXCEPTION", {reason: null, ...})\<close>.
  The receipt carries no revert data, so the reason string is not in the error.
\<close>

definition receipt_revert_error :: err_obj where
  "receipt_revert_error = \<lparr>code = Some (PStr ''CALL_EXCEPTION''), orig_code = None,
     message = Some ''transaction execution reverted''\<rparr>"

lemmas classifier_defs [app_simps] = handleTxError_def is_user_cancel_def err_msg_def
  user_rejected_code_def insufficient_text_def

subsection \<open>How the classifier sees the two revert errors\<close>

text \<open>A needle without the character \<open>c\<close> cannot straddle an occurrence of \<open>c\<close>.\<close>

lemma sublist_split_char:
  assumes "c \<notin> set n" and "n \<noteq> []"
  shows "sublist n (xs @ c # ys) \<longleftrightarrow> sublist n xs \<or> sublist n ys"
proof
  assume "sublist n (xs @ c # ys)"
  then consider "sublist n xs" | "sublist n (c # ys)" | a b where "n = a @ b" "suffix a xs" "prefix b (c # ys)"
    by (auto simp: sublist_append)
  then show "sublist n xs \<or> sublist n ys"
  proof cases
    case 2
    then show ?thesis using assms by (cases n) (auto simp: sublist_Cons_right)
  next
    case (3 a b)
    then show ?thesis using assms by (cases b) auto
  qed simp
next
  show "sublist n xs \<or> sublist n ys \<Longrightarrow> sublist n (xs @ c # ys)"
    by (auto intro: sublist_Cons_right [THEN iffD2] simp: sublist_append)
qed

text \<open>The reason reaches the classifier's substring test intact: the wrapping cannot add a match.\<close>

lemma revert_error_includes:
  "js_includes (err_msg (revert_error r)) insufficient_text \<longleftrightarrow> js_includes r insufficient_text"
proof -
  have q: "CHR 0x22 \<notin> set insufficient_text" and ne: "insufficient_text \<noteq> []"
    by (simp_all add: insufficient_text_def)
  have p: "\<not> sublist insufficient_text ''execution reverted: ''"
    by (simp add: insufficient_text_def js_includes_sublist [symmetric])
  have "js_includes (err_msg (revert_error r)) insufficient_text
      \<longleftrightarrow> sublist insufficient_text (''execution reverted: '' @ CHR 0x22 # (r @ [CHR 0x22]))"
    by (simp add: err_msg_def revert_error_def js_includes_sublist)
  also have "\<dots> \<longleftrightarrow> sublist insufficient_text ''execution reverted: '' \<or> sublist insufficient_text (r @ [CHR 0x22])"
    by (rule sublist_split_char [OF q ne])
  also have "\<dots> \<longleftrightarrow> sublist insufficient_text r"
    using sublist_split_char [OF q ne, of r "[]"] p ne by simp
  finally show ?thesis by (simp add: js_includes_sublist)
qed

lemma revert_error_class:
  "handleTxError (ThrowObj (revert_error r)) d
     = Inr (if js_includes r insufficient_text then InsufficientPayment else Generic d)"
proof -
  have "\<not> is_user_cancel (revert_error r)"
    by (simp add: is_user_cancel_def revert_error_def user_rejected_code_def)
  then show ?thesis by (simp add: handleTxError_def revert_error_includes)
qed

lemma receipt_revert_class: "handleTxError (ThrowObj receipt_revert_error) d = Inr (Generic d)"
  by (simp add: handleTxError_def receipt_revert_error_def is_user_cancel_def user_rejected_code_def
      err_msg_def insufficient_text_def)

end
