(* ===== verification/Validation.thy ===== *)
theory Validation
  imports JsRuntime
begin

text \<open>
  Input validation of a loan request, in the two places the code does it:
  \<^item> \<open>handleSubmit\<close> of \<open>src/frontend/src/components/SolicitarPrestamo.jsx\<close>
    (lines 2-17) reads the two text fields with \<open>parseFloat\<close> and \<open>parseInt\<close>
    and rejects \<open>NaN\<close>, an amount below 0.1 and a term below 1;
  \<^item> \<open>solicitarPrestamo\<close> of \<open>src/frontend/src/App.jsx\<close> (lines 90-99) checks the
    numbers it receives again, with truthiness instead of \<open>isNaN\<close>, and then
    converts the amount to wei with \<open>ethers.parseEther(montoNum.toString())\<close>
    (line 102).
  The spec's \<open>validateRequest\<close> is the App's check, \<open>validateRequest\<close> below.
  Conversions the ethers library performs on the call's arguments (a JS number
  passed for a \<open>uint256\<close> must be a safe non-negative integer) are modelled as
  \<open>ethers_uint_arg\<close>.
\<close>

datatype form_result = FormAlertAmount | FormAlertTerm | FormSubmit jsnum jsnum

definition handleSubmit :: "string \<Rightarrow> string \<Rightarrow> form_result" where
  "handleSubmit monto plazo =
     (let montoNum = js_parseFloat (js_trim monto);
          plazoNum = js_parseInt (js_trim plazo)
      in if js_isNaN montoNum \<or> js_less montoNum (Num 0.1) then FormAlertAmount
         else if js_isNaN plazoNum \<or> js_less plazoNum (Num 1) then FormAlertTerm
         else FormSubmit montoNum plazoNum)"

datatype validation_error = MinAmountError | InvalidTermError

text \<open>\<open>Number(x)\<close> of a number is the number itself, so the guard reads its arguments directly.\<close>

definition validateRequest :: "jsnum \<Rightarrow> jsnum \<Rightarrow> validation_error + jsnum \<times> jsnum" where
  "validateRequest valor plazoDias =
     (if js_falsy valor \<or> js_less valor (Num 0.1) then Inl MinAmountError
      else if js_falsy plazoDias \<or> js_less plazoDias (Num 1) then Inl InvalidTermError
      else Inr (valor, plazoDias))"

text \<open>
  \<open>ethers.parseEther(montoNum.toString())\<close>: \<open>toString\<close> writes a number of
  magnitude at least \<open>10^21\<close> (and below \<open>10^-6\<close>) in exponent notation, and
  \<open>NaN\<close> and the infinities as words, none of which \<open>parseEther\<close> accepts; a
  decimal with more than 18 fractional digits is refused too. Otherwise the amount is
  the number times \<open>10^18\<close>.
\<close>

definition parse_ether_amount :: "jsnum \<Rightarrow> int option" where
  "parse_ether_amount x =
     (case x of
        Num q \<Rightarrow>
          if q \<noteq> 0 \<and> (\<bar>q\<bar> < inverse (10 ^ 6) \<or> 10 ^ 21 \<le> \<bar>q\<bar>) then None
          else if of_int \<lfloor>q * 10 ^ 18\<rfloor> = q * 10 ^ 18 then Some \<lfloor>q * 10 ^ 18\<rfloor>
          else None
      | _ \<Rightarrow> None)"

definition ethers_uint_arg :: "jsnum \<Rightarrow> nat option" where
  "ethers_uint_arg x =
     (case x of
        Num q \<Rightarrow> if of_int \<lfloor>q\<rfloor> = q \<and> 0 \<le> q \<and> q \<le> 2 ^ 53 - 1 then Some (nat \<lfloor>q\<rfloor>) else None
      | _ \<Rightarrow> None)"

lemmas validation_defs [app_simps] = handleSubmit_def validateRequest_def
  parse_ether_amount_def ethers_uint_arg_def

subsection \<open>What the form lets through\<close>

lemma js_parseInt_cases: "js_parseInt s = NaN \<or> (\<exists>k::int. js_parseInt s = Num (of_int k))"
proof -
  have "\<exists>k::int. signed b (of_nat n) = (of_int k :: rat)" for b n
    by (cases b) (auto simp: signed_def intro: exI [where x = "- int n"] exI [where x = "int n"])
  then show ?thesis
    by (auto simp: js_parseInt_def Let_def split: prod.splits)
qed

lemma handleSubmit_submit:
  "handleSubmit m p = FormSubmit a d \<Longrightarrow>
     (a = PosInf \<or> (\<exists>q. a = Num q \<and> 0.1 \<le> q)) \<and> (\<exists>k::int. d = Num (of_int k) \<and> 1 \<le> k)"
proof -
  assume h: "handleSubmit m p = FormSubmit a d"
  then have a: "a = js_parseFloat (js_trim m)" and d: "d = js_parseInt (js_trim p)"
    and na: "\<not> js_isNaN a" "\<not> js_less a (Num 0.1)"
    and nd: "\<not> js_isNaN d" "\<not> js_less d (Num 1)"
    by (auto simp: handleSubmit_def Let_def split: if_splits)
  have "a \<noteq> NegInf" using na by auto
  then have "a = PosInf \<or> (\<exists>q. a = Num q \<and> 0.1 \<le> q)"
    using na by (cases a) auto
  moreover obtain k :: int where "d = Num (of_int k)"
    using js_parseInt_cases [of "js_trim p"] d nd by auto
  then have "\<exists>k::int. d = Num (of_int k) \<and> 1 \<le> k" using nd by auto
  ultimately show ?thesis by blast
qed

subsection \<open>The term is read up to its first non-digit\<close>

lemma trim_digits_prefix:
  assumes "a \<noteq> []" and "\<forall>c \<in> set a. is_digit c"
  shows "\<exists>y. js_trim (a @ x) = a @ y \<and> prefix y x"
proof -
  have l: "dropWhile js_ws (a @ x) = a @ x"
    using assms by (cases a) (simp_all add: is_digit_not_special)
  have ra: "dropWhile js_ws (rev a) = rev a" using assms(2) by (simp add: digits_dropWhile_ws)
  show ?thesis
  proof (cases "\<forall>z \<in> set (rev x). js_ws z")
    case True
    have "dropWhile js_ws (rev x @ rev a) = dropWhile js_ws (rev a)"
      by (rule dropWhile_append2) (use True in auto)
    then have "js_trim (a @ x) = a" by (simp add: js_trim_def l ra)
    then show ?thesis by (intro exI [of _ "[]"]) simp
  next
    case False
    then obtain z where "z \<in> set (rev x)" and "\<not> js_ws z" by blast
    then have "js_trim (a @ x) = a @ rev (dropWhile js_ws (rev x))"
      by (simp add: js_trim_def l dropWhile_append1)
    moreover have "prefix (rev (dropWhile js_ws (rev x))) x"
    proof -
      have "x = rev (dropWhile js_ws (rev x)) @ rev (takeWhile js_ws (rev x))"
        by (metis rev_append rev_rev_ident takeWhile_dropWhile_id)
      then show ?thesis by (metis prefixI)
    qed
    ultimately show ?thesis by blast
  qed
qed

lemma parseInt_digits_then:
  assumes "a \<noteq> []" and "\<forall>c \<in> set a. is_digit c" and "\<not> is_digit c" and "c \<noteq> CHR ''x''"
    and "c \<noteq> CHR ''X''" and "prefix y (c # r)"
  shows "js_parseInt (a @ y) = Num (of_nat (digits_value 10 a))"
proof -
  obtain d ds where a: "a = d # ds" and d: "is_digit d" using assms(1,2) by (cases a) auto
  have y: "y = [] \<or> (\<exists>ys. y = c # ys)" using assms(6) by (cases y) auto
  have t: "takeWhile is_digit (a @ y) = a"
    using assms(2,3) y by auto
  have r: "split_radix (a @ y) = (10, a @ y)"
    using a d assms(2-5) y by (cases ds) (auto simp: is_digit_not_special)
  have w: "dropWhile js_ws (a @ y) = a @ y" and s: "split_sign (a @ y) = (False, a @ y)"
    using a d by (simp_all add: is_digit_not_special)
  show ?thesis
    using assms(1) by (simp only: js_parseInt_def Let_def w s r prod.case) (simp add: signed_def t)
qed

text \<open>
  \<open>parseInt\<close> stops at the first character that is not a digit: a term typed as
  digits followed by a fraction or an exponent is read as its integer part.
\<close>

lemma handleSubmit_term_prefix:
  assumes "a \<noteq> []" and "\<forall>ch \<in> set a. is_digit ch" and "c \<in> {CHR ''.'', CHR ''e'', CHR ''E''}"
  shows "handleSubmit m (a @ c # r) = handleSubmit m a"
proof -
  obtain y where y: "js_trim (a @ c # r) = a @ y" "prefix y (c # r)"
    using trim_digits_prefix [OF assms(1,2)] by blast
  have c: "\<not> is_digit c" "c \<noteq> CHR ''x''" "c \<noteq> CHR ''X''" using assms(3) by (auto simp: is_digit_def)
  have "js_parseInt (js_trim (a @ c # r)) = js_parseInt (js_trim a)"
    using parseInt_digits_then [OF assms(1,2) c y(2)] y(1) assms(1,2)
    by (simp add: digits_trim digits_parseInt)
  then show ?thesis by (simp add: handleSubmit_def)
qed

end
