(* ===== verification/Ledger.thy ===== *)
theory Ledger
  imports Prelude
begin

text \<open>
  The ledger collaborator: the \<open>Microcredito\<close> contract whose ABI the frontend
  imports (\<open>Microcredito.json\<close>, not part of the repository). It is modelled from
  the spec (sections 3 and 6): the loan record with the field names the frontend
  reads, the three mutating calls with their \<open>require\<close> guards as reverts, and
  the three read-only queries. Loans live in an array indexed by their id; the
  interest a loan owes is fixed at creation by the contract's interest rule, which
  the spec leaves open and the model keeps as a parameter of the ledger state. The
  funding time plus the term in days (at 86400 seconds a day) is the maturity.
  A loan's life is the state machine Pending, Funded, Repaid, given as an inductive
  step relation; the invariant \<open>ledger_wf\<close> (spec section 3) holds in every state
  the calls reach.
\<close>

record loan =
  id_loan :: loan_id
  solicitante :: address
  montoPrincipal :: wei
  interes :: wei
  plazoDias :: nat
  financiador :: "address option"
  financiado :: bool
  pagado :: bool
  tiempoVencimiento :: seconds

record ledger =
  loans :: "loan list"
  interest_of :: "wei \<Rightarrow> nat \<Rightarrow> wei"

datatype revert =
  RevInvalidAmount | RevInvalidTerm | RevNoLoan | RevAlreadyFunded | RevWrongFunding
| RevNotFunded | RevAlreadyPaid | RevInsufficient

text \<open>
  Revert reasons. The spec fixes only the text of an underpaid repayment; the other
  texts stand for whatever the contract says. The claims about how a revert is
  reported are stated for any reason text.
\<close>

fun revert_reason :: "revert \<Rightarrow> string" where
  "revert_reason RevInsufficient = ''Monto insuficiente''"
| "revert_reason RevInvalidAmount = ''Monto invalido''"
| "revert_reason RevInvalidTerm = ''Plazo invalido''"
| "revert_reason RevNoLoan = ''Prestamo inexistente''"
| "revert_reason RevAlreadyFunded = ''Ya financiado''"
| "revert_reason RevWrongFunding = ''Monto de financiamiento incorrecto''"
| "revert_reason RevNotFunded = ''No financiado''"
| "revert_reason RevAlreadyPaid = ''Ya pagado''"

datatype call = CallSolicitar wei nat | CallFinanciar loan_id | CallPagar loan_id

definition seconds_per_day :: nat where
  "seconds_per_day = 86400"

definition solicitarPrestamo :: "ledger \<Rightarrow> address \<Rightarrow> wei \<Rightarrow> nat \<Rightarrow> revert + ledger" where
  "solicitarPrestamo l sender amount dias =
     (if amount = 0 then Inl RevInvalidAmount
      else if dias < 1 then Inl RevInvalidTerm
      else Inr (l\<lparr>loans := loans l @
             [\<lparr>id_loan = length (loans l), solicitante = sender, montoPrincipal = amount,
               interes = interest_of l amount dias, plazoDias = dias, financiador = None,
               financiado = False, pagado = False, tiempoVencimiento = 0\<rparr>]\<rparr>))"

definition fund_loan :: "address \<Rightarrow> seconds \<Rightarrow> loan \<Rightarrow> loan" where
  "fund_loan sender now p =
     p\<lparr>financiador := Some sender, financiado := True,
       tiempoVencimiento := now + plazoDias p * seconds_per_day\<rparr>"

definition financiarPrestamo ::
  "ledger \<Rightarrow> address \<Rightarrow> wei \<Rightarrow> seconds \<Rightarrow> loan_id \<Rightarrow> revert + ledger" where
  "financiarPrestamo l sender value now i =
     (if length (loans l) \<le> i then Inl RevNoLoan
      else let p = loans l ! i in
        if financiado p then Inl RevAlreadyFunded
        else if value \<noteq> montoPrincipal p then Inl RevWrongFunding
        else Inr (l\<lparr>loans := (loans l)[i := fund_loan sender now p]\<rparr>))"

definition pagarPrestamo :: "ledger \<Rightarrow> wei \<Rightarrow> loan_id \<Rightarrow> revert + ledger" where
  "pagarPrestamo l value i =
     (if length (loans l) \<le> i then Inl RevNoLoan
      else let p = loans l ! i in
        if \<not> financiado p then Inl RevNotFunded
        else if pagado p then Inl RevAlreadyPaid
        else if value \<noteq> montoPrincipal p + interes p then Inl RevInsufficient
        else Inr (l\<lparr>loans := (loans l)[i := p\<lparr>pagado := True\<rparr>]\<rparr>))"

text \<open>A mined transaction: sender, attached value, block time, the call.\<close>

fun exec_call :: "ledger \<Rightarrow> address \<Rightarrow> wei \<Rightarrow> seconds \<Rightarrow> call \<Rightarrow> revert + ledger" where
  "exec_call l s v t (CallSolicitar a d) = solicitarPrestamo l s a d"
| "exec_call l s v t (CallFinanciar i) = financiarPrestamo l s v t i"
| "exec_call l s v t (CallPagar i) = pagarPrestamo l v i"

definition obtenerPrestamos :: "ledger \<Rightarrow> loan list" where
  "obtenerPrestamos l = loans l"

definition prestamosPorSolicitante :: "ledger \<Rightarrow> address \<Rightarrow> loan list" where
  "prestamosPorSolicitante l a = filter (\<lambda>p. solicitante p = a) (loans l)"

definition prestamosFinanciadosPor :: "ledger \<Rightarrow> address \<Rightarrow> loan list" where
  "prestamosFinanciadosPor l a = filter (\<lambda>p. financiador p = Some a) (loans l)"

lemmas ledger_defs [ledger_simps] = solicitarPrestamo_def financiarPrestamo_def
  pagarPrestamo_def fund_loan_def seconds_per_day_def

subsection \<open>The loan state machine\<close>

datatype loan_state = Pending | Funded | Repaid

definition loan_state :: "loan \<Rightarrow> loan_state" where
  "loan_state p = (if pagado p then Repaid else if financiado p then Funded else Pending)"

text \<open>
  One transition of one loan: funding or repaying, the immutable fields kept.
\<close>

inductive loan_step :: "loan \<Rightarrow> loan \<Rightarrow> bool" where
  fund: "\<not> financiado p \<Longrightarrow> loan_step p (fund_loan s t p)"
| repay: "financiado p \<Longrightarrow> \<not> pagado p \<Longrightarrow> loan_step p (p\<lparr>pagado := True\<rparr>)"

inductive_cases loan_stepE: "loan_step p q"

definition loan_wf :: "loan \<Rightarrow> bool" where
  "loan_wf p \<longleftrightarrow> 0 < montoPrincipal p \<and> 1 \<le> plazoDias p \<and> (pagado p \<longrightarrow> financiado p)
     \<and> (financiado p \<longleftrightarrow> financiador p \<noteq> None)
     \<and> (financiado p \<longleftrightarrow> tiempoVencimiento p \<noteq> 0)"

definition ledger_wf :: "ledger \<Rightarrow> bool" where
  "ledger_wf l \<longleftrightarrow> (\<forall>i < length (loans l).
     id_loan (loans l ! i) = i \<and> loan_wf (loans l ! i)
     \<and> interes (loans l ! i) = interest_of l (montoPrincipal (loans l ! i)) (plazoDias (loans l ! i)))"

definition immutable_eq :: "loan \<Rightarrow> loan \<Rightarrow> bool" where
  "immutable_eq p q \<longleftrightarrow> id_loan q = id_loan p \<and> solicitante q = solicitante p
     \<and> montoPrincipal q = montoPrincipal p \<and> interes q = interes p \<and> plazoDias q = plazoDias p"

lemma loan_step_immutable: "loan_step p q \<Longrightarrow> immutable_eq p q"
  by (erule loan_stepE) (simp_all add: immutable_eq_def fund_loan_def)

lemma loan_step_state:
  "loan_step p q \<Longrightarrow> loan_wf p \<Longrightarrow>
     (loan_state p = Pending \<and> loan_state q = Funded) \<or> (loan_state p = Funded \<and> loan_state q = Repaid)"
  by (erule loan_stepE) (auto simp: loan_state_def fund_loan_def loan_wf_def)

lemma loan_step_wf: "loan_step p q \<Longrightarrow> loan_wf p \<Longrightarrow> loan_wf q"
  by (erule loan_stepE) (auto simp: loan_wf_def fund_loan_def seconds_per_day_def)

subsection \<open>Every call keeps the ledger well formed\<close>

lemma ledger_wf_nth:
  "ledger_wf l \<Longrightarrow> i < length (loans l) \<Longrightarrow>
     id_loan (loans l ! i) = i \<and> loan_wf (loans l ! i)"
  by (simp add: ledger_wf_def)

lemma ledger_wf_update:
  assumes "ledger_wf l" and "i < length (loans l)" and "loan_step (loans l ! i) q"
  shows "ledger_wf (l\<lparr>loans := (loans l)[i := q]\<rparr>)"
proof -
  have "immutable_eq (loans l ! i) q" using assms(3) by (rule loan_step_immutable)
  moreover have "loan_wf q" using assms loan_step_wf ledger_wf_nth by blast
  ultimately show ?thesis
    using assms(1,2) by (auto simp: ledger_wf_def nth_list_update immutable_eq_def)
qed

lemma solicitarPrestamo_wf:
  "ledger_wf l \<Longrightarrow> solicitarPrestamo l s a d = Inr l' \<Longrightarrow> ledger_wf l'"
  by (auto simp: solicitarPrestamo_def ledger_wf_def loan_wf_def nth_append less_Suc_eq
      split: if_splits)

lemma financiarPrestamo_step:
  "financiarPrestamo l s v t i = Inr l' \<Longrightarrow>
     i < length (loans l) \<and> loan_step (loans l ! i) (fund_loan s t (loans l ! i))
     \<and> l' = l\<lparr>loans := (loans l)[i := fund_loan s t (loans l ! i)]\<rparr>"
  by (auto simp: financiarPrestamo_def Let_def intro: loan_step.fund split: if_splits)

lemma pagarPrestamo_step:
  "pagarPrestamo l v i = Inr l' \<Longrightarrow>
     i < length (loans l) \<and> loan_step (loans l ! i) ((loans l ! i)\<lparr>pagado := True\<rparr>)
     \<and> l' = l\<lparr>loans := (loans l)[i := (loans l ! i)\<lparr>pagado := True\<rparr>]\<rparr>"
  by (auto simp: pagarPrestamo_def Let_def intro: loan_step.repay split: if_splits)

lemma exec_call_wf:
  "ledger_wf l \<Longrightarrow> exec_call l s v t c = Inr l' \<Longrightarrow> ledger_wf l'"
  by (cases c) (auto dest: solicitarPrestamo_wf financiarPrestamo_step pagarPrestamo_step
      intro: ledger_wf_update)

lemma ledger_wf_empty: "ledger_wf \<lparr>loans = [], interest_of = f\<rparr>"
  by (simp add: ledger_wf_def)

text \<open>
  A successful call changes the loans array only by appending a fresh Pending loan
  or by one step of one loan's state machine.
\<close>

lemma exec_call_effect:
  assumes that: "exec_call l s v t c = Inr l'"
  shows "interest_of l' = interest_of l \<and>
     ((\<exists>p. loans l' = loans l @ [p] \<and> loan_state p = Pending)
      \<or> (\<exists>i q. i < length (loans l) \<and> loan_step (loans l ! i) q \<and> loans l' = (loans l)[i := q]))"
proof (cases c)
  case (CallSolicitar a d)
  then have "interest_of l' = interest_of l \<and> (\<exists>p. loans l' = loans l @ [p] \<and> loan_state p = Pending)"
    using that by (auto simp: solicitarPrestamo_def loan_state_def split: if_splits
        intro!: exI [where x = "last (loans l')"])
  then show ?thesis by blast
next
  case (CallFinanciar i)
  then have "financiarPrestamo l s v t i = Inr l'" using that by simp
  from financiarPrestamo_step [OF this] show ?thesis by (intro conjI disjI2) auto
next
  case (CallPagar i)
  then have "pagarPrestamo l v i = Inr l'" using that by simp
  from pagarPrestamo_step [OF this] show ?thesis by (intro conjI disjI2) auto
qed

end
