(* ===== verification/AppState.thy ===== *)
theory AppState
  imports ErrorClassifier Validation Ledger
begin

text \<open>
  The state of the frontend (\<open>function App\<close> of \<open>src/frontend/src/App.jsx\<close>,
  the \<open>useState\<close> hooks of lines 30-37), the notifications it raises with
  \<open>alert\<close>, and the asynchronous handlers that are suspended at an \<open>await\<close>.
  React state is one record; the \<open>loadingAction\<close> hook is the spec's ActionSlot.
  The contract object is bound to the signer's address at start-up; the model keeps
  that address as \<open>contract\<close> (\<open>None\<close> while the hook still holds \<open>null\<close>).
  A suspended handler is a \<open>task\<close>: the code it resumes when its promise settles
  is the task's constructor, the values it closed over are its arguments (the
  signer the contract object was bound to, the call, the account).
\<close>

datatype vista = Formulario | Solicitado | Financiado

datatype action_type = ASolicitar | AFinanciar | APagar

record slot =
  sl_type :: "action_type option"
  sl_id :: "loan_id option"

definition idle_slot :: slot where
  "idle_slot = \<lparr>sl_type = None, sl_id = None\<rparr>"

record app_state =
  vista :: vista
  account :: "address option"
  contract :: "address option"
  prestamos :: "loan list"
  historial :: "loan list"
  monto :: string
  plazo :: string
  loadingAction :: slot

definition init_app :: app_state where
  "init_app = \<lparr>vista = Formulario, account = None, contract = None, prestamos = [],
     historial = [], monto = [], plazo = [], loadingAction = idle_slot\<rparr>"

text \<open>
  The mutating call a handler has asked the contract object for, with the arguments
  as JavaScript holds them: the amount from \<open>parseEther\<close> is a BigInt, the term a
  number that ethers still has to encode.
\<close>

datatype pcall = PSolicitar int jsnum | PFinanciar loan_id wei | PPagar loan_id wei

fun slot_of :: "pcall \<Rightarrow> slot" where
  "slot_of (PSolicitar _ _) = \<lparr>sl_type = Some ASolicitar, sl_id = None\<rparr>"
| "slot_of (PFinanciar i _) = \<lparr>sl_type = Some AFinanciar, sl_id = Some i\<rparr>"
| "slot_of (PPagar i _) = \<lparr>sl_type = Some APagar, sl_id = Some i\<rparr>"

fun action_of :: "pcall \<Rightarrow> action_type" where
  "action_of (PSolicitar _ _) = ASolicitar"
| "action_of (PFinanciar _ _) = AFinanciar"
| "action_of (PPagar _ _) = APagar"

datatype task =
  TxSubmit address pcall
| TxWait address pcall call wei
| TxReload pcall
| LoadActive
| LoadHist vista "address option"
| InitAccounts
| InitNetwork
| InitSigner

fun tx_call :: "task \<Rightarrow> pcall option" where
  "tx_call (TxSubmit _ pc) = Some pc"
| "tx_call (TxWait _ pc _ _) = Some pc"
| "tx_call (TxReload pc) = Some pc"
| "tx_call _ = None"

definition is_tx :: "task \<Rightarrow> bool" where
  "is_tx t \<longleftrightarrow> tx_call t \<noteq> None"

text \<open>The calls of the transaction handlers still in flight, in task order.\<close>

definition pending_calls :: "task list \<Rightarrow> pcall list" where
  "pending_calls ts = List.map_filter tx_call ts"

text \<open>
  The default messages of the three handlers (lines 110, 126, 150), with the
  \<open>e\<close> acute of \<open>prestamo\<close> written as its two UTF-8 bytes.
\<close>

definition prestamo_word :: string where
  "prestamo_word = ''pr'' @ [CHR 0xC3, CHR 0xA9] @ ''stamo''"

fun default_msg :: "action_type \<Rightarrow> string" where
  "default_msg ASolicitar = ''No se pudo solicitar el '' @ prestamo_word"
| "default_msg AFinanciar = ''No se pudo financiar el '' @ prestamo_word"
| "default_msg APagar = ''No se pudo pagar el '' @ prestamo_word"

datatype alert =
  AlertMetaMask | AlertSwitchNetwork | AlertNoContract
| AlertFormAmount | AlertFormTerm | AlertMinAmount | AlertInvalidTerm | AlertTooEarly
| AlertSuccess action_type | AlertTx tx_class

text \<open>
  The world: the frontend, the ledger, the pending tasks, the notifications raised
  so far (oldest first) and the clock in seconds (\<open>Math.floor(Date.now() / 1000)\<close>,
  also the block time of a mined transaction).
\<close>

record world =
  app :: app_state
  chain :: ledger
  tasks :: "task list"
  alerts :: "alert list"
  clock :: seconds

lemma is_tx_simps [simp]:
  "is_tx (TxSubmit a pc)" "is_tx (TxWait a pc c v)" "is_tx (TxReload pc)"
  "\<not> is_tx LoadActive" "\<not> is_tx (LoadHist vw ao)"
  "\<not> is_tx InitAccounts" "\<not> is_tx InitNetwork" "\<not> is_tx InitSigner"
  by (simp_all add: is_tx_def)

lemma pending_calls_snoc [simp]:
  "pending_calls (ts @ [t]) = pending_calls ts @ (case tx_call t of Some pc \<Rightarrow> [pc] | None \<Rightarrow> [])"
  by (simp add: pending_calls_def map_filter_append split: option.splits)

lemma pending_calls_mem: "t \<in> set ts \<Longrightarrow> tx_call t = Some pc \<Longrightarrow> pc \<in> set (pending_calls ts)"
  by (induction ts) (auto simp: pending_calls_def split: option.splits)

lemma slot_of_not_idle [simp]: "slot_of pc \<noteq> idle_slot"
  by (cases pc) (simp_all add: idle_slot_def)

end
