(* ===== verification/View.thy ===== *)
theory View
  imports AppState
begin

text \<open>
  What the render of \<open>App\<close> (\<open>src/frontend/src/App.jsx\<close>, lines 184-316) and
  of \<open>BotonesHistorial\<close> derives from the state and that the handlers depend on:
  the total a loan shows and sends, whether a button is in
  its loading state, and which buttons are on screen and enabled. A click can only
  reach a handler through a rendered, enabled button, and the handler receives the
  loan object of that render; \<open>fund_target\<close> and \<open>pay_target\<close> return that loan.
  The request form's button is rendered with a \<open>loading\<close> prop that
  \<open>SolicitarPrestamo\<close> never reads, so it is never disabled.
\<close>

text \<open>\<open>const totalWei = p.montoPrincipal + p.interes\<close>: BigInt addition, exact.\<close>

definition totalWei :: "loan \<Rightarrow> wei" where
  "totalWei p = montoPrincipal p + interes p"

definition isLoading :: "app_state \<Rightarrow> action_type \<Rightarrow> loan_id \<Rightarrow> bool" where
  "isLoading s t i \<longleftrightarrow> sl_type (loadingAction s) = Some t \<and> sl_id (loadingAction s) = Some i"

text \<open>
  Line 259: \<open>const canPay = p.financiado && !p.pagado;\<close>. The expression on lines
  260-262, which also compares the clock with the maturity, is a separate statement
  whose value is discarded: the button does not depend on the time.
\<close>

definition canPay :: "loan \<Rightarrow> bool" where
  "canPay p \<longleftrightarrow> financiado p \<and> \<not> pagado p"

text \<open>The \<open>Financiar\<close> button of an unfunded loan in the list of active requests (lines 235-242).\<close>

definition fund_target :: "app_state \<Rightarrow> loan_id \<Rightarrow> loan option" where
  "fund_target s i =
     (if vista s = Formulario \<and> prestamos s \<noteq> [] then
        (case find (\<lambda>p. id_loan p = i \<and> \<not> financiado p) (prestamos s) of
           Some p \<Rightarrow> if isLoading s AFinanciar i then None else Some p
         | None \<Rightarrow> None)
      else None)"

text \<open>The \<open>Pagar\<close> button of the requester's history (lines 283-292).\<close>

definition pay_target :: "app_state \<Rightarrow> loan_id \<Rightarrow> loan option" where
  "pay_target s i =
     (if vista s = Solicitado then
        (case find (\<lambda>p. id_loan p = i \<and> canPay p \<and> \<not> pagado p) (historial s) of
           Some p \<Rightarrow> if isLoading s APagar i then None else Some p
         | None \<Rightarrow> None)
      else None)"

text \<open>The \<open>Volver\<close> buttons of the two history views (lines 297 and 312).\<close>

definition volver_visible :: "app_state \<Rightarrow> bool" where
  "volver_visible s \<longleftrightarrow> vista s \<noteq> Formulario"

text \<open>The request form (lines 197-206) is shown in the form view, its button always enabled.\<close>

definition form_visible :: "app_state \<Rightarrow> bool" where
  "form_visible s \<longleftrightarrow> vista s = Formulario"

lemmas view_defs [app_simps] = fund_target_def pay_target_def isLoading_def canPay_def
  volver_visible_def form_visible_def totalWei_def

lemma fund_target_Some:
  "fund_target s i = Some p \<Longrightarrow>
     p \<in> set (prestamos s) \<and> id_loan p = i \<and> \<not> financiado p \<and> \<not> isLoading s AFinanciar i"
  by (auto simp: fund_target_def dest: find_Some_iff [THEN iffD1] split: if_splits option.splits)

lemma pay_target_Some:
  "pay_target s i = Some p \<Longrightarrow>
     p \<in> set (historial s) \<and> id_loan p = i \<and> financiado p \<and> \<not> pagado p \<and> \<not> isLoading s APagar i"
  by (auto simp: pay_target_def canPay_def dest: find_Some_iff [THEN iffD1]
      split: if_splits option.splits)

lemma fund_target_loading: "isLoading s AFinanciar i \<Longrightarrow> fund_target s i = None"
  by (simp add: fund_target_def split: option.splits)

lemma pay_target_loading: "isLoading s APagar i \<Longrightarrow> pay_target s i = None"
  by (simp add: pay_target_def split: option.splits)

end
