(* ===== verification/Orchestrator.thy ===== *)
theory Orchestrator
  imports View
begin

text \<open>
  The transaction orchestration of \<open>src/frontend/src/App.jsx\<close>: the start-up
  effect (lines 58-85), \<open>ensureContract\<close> (40-46), \<open>loadPrestamos\<close> (49-56), the
  three mutating handlers \<open>solicitarPrestamo\<close> (88-114), \<open>financiarPrestamo\<close>
  (117-130) and \<open>pagarPrestamo\<close> (133-154), the history views (157-182), and
  \<open>handleSubmit\<close> of the request form. A handler runs synchronously up to its first
  \<open>await\<close>; what remains is a task of the world. The event \<open>EvResume i out\<close>
  settles the promise the \<open>i\<close>-th task waits for, with the outcome the wallet, the
  node or the ledger decides, and runs the handler on to its next \<open>await\<close> or to
  its end. Other events are the user's (typing, clicking a rendered button), other
  clients' transactions, and the passing of time. Any order of these events is a
  possible execution: single-threaded, but interleaved at every \<open>await\<close>.
\<close>

datatype button =
  BtnSolicitar | BtnFinanciar loan_id | BtnPagar loan_id
| BtnVerSolicitado | BtnVerFinanciado | BtnVolver

datatype outcome = Resolve | Reject thrown | ResolveChain jsprim | ResolveAddr address

datatype event =
  EvTypeMonto string | EvTypePlazo string | EvClick button | EvResume nat outcome
| EvChain address wei call | EvTick nat

subsection \<open>Effects shared by the handlers\<close>

definition raise_alert :: "alert \<Rightarrow> world \<Rightarrow> world" where
  "raise_alert a w = w\<lparr>alerts := alerts w @ [a]\<rparr>"

definition spawn :: "task \<Rightarrow> world \<Rightarrow> world" where
  "spawn t w = w\<lparr>tasks := tasks w @ [t]\<rparr>"

definition set_loading :: "slot \<Rightarrow> world \<Rightarrow> world" where
  "set_loading sl w = w\<lparr>app := (app w)\<lparr>loadingAction := sl\<rparr>\<rparr>"

definition drop_task :: "nat \<Rightarrow> world \<Rightarrow> world" where
  "drop_task i w = w\<lparr>tasks := del_nth i (tasks w)\<rparr>"

text \<open>The \<open>catch\<close> block: \<open>handleTxError(e, defaultMsg)\<close>; when it throws, nothing is shown.\<close>

definition report_error :: "thrown \<Rightarrow> action_type \<Rightarrow> world \<Rightarrow> world" where
  "report_error e a w =
     (case handleTxError e (default_msg a) of Inl _ \<Rightarrow> w | Inr c \<Rightarrow> raise_alert (AlertTx c) w)"

text \<open>What ethers throws for an argument it cannot encode (\<open>parseEther\<close>, a \<open>uint256\<close>).\<close>

definition ethers_arg_error :: thrown where
  "ethers_arg_error = ThrowObj \<lparr>code = Some (PStr ''INVALID_ARGUMENT''), orig_code = None,
     message = Some ''invalid argument''\<rparr>"

definition ensureContract :: "world \<Rightarrow> bool" where
  "ensureContract w \<longleftrightarrow> contract (app w) \<noteq> None"

subsection \<open>The handlers, up to their first await\<close>

definition solicitarPrestamo_ui :: "jsnum \<Rightarrow> jsnum \<Rightarrow> world \<Rightarrow> world" where
  "solicitarPrestamo_ui valor plazoArg w =
     (case contract (app w) of
        None \<Rightarrow> raise_alert AlertNoContract w
      | Some signer \<Rightarrow>
          (case validateRequest valor plazoArg of
             Inl MinAmountError \<Rightarrow> raise_alert AlertMinAmount w
           | Inl InvalidTermError \<Rightarrow> raise_alert AlertInvalidTerm w
           | Inr (montoNum, plazoNum) \<Rightarrow>
               (let w1 = set_loading \<lparr>sl_type = Some ASolicitar, sl_id = None\<rparr> w
                in case parse_ether_amount montoNum of
                     None \<Rightarrow> set_loading idle_slot (report_error ethers_arg_error ASolicitar w1)
                   | Some amount \<Rightarrow> spawn (TxSubmit signer (PSolicitar amount plazoNum)) w1)))"

definition handleSubmit_ui :: "world \<Rightarrow> world" where
  "handleSubmit_ui w =
     (case handleSubmit (monto (app w)) (plazo (app w)) of
        FormAlertAmount \<Rightarrow> raise_alert AlertFormAmount w
      | FormAlertTerm \<Rightarrow> raise_alert AlertFormTerm w
      | FormSubmit a d \<Rightarrow> solicitarPrestamo_ui a d w)"

definition financiarPrestamo_ui :: "loan_id \<Rightarrow> wei \<Rightarrow> world \<Rightarrow> world" where
  "financiarPrestamo_ui i totalW w =
     (case contract (app w) of
        None \<Rightarrow> raise_alert AlertNoContract w
      | Some signer \<Rightarrow> spawn (TxSubmit signer (PFinanciar i totalW)) (set_loading (slot_of (PFinanciar i totalW)) w))"

definition unDia :: int where
  "unDia = 24 * 60 * 60"

definition pagarPrestamo_ui :: "loan_id \<Rightarrow> loan \<Rightarrow> world \<Rightarrow> world" where
  "pagarPrestamo_ui i p w =
     (case contract (app w) of
        None \<Rightarrow> raise_alert AlertNoContract w
      | Some signer \<Rightarrow>
          (let ahora = int (clock w); venc = int (tiempoVencimiento p)
           in if ahora < venc - unDia then raise_alert AlertTooEarly w
              else let totalW = montoPrincipal p + interes p
                   in spawn (TxSubmit signer (PPagar i totalW)) (set_loading (slot_of (PPagar i totalW)) w)))"

definition verHistorial :: "vista \<Rightarrow> world \<Rightarrow> world" where
  "verHistorial v w =
     (if ensureContract w then spawn (LoadHist v (account (app w))) w
      else raise_alert AlertNoContract w)"

definition verFormulario :: "world \<Rightarrow> world" where
  "verFormulario w =
     (let w1 = w\<lparr>app := (app w)\<lparr>vista := Formulario\<rparr>\<rparr>
      in if contract (app w) \<noteq> None then spawn LoadActive w1 else w1)"

fun click :: "button \<Rightarrow> world \<Rightarrow> world" where
  "click BtnSolicitar w = (if form_visible (app w) then handleSubmit_ui w else w)"
| "click (BtnFinanciar i) w =
     (case fund_target (app w) i of Some p \<Rightarrow> financiarPrestamo_ui (id_loan p) (totalWei p) w | None \<Rightarrow> w)"
| "click (BtnPagar i) w =
     (case pay_target (app w) i of Some p \<Rightarrow> pagarPrestamo_ui (id_loan p) p w | None \<Rightarrow> w)"
| "click BtnVerSolicitado w = verHistorial Solicitado w"
| "click BtnVerFinanciado w = verHistorial Financiado w"
| "click BtnVolver w = (if volver_visible (app w) then verFormulario w else w)"

subsection \<open>Resuming a suspended handler\<close>

text \<open>
  The first await of a transaction handler, \<open>await contract.f(args, {value})\<close>,
  settles after ethers has encoded the arguments, estimated the gas against the
  current ledger (a call that would revert rejects here, with its reason) and the
  wallet has signed and sent the transaction. The second, \<open>await tx.wait()\<close>,
  settles when the transaction is mined on the ledger as it then is; a revert there
  rejects with the receipt's reasonless error.
\<close>

text \<open>ethers encodes the arguments before the wallet is asked: a bad one rejects at once.\<close>

fun encode_call :: "pcall \<Rightarrow> (call \<times> wei) option" where
  "encode_call (PSolicitar amount d) =
     (case ethers_uint_arg d of
        Some k \<Rightarrow> if 0 \<le> amount then Some (CallSolicitar (nat amount) k, 0) else None
      | None \<Rightarrow> None)"
| "encode_call (PFinanciar i v) = Some (CallFinanciar i, v)"
| "encode_call (PPagar i v) = Some (CallPagar i, v)"

text \<open>\<open>catch\<close> then \<open>finally\<close>: report, clear the slot, and the handler is done.\<close>

definition tx_failed :: "nat \<Rightarrow> pcall \<Rightarrow> thrown \<Rightarrow> world \<Rightarrow> world" where
  "tx_failed i pc e w = set_loading idle_slot (report_error e (action_of pc) (drop_task i w))"

text \<open>
  After \<open>tx.wait()\<close>: the request and funding handlers go on to
  \<open>await loadPrestamos(contract)\<close>; the repayment handler shows its success,
  starts \<open>verHistorialSolicitado()\<close> without awaiting it, and ends.
\<close>

definition tx_mined :: "nat \<Rightarrow> pcall \<Rightarrow> world \<Rightarrow> world" where
  "tx_mined i pc w =
     (case pc of
        PPagar _ _ \<Rightarrow>
          set_loading idle_slot (verHistorial Solicitado (raise_alert (AlertSuccess APagar) (drop_task i w)))
      | _ \<Rightarrow> w\<lparr>tasks := (tasks w)[i := TxReload pc]\<rparr>)"

text \<open>After \<open>await loadPrestamos(contract)\<close> (which catches its own errors).\<close>

definition reload_done :: "nat \<Rightarrow> pcall \<Rightarrow> world \<Rightarrow> world" where
  "reload_done i pc w =
     (let w1 = (case pc of
                  PSolicitar _ _ \<Rightarrow> w\<lparr>app := (app w)\<lparr>monto := [], plazo := []\<rparr>\<rparr>
                | _ \<Rightarrow> w)
      in set_loading idle_slot (raise_alert (AlertSuccess (action_of pc)) (drop_task i w1)))"

definition load_active :: "world \<Rightarrow> world" where
  "load_active w = w\<lparr>app := (app w)\<lparr>prestamos := obtenerPrestamos (chain w)\<rparr>\<rparr>"

definition history_query :: "vista \<Rightarrow> ledger \<Rightarrow> address \<Rightarrow> loan list" where
  "history_query v l a =
     (if v = Solicitado then prestamosPorSolicitante l a else prestamosFinanciadosPor l a)"

definition chain_alfajores :: jsprim where
  "chain_alfajores = PNum (Num 44787)"

definition resume_task :: "nat \<Rightarrow> outcome \<Rightarrow> world \<Rightarrow> world" where
  "resume_task i out w =
     (if length (tasks w) \<le> i then w
      else case tasks w ! i of
        TxSubmit signer pc \<Rightarrow>
          (case encode_call pc of
             None \<Rightarrow> tx_failed i pc ethers_arg_error w
           | Some (c, v) \<Rightarrow>
               (case exec_call (chain w) signer v (clock w) c of
                  Inl r \<Rightarrow> tx_failed i pc (ThrowObj (revert_error (revert_reason r))) w
                | Inr _ \<Rightarrow>
                    (case out of
                       Reject e \<Rightarrow> tx_failed i pc e w
                     | _ \<Rightarrow> w\<lparr>tasks := (tasks w)[i := TxWait signer pc c v]\<rparr>)))
      | TxWait signer pc c v \<Rightarrow>
          (case out of
             Reject e \<Rightarrow> tx_failed i pc e w
           | _ \<Rightarrow>
               (case exec_call (chain w) signer v (clock w) c of
                  Inl _ \<Rightarrow> tx_failed i pc (ThrowObj receipt_revert_error) w
                | Inr l' \<Rightarrow> tx_mined i pc (w\<lparr>chain := l'\<rparr>)))
      | TxReload pc \<Rightarrow>
          reload_done i pc (case out of Reject _ \<Rightarrow> w | _ \<Rightarrow> load_active w)
      | LoadActive \<Rightarrow>
          drop_task i (case out of Reject _ \<Rightarrow> w | _ \<Rightarrow> load_active w)
      | LoadHist v acct \<Rightarrow>
          (case (out, acct) of
             (Reject _, _) \<Rightarrow> drop_task i w
           | (_, None) \<Rightarrow> drop_task i w
           | (_, Some a) \<Rightarrow>
               drop_task i (w\<lparr>app := (app w)\<lparr>historial := history_query v (chain w) a,
                                               vista := v\<rparr>\<rparr>))
      | InitAccounts \<Rightarrow>
          (case out of
             Reject _ \<Rightarrow> drop_task i w
           | _ \<Rightarrow> w\<lparr>tasks := (tasks w)[i := InitNetwork]\<rparr>)
      | InitNetwork \<Rightarrow>
          (case out of
             Reject _ \<Rightarrow> w\<lparr>tasks := (tasks w)[i := InitSigner]\<rparr>
           | ResolveChain c \<Rightarrow>
               (let w1 = if js_strict_eq c chain_alfajores then w else raise_alert AlertSwitchNetwork w
                in w1\<lparr>tasks := (tasks w)[i := InitSigner]\<rparr>)
           | _ \<Rightarrow> w)
      | InitSigner \<Rightarrow>
          (case out of
             Reject _ \<Rightarrow> drop_task i w
           | ResolveAddr a \<Rightarrow>
               spawn LoadActive (drop_task i (w\<lparr>app := (app w)\<lparr>account := Some a, contract := Some a\<rparr>\<rparr>))
           | _ \<Rightarrow> w))"

subsection \<open>Events, runs and reachable worlds\<close>

text \<open>
  Typing reaches \<open>monto\<close> and \<open>plazo\<close> through the inputs' \<open>onChange\<close>
  (SolicitarPrestamo.jsx 23-41), which exist only while the form is rendered.
\<close>

fun step :: "world \<Rightarrow> event \<Rightarrow> world" where
  "step w (EvTypeMonto s) = (if form_visible (app w) then w\<lparr>app := (app w)\<lparr>monto := s\<rparr>\<rparr> else w)"
| "step w (EvTypePlazo s) = (if form_visible (app w) then w\<lparr>app := (app w)\<lparr>plazo := s\<rparr>\<rparr> else w)"
| "step w (EvClick b) = click b w"
| "step w (EvResume i out) = resume_task i out w"
| "step w (EvChain s v c) =
     w\<lparr>chain := (case exec_call (chain w) s v (clock w) c of Inr l' \<Rightarrow> l' | Inl _ \<Rightarrow> chain w)\<rparr>"
| "step w (EvTick n) = w\<lparr>clock := clock w + n\<rparr>"

definition run :: "world \<Rightarrow> event list \<Rightarrow> world" where
  "run w es = foldl step w es"

text \<open>
  The start-up effect runs once after the first render: without a wallet it alerts
  and returns; otherwise it asks for the accounts, which suspends it.
\<close>

definition init_world :: "bool \<Rightarrow> ledger \<Rightarrow> seconds \<Rightarrow> world" where
  "init_world has_wallet l t =
     \<lparr>app = init_app, chain = l, tasks = (if has_wallet then [InitAccounts] else []),
      alerts = (if has_wallet then [] else [AlertMetaMask]), clock = t\<rparr>"

inductive reach :: "world \<Rightarrow> bool" where
  init: "ledger_wf l \<Longrightarrow> reach (init_world eth l t)"
| step: "reach w \<Longrightarrow> reach (step w e)"

lemma reach_run: "reach w \<Longrightarrow> reach (run w es)"
  by (induction es arbitrary: w) (simp_all add: run_def reach.step)

lemma run_append: "run w (xs @ ys) = run (run w xs) ys"
  by (simp add: run_def)

lemma run_Cons: "run w (e # es) = run (step w e) es"
  by (simp add: run_def)

text \<open>Which parts of the world the shared effects touch.\<close>

lemma effect_frames [simp]:
  "app (raise_alert a w) = app w" "tasks (raise_alert a w) = tasks w"
  "chain (raise_alert a w) = chain w" "clock (raise_alert a w) = clock w"
  "app (spawn t w) = app w" "tasks (spawn t w) = tasks w @ [t]"
  "chain (spawn t w) = chain w" "clock (spawn t w) = clock w"
  "app (set_loading sl w) = (app w)\<lparr>loadingAction := sl\<rparr>" "tasks (set_loading sl w) = tasks w"
  "chain (set_loading sl w) = chain w" "clock (set_loading sl w) = clock w"
  "alerts (set_loading sl w) = alerts w"
  "app (drop_task i w) = app w" "tasks (drop_task i w) = del_nth i (tasks w)"
  "chain (drop_task i w) = chain w" "clock (drop_task i w) = clock w"
  "alerts (drop_task i w) = alerts w"
  by (simp_all add: raise_alert_def spawn_def set_loading_def drop_task_def)

lemma report_error_frames [simp]:
  "app (report_error e a w) = app w" "tasks (report_error e a w) = tasks w"
  "chain (report_error e a w) = chain w" "clock (report_error e a w) = clock w"
  by (simp_all add: report_error_def split: sum.splits)

lemma tx_failed_slot [simp]: "loadingAction (app (tx_failed i pc e w)) = idle_slot"
  by (simp add: tx_failed_def)

lemma step_click_fund:
  "fund_target (app w) i = Some p \<Longrightarrow> step w (EvClick (BtnFinanciar i)) = financiarPrestamo_ui i (totalWei p) w"
  by (frule fund_target_Some) simp

lemma step_click_pay:
  "pay_target (app w) i = Some p \<Longrightarrow> step w (EvClick (BtnPagar i)) = pagarPrestamo_ui i p w"
  by (frule pay_target_Some) simp

text \<open>A transaction handler whose promise rejects always ends, and its \<open>finally\<close> clears the slot.\<close>

lemma resume_reject_tx:
  assumes "i < length (tasks w)" and "is_tx (tasks w ! i)"
  shows "loadingAction (app (resume_task i (Reject e) w)) = idle_slot"
  using assms
  by (cases "tasks w ! i")
     (auto simp: resume_task_def reload_done_def Let_def is_tx_def split: option.splits sum.splits)

lemmas orchestrator_defs [app_simps] = raise_alert_def spawn_def set_loading_def drop_task_def
  report_error_def ethers_arg_error_def ensureContract_def solicitarPrestamo_ui_def
  handleSubmit_ui_def financiarPrestamo_ui_def unDia_def pagarPrestamo_ui_def verHistorial_def
  verFormulario_def tx_failed_def tx_mined_def reload_done_def load_active_def
  history_query_def chain_alfajores_def resume_task_def init_world_def

end
