(* ===== verification/SingleFlight.thy ===== *)
theory SingleFlight
  imports Orchestrator
begin

text \<open>
  The action slot (\<open>loadingAction\<close>) against the transactions actually in flight.
  The invariant \<open>slot_ok\<close>: the slot is idle or names a call some pending task is
  carrying out. Every event keeps it; hence, in every reachable world, the slot is
  idle as soon as no transaction is pending (no stuck busy state), and a busy slot
  always belongs to a live transaction. The converse fails: the slot is one hook
  that every handler overwrites and every handler's \<open>finally\<close> clears, so it tracks
  only the latest action, which is what lets a second submission through.
\<close>

definition slot_ok :: "slot \<Rightarrow> task list \<Rightarrow> bool" where
  "slot_ok sl ts \<longleftrightarrow> sl = idle_slot \<or> sl \<in> slot_of ` set (pending_calls ts)"

definition slot_inv :: "world \<Rightarrow> bool" where
  "slot_inv w \<longleftrightarrow> slot_ok (loadingAction (app w)) (tasks w)"

lemma slot_ok_idle [simp]: "slot_ok idle_slot ts"
  by (simp add: slot_ok_def)

lemma slot_ok_mono:
  "slot_ok sl ts \<Longrightarrow> set (pending_calls ts) \<subseteq> set (pending_calls ts') \<Longrightarrow> slot_ok sl ts'"
  by (auto simp: slot_ok_def)

lemma slot_ok_spawn [intro]: "slot_ok sl ts \<Longrightarrow> slot_ok sl (ts @ [t])"
  by (erule slot_ok_mono) (auto split: option.splits)

lemma slot_ok_spawn_tx: "slot_ok (slot_of pc) (ts @ [TxSubmit s pc])"
  by (simp add: slot_ok_def)

lemma slot_ok_update:
  "i < length ts \<Longrightarrow> tx_call t = tx_call (ts ! i) \<Longrightarrow> slot_ok sl ts \<Longrightarrow> slot_ok sl (ts[i := t])"
  by (simp add: slot_ok_def pending_calls_def map_filter_update_same)

lemma slot_ok_drop_non_tx:
  "i < length ts \<Longrightarrow> tx_call (ts ! i) = None \<Longrightarrow> slot_ok sl ts \<Longrightarrow> slot_ok sl (del_nth i ts)"
  by (simp add: slot_ok_def pending_calls_def map_filter_del_nth_None)


subsection \<open>Every event keeps the slot invariant\<close>

lemma solicitarPrestamo_ui_slot: "slot_inv w \<Longrightarrow> slot_inv (solicitarPrestamo_ui a d w)"
  by (auto simp: solicitarPrestamo_ui_def slot_inv_def Let_def slot_ok_def
      split: option.splits sum.splits validation_error.splits)

lemma handleSubmit_ui_slot: "slot_inv w \<Longrightarrow> slot_inv (handleSubmit_ui w)"
  by (auto simp: handleSubmit_ui_def slot_inv_def solicitarPrestamo_ui_slot [unfolded slot_inv_def]
      split: form_result.splits)

lemma financiarPrestamo_ui_slot: "slot_inv w \<Longrightarrow> slot_inv (financiarPrestamo_ui i v w)"
  by (auto simp: financiarPrestamo_ui_def slot_inv_def slot_ok_def split: option.splits)

lemma pagarPrestamo_ui_slot: "slot_inv w \<Longrightarrow> slot_inv (pagarPrestamo_ui i p w)"
  by (auto simp: pagarPrestamo_ui_def slot_inv_def Let_def slot_ok_def split: option.splits)

lemma verHistorial_slot: "slot_inv w \<Longrightarrow> slot_inv (verHistorial v w)"
  by (auto simp: verHistorial_def slot_inv_def)

lemma verFormulario_slot: "slot_inv w \<Longrightarrow> slot_inv (verFormulario w)"
  by (auto simp: verFormulario_def slot_inv_def Let_def)

lemma click_slot: "slot_inv w \<Longrightarrow> slot_inv (click b w)"
  by (cases b) (auto simp: solicitarPrestamo_ui_slot handleSubmit_ui_slot financiarPrestamo_ui_slot
      pagarPrestamo_ui_slot verHistorial_slot verFormulario_slot split: option.splits)

lemma resume_task_slot: "slot_inv w \<Longrightarrow> slot_inv (resume_task i out w)"
proof (cases "i < length (tasks w)")
  case False
  then show "slot_inv w \<Longrightarrow> slot_inv (resume_task i out w)" by (simp add: resume_task_def)
next
  case i: True
  assume inv: "slot_inv w"
  show ?thesis
  proof (cases "tasks w ! i")
    case (TxSubmit s pc)
    with i inv show ?thesis
      by (auto simp: resume_task_def slot_inv_def slot_ok_update split: option.splits outcome.splits sum.splits)
  next
    case (TxWait s pc c v)
    with i inv show ?thesis
      by (auto simp: resume_task_def slot_inv_def tx_mined_def verHistorial_def slot_ok_update
          split: option.splits outcome.splits sum.splits pcall.splits)
  next
    case (TxReload pc)
    with i inv show ?thesis
      by (auto simp: resume_task_def slot_inv_def reload_done_def Let_def split: outcome.splits pcall.splits)
  next
    case LoadActive
    with i inv show ?thesis
      by (auto simp: resume_task_def slot_inv_def load_active_def slot_ok_drop_non_tx
          split: outcome.splits)
  next
    case (LoadHist v acct)
    with i inv show ?thesis
      by (auto simp: resume_task_def slot_inv_def slot_ok_drop_non_tx
          split: outcome.splits option.splits prod.splits)
  next
    case InitAccounts
    with i inv show ?thesis
      by (auto simp: resume_task_def slot_inv_def slot_ok_drop_non_tx slot_ok_update
          split: outcome.splits)
  next
    case InitNetwork
    with i inv show ?thesis
      by (auto simp: resume_task_def slot_inv_def Let_def slot_ok_update split: outcome.splits)
  next
    case InitSigner
    with i inv show ?thesis
      by (auto simp: resume_task_def slot_inv_def slot_ok_drop_non_tx split: outcome.splits)
  qed
qed

lemma step_slot: "slot_inv w \<Longrightarrow> slot_inv (step w e)"
  by (cases e) (auto simp: click_slot resume_task_slot, auto simp: slot_inv_def)

lemma reach_slot_inv: "reach w \<Longrightarrow> slot_inv w"
proof (induction rule: reach.induct)
  case (init l eth t)
  then show ?case by (simp add: slot_inv_def init_world_def init_app_def)
next
  case (step w e)
  from step.IH show ?case by (rule step_slot)
qed

end
