(* ===== verification/Consistency.thy ===== *)
theory Consistency
  imports Orchestrator
begin

text \<open>
  How the frontend's copies of the ledger relate to the ledger itself. The lists
  \<open>prestamos\<close> and \<open>historial\<close> may be stale (other clients fund and repay loans
  at any time), but every loan in them is a snapshot of a ledger loan with the same
  id: the fields fixed at creation (requester, principal, interest, term) agree. So
  do the values of the calls in flight: a funding or repayment call carries the
  principal plus interest of the ledger loan it names, and a transaction waiting
  for its receipt carries the encoding of its call. The invariant \<open>cons_inv\<close>
  states this together with \<open>ledger_wf\<close>; every event keeps it.
\<close>

definition snapshot_ok :: "ledger \<Rightarrow> loan \<Rightarrow> bool" where
  "snapshot_ok l p \<longleftrightarrow> id_loan p < length (loans l) \<and> immutable_eq (loans l ! id_loan p) p"

fun call_ok :: "ledger \<Rightarrow> pcall \<Rightarrow> bool" where
  "call_ok l (PSolicitar _ _) = True"
| "call_ok l (PFinanciar i v) = (i < length (loans l) \<and> v = totalWei (loans l ! i))"
| "call_ok l (PPagar i v) = (i < length (loans l) \<and> v = totalWei (loans l ! i))"

fun wait_ok :: "task \<Rightarrow> bool" where
  "wait_ok (TxWait _ pc c v) = (encode_call pc = Some (c, v))"
| "wait_ok _ = True"

definition views_ok :: "ledger \<Rightarrow> app_state \<Rightarrow> bool" where
  "views_ok l s \<longleftrightarrow> (\<forall>p \<in> set (prestamos s) \<union> set (historial s). snapshot_ok l p)"

definition tasks_ok :: "ledger \<Rightarrow> task list \<Rightarrow> bool" where
  "tasks_ok l ts \<longleftrightarrow> (\<forall>pc \<in> set (pending_calls ts). call_ok l pc) \<and> (\<forall>t \<in> set ts. wait_ok t)"

definition cons_inv :: "world \<Rightarrow> bool" where
  "cons_inv w \<longleftrightarrow> ledger_wf (chain w) \<and> views_ok (chain w) (app w) \<and> tasks_ok (chain w) (tasks w)"

subsection \<open>The ledger only moves forward\<close>

text \<open>A successful call keeps every existing loan's immutable fields.\<close>

definition ledger_extends :: "ledger \<Rightarrow> ledger \<Rightarrow> bool" where
  "ledger_extends l l' \<longleftrightarrow> length (loans l) \<le> length (loans l')
     \<and> (\<forall>i < length (loans l). immutable_eq (loans l ! i) (loans l' ! i))"

lemma immutable_eq_trans: "immutable_eq p q \<Longrightarrow> immutable_eq q r \<Longrightarrow> immutable_eq p r"
  by (simp add: immutable_eq_def)

lemma immutable_eq_refl [simp]: "immutable_eq p p"
  by (simp add: immutable_eq_def)

lemma immutable_eq_totalWei: "immutable_eq p q \<Longrightarrow> totalWei q = totalWei p"
  by (simp add: immutable_eq_def totalWei_def)

lemma ledger_extends_refl [simp]: "ledger_extends l l"
  by (simp add: ledger_extends_def)

lemma exec_call_extends: "exec_call l s v t c = Inr l' \<Longrightarrow> ledger_extends l l'"
proof -
  assume e: "exec_call l s v t c = Inr l'"
  from exec_call_effect [OF e] consider
      (app) p where "loans l' = loans l @ [p]"
    | (upd) i q where "i < length (loans l)" "loan_step (loans l ! i) q" "loans l' = (loans l)[i := q]"
    by blast
  then show ?thesis
  proof cases
    case app
    then show ?thesis by (simp add: ledger_extends_def nth_append)
  next
    case upd
    have "immutable_eq (loans l ! j) (loans l' ! j)" if "j < length (loans l)" for j
    proof (cases "j = i")
      case True
      with upd show ?thesis by (simp add: loan_step_immutable)
    next
      case False
      with upd show ?thesis by simp
    qed
    with upd show ?thesis by (simp add: ledger_extends_def)
  qed
qed

lemma snapshot_ok_extends: "ledger_extends l l' \<Longrightarrow> snapshot_ok l p \<Longrightarrow> snapshot_ok l' p"
  unfolding ledger_extends_def snapshot_ok_def immutable_eq_def by auto

lemma call_ok_extends: "ledger_extends l l' \<Longrightarrow> call_ok l pc \<Longrightarrow> call_ok l' pc"
  by (cases pc) (auto simp: ledger_extends_def immutable_eq_totalWei)

lemma views_ok_extends: "ledger_extends l l' \<Longrightarrow> views_ok l s \<Longrightarrow> views_ok l' s"
  by (auto simp: views_ok_def intro: snapshot_ok_extends)

text \<open>What a read copies from the ledger is a snapshot of it.\<close>

lemma snapshot_ok_loans: "ledger_wf l \<Longrightarrow> p \<in> set (loans l) \<Longrightarrow> snapshot_ok l p"
  by (auto simp: in_set_conv_nth snapshot_ok_def dest: ledger_wf_nth)

lemma snapshot_ok_history: "ledger_wf l \<Longrightarrow> p \<in> set (history_query v l a) \<Longrightarrow> snapshot_ok l p"
  by (auto simp: history_query_def prestamosPorSolicitante_def prestamosFinanciadosPor_def
      intro: snapshot_ok_loans split: if_splits)


lemma tasks_ok_extends: "ledger_extends l l' \<Longrightarrow> tasks_ok l ts \<Longrightarrow> tasks_ok l' ts"
  by (auto simp: tasks_ok_def intro: call_ok_extends)

subsection \<open>The task list under the operations of the handlers\<close>

lemma tasks_ok_del: "tasks_ok l ts \<Longrightarrow> tasks_ok l (del_nth i ts)"
  unfolding tasks_ok_def pending_calls_def
  using set_map_filter_del_nth [of tx_call i ts] set_del_nth_subset [of i ts] by blast

lemma tasks_ok_update:
  assumes "tasks_ok l ts" and "i < length ts" and "tx_call t = tx_call (ts ! i)" and "wait_ok t"
  shows "tasks_ok l (ts[i := t])"
proof -
  have "pending_calls (ts[i := t]) = pending_calls ts"
    using assms(2,3) by (simp add: pending_calls_def map_filter_update_same)
  moreover have "set (ts[i := t]) \<subseteq> insert t (set ts)" by (rule set_update_subset_insert)
  ultimately show ?thesis using assms(1,4) by (auto simp: tasks_ok_def)
qed

lemma tasks_ok_snoc:
  "tasks_ok l ts \<Longrightarrow> wait_ok t \<Longrightarrow> (\<And>pc. tx_call t = Some pc \<Longrightarrow> call_ok l pc) \<Longrightarrow>
     tasks_ok l (ts @ [t])"
  by (auto simp: tasks_ok_def split: option.splits)

lemma tasks_ok_snoc_plain [simp]:
  "tasks_ok l (ts @ [LoadActive]) = tasks_ok l ts" "tasks_ok l (ts @ [LoadHist v a]) = tasks_ok l ts"
  by (auto simp: tasks_ok_def)

lemma tasks_ok_snoc_submit [simp]:
  "tasks_ok l (ts @ [TxSubmit s pc]) \<longleftrightarrow> tasks_ok l ts \<and> call_ok l pc"
  by (auto simp: tasks_ok_def)

lemma cons_inv_alert [simp]: "cons_inv (raise_alert a w) = cons_inv w"
  by (simp add: cons_inv_def)

lemma cons_inv_loading [simp]: "cons_inv (set_loading sl w) = cons_inv w"
  by (simp add: cons_inv_def views_ok_def set_loading_def)

lemma cons_inv_report [simp]: "cons_inv (report_error e a w) = cons_inv w"
  by (simp add: cons_inv_def views_ok_def)

lemma cons_inv_drop: "cons_inv w \<Longrightarrow> cons_inv (drop_task i w)"
  by (simp add: cons_inv_def tasks_ok_del)

lemma cons_inv_load_active: "cons_inv w \<Longrightarrow> cons_inv (load_active w)"
  by (auto simp: cons_inv_def load_active_def views_ok_def obtenerPrestamos_def snapshot_ok_loans)

subsection \<open>Every event keeps the consistency invariant\<close>

lemma solicitarPrestamo_ui_cons: "cons_inv w \<Longrightarrow> cons_inv (solicitarPrestamo_ui a d w)"
  by (auto simp: solicitarPrestamo_ui_def Let_def cons_inv_def views_ok_def
      split: option.splits sum.splits validation_error.splits)

lemma handleSubmit_ui_cons: "cons_inv w \<Longrightarrow> cons_inv (handleSubmit_ui w)"
  by (auto simp: handleSubmit_ui_def solicitarPrestamo_ui_cons split: form_result.splits)

lemma financiarPrestamo_ui_cons:
  "cons_inv w \<Longrightarrow> call_ok (chain w) (PFinanciar i v) \<Longrightarrow> cons_inv (financiarPrestamo_ui i v w)"
  by (auto simp: financiarPrestamo_ui_def cons_inv_def views_ok_def split: option.splits)

lemma pagarPrestamo_ui_cons:
  assumes "cons_inv w" and "snapshot_ok (chain w) p" and "id_loan p = i"
  shows "cons_inv (pagarPrestamo_ui i p w)"
proof -
  have "call_ok (chain w) (PPagar i (montoPrincipal p + interes p))"
    using assms(2,3) by (auto simp: snapshot_ok_def dest: immutable_eq_totalWei simp: totalWei_def)
  with assms(1) show ?thesis
    by (auto simp: pagarPrestamo_ui_def Let_def cons_inv_def views_ok_def split: option.splits)
qed

lemma verHistorial_cons: "cons_inv w \<Longrightarrow> cons_inv (verHistorial v w)"
  by (simp add: verHistorial_def cons_inv_def)

lemma verFormulario_cons: "cons_inv w \<Longrightarrow> cons_inv (verFormulario w)"
  by (simp add: verFormulario_def Let_def cons_inv_def views_ok_def)

lemma click_cons: "cons_inv w \<Longrightarrow> cons_inv (click b w)"
proof (cases b)
  case (BtnFinanciar i)
  assume inv: "cons_inv w"
  show ?thesis
  proof (cases "fund_target (app w) i")
    case (Some p)
    then have "p \<in> set (prestamos (app w))" and "id_loan p = i" by (auto dest: fund_target_Some)
    then have "call_ok (chain w) (PFinanciar (id_loan p) (totalWei p))"
      using inv by (auto simp: cons_inv_def views_ok_def snapshot_ok_def dest: immutable_eq_totalWei)
    with inv Some BtnFinanciar show ?thesis by (simp add: financiarPrestamo_ui_cons)
  qed (simp add: BtnFinanciar inv)
next
  case (BtnPagar i)
  assume inv: "cons_inv w"
  show ?thesis
  proof (cases "pay_target (app w) i")
    case (Some p)
    then have "p \<in> set (historial (app w))" by (auto dest: pay_target_Some)
    then have "snapshot_ok (chain w) p" using inv by (auto simp: cons_inv_def views_ok_def)
    with inv Some BtnPagar show ?thesis by (simp add: pagarPrestamo_ui_cons)
  qed (simp add: BtnPagar inv)
qed (auto simp: handleSubmit_ui_cons verHistorial_cons verFormulario_cons)

lemma cons_inv_chain:
  "cons_inv w \<Longrightarrow> exec_call (chain w) s v t c = Inr l' \<Longrightarrow> cons_inv (w\<lparr>chain := l'\<rparr>)"
  using exec_call_extends [of "chain w" s v t c l'] exec_call_wf [of "chain w" s v t c l']
  by (auto simp: cons_inv_def intro: views_ok_extends tasks_ok_extends)

lemma cons_inv_update:
  "cons_inv w \<Longrightarrow> i < length (tasks w) \<Longrightarrow> tx_call t = tx_call (tasks w ! i) \<Longrightarrow> wait_ok t \<Longrightarrow>
     cons_inv (w\<lparr>tasks := (tasks w)[i := t]\<rparr>)"
  by (simp add: cons_inv_def tasks_ok_update)

lemma tx_failed_cons: "cons_inv w \<Longrightarrow> cons_inv (tx_failed i pc e w)"
  by (simp add: tx_failed_def cons_inv_drop)

lemma tx_mined_cons:
  "cons_inv w \<Longrightarrow> i < length (tasks w) \<Longrightarrow> tx_call (tasks w ! i) = Some pc \<Longrightarrow>
     cons_inv (tx_mined i pc w)"
  by (cases pc) (auto simp: tx_mined_def cons_inv_drop verHistorial_cons cons_inv_update)

lemma reload_done_cons: "cons_inv w \<Longrightarrow> cons_inv (reload_done i pc w)"
  by (cases pc)
     (auto simp: reload_done_def Let_def cons_inv_drop cons_inv_def views_ok_def drop_task_def
        tasks_ok_del)

lemma history_cons:
  "cons_inv w \<Longrightarrow>
     cons_inv (w\<lparr>app := (app w)\<lparr>historial := history_query v (chain w) a, vista := v\<rparr>\<rparr>)"
  by (auto simp: cons_inv_def views_ok_def snapshot_ok_history)

lemma resume_task_cons: "cons_inv w \<Longrightarrow> cons_inv (resume_task i out w)"
proof (cases "i < length (tasks w)")
  case False
  then show "cons_inv w \<Longrightarrow> cons_inv (resume_task i out w)" by (simp add: resume_task_def)
next
  case i: True
  assume inv: "cons_inv w"
  show ?thesis
  proof (cases "tasks w ! i")
    case (TxSubmit s pc)
    with i inv show ?thesis
      by (auto simp: resume_task_def tx_failed_cons cons_inv_update split: option.splits outcome.splits sum.splits)
  next
    case (TxWait s pc c v)
    have "cons_inv (w\<lparr>chain := l'\<rparr>)" if "exec_call (chain w) s v (clock w) c = Inr l'" for l'
      using inv that by (rule cons_inv_chain)
    moreover have "tx_call (tasks (w\<lparr>chain := l'\<rparr>) ! i) = Some pc" for l'
      using TxWait by simp
    ultimately show ?thesis
      using TxWait i inv
      by (auto simp: resume_task_def tx_failed_cons intro!: tx_mined_cons
          split: outcome.splits sum.splits)
  next
    case (TxReload pc)
    with i inv show ?thesis
      by (auto simp: resume_task_def reload_done_cons cons_inv_load_active split: outcome.splits)
  next
    case LoadActive
    with i inv show ?thesis
      by (auto simp: resume_task_def cons_inv_drop cons_inv_load_active split: outcome.splits)
  next
    case (LoadHist v acct)
    with i inv show ?thesis
      by (auto simp: resume_task_def cons_inv_drop history_cons
          split: outcome.splits option.splits prod.splits)
  next
    case InitAccounts
    with i inv show ?thesis
      by (auto simp: resume_task_def cons_inv_drop cons_inv_update split: outcome.splits)
  next
    case InitNetwork
    with i inv show ?thesis
      by (auto simp: resume_task_def Let_def cons_inv_def raise_alert_def views_ok_def tasks_ok_update
          split: outcome.splits)
  next
    case InitSigner
    with i inv show ?thesis
      by (auto simp: resume_task_def cons_inv_def views_ok_def tasks_ok_del split: outcome.splits)
  qed
qed

lemma step_cons:
  assumes inv: "cons_inv w"
  shows "cons_inv (step w e)"
proof (cases e)
  case (EvChain s v c)
  show ?thesis
  proof (cases "exec_call (chain w) s v (clock w) c")
    case (Inr l')
    with inv EvChain show ?thesis by (simp add: cons_inv_chain)
  qed (simp add: EvChain inv)
next
  case (EvClick b)
  then show ?thesis using click_cons [OF inv] by simp
next
  case (EvResume i out)
  then show ?thesis using resume_task_cons [OF inv] by simp
qed (use inv in \<open>simp_all add: cons_inv_def views_ok_def\<close>)

lemma reach_cons_inv: "reach w \<Longrightarrow> cons_inv w"
proof (induction rule: reach.induct)
  case (init l eth t)
  then show ?case
    by (simp add: cons_inv_def init_world_def init_app_def views_ok_def tasks_ok_def pending_calls_def)
next
  case (step w e)
  from step.IH show ?case by (rule step_cons)
qed

subsection \<open>Each event executes at most one ledger call\<close>

definition one_call :: "ledger \<Rightarrow> ledger \<Rightarrow> bool" where
  "one_call l l' \<longleftrightarrow> l' = l \<or> (\<exists>s v t c. exec_call l s v t c = Inr l')"

lemma one_call_refl [simp]: "one_call l l"
  by (simp add: one_call_def)

lemma tx_mined_chain [simp]: "chain (tx_mined i pc w) = chain w"
  by (cases pc) (simp_all add: tx_mined_def verHistorial_def)

lemma reload_done_chain [simp]: "chain (reload_done i pc w) = chain w"
  by (cases pc) (simp_all add: reload_done_def Let_def)

lemma click_chain [simp]: "chain (click b w) = chain w"
  by (cases b)
     (auto simp: handleSubmit_ui_def solicitarPrestamo_ui_def financiarPrestamo_ui_def
        pagarPrestamo_ui_def verHistorial_def verFormulario_def Let_def
        split: option.splits sum.splits form_result.splits validation_error.splits)

lemma resume_task_chain: "one_call (chain w) (chain (resume_task i out w))"
proof (cases "i < length (tasks w)")
  case True
  then show ?thesis
    by (cases "tasks w ! i")
       (auto simp: resume_task_def tx_failed_def load_active_def Let_def one_call_def
          split: option.splits outcome.splits sum.splits prod.splits)
qed (simp add: resume_task_def)

lemma step_chain: "one_call (chain w) (chain (step w e))"
proof (cases e)
  case (EvResume i out)
  then show ?thesis using resume_task_chain [of w i out] by simp
qed (auto simp: one_call_def split: sum.splits)

text \<open>Under one call, every existing loan stays or takes one step of its state machine.\<close>

lemma one_call_loan:
  assumes "one_call l l'" and "i < length (loans l)"
  shows "i < length (loans l') \<and> (loans l' ! i = loans l ! i \<or> loan_step (loans l ! i) (loans l' ! i))"
proof (cases "l' = l")
  case False
  with assms(1) obtain s v t c where e: "exec_call l s v t c = Inr l'" by (auto simp: one_call_def)
  from exec_call_effect [OF e] consider
      (app) p where "loans l' = loans l @ [p]"
    | (upd) j q where "j < length (loans l)" "loan_step (loans l ! j) q" "loans l' = (loans l)[j := q]"
    by blast
  then show ?thesis
  proof cases
    case app
    with assms(2) show ?thesis by (simp add: nth_append)
  next
    case upd
    with assms(2) show ?thesis by (cases "i = j") simp_all
  qed
qed (use assms(2) in simp)

end
