(* ===== verification/Liveness.thy ===== *)
theory Liveness
  imports SingleFlight
begin

text \<open>
  Progress of the suspended handlers. Every handler of \<open>src/frontend/src/App.jsx\<close>
  is a straight-line sequence of \<open>await\<close>s with no loop, so each pending task can
  be resumed only a bounded number of times before its handler ends: a transaction
  handler goes submit, wait, reload (lines 103-105, 121-123, 145-148), start-up goes
  accounts, network, signer, load (lines 57-84). \<open>task_weight\<close> counts the
  resumptions a task and the tasks it starts may still take, and \<open>pending_weight\<close>
  sums it over the pending tasks.

  The environment \<^emph>\<open>answers\<close> a task when it settles the promise the task awaits with
  an outcome of the right shape: any outcome for a transaction or a load, a chain id
  or a rejection for \<open>getNetwork()\<close>, an address or a rejection for
  \<open>getAddress()\<close>. Every answered resumption strictly decreases
  \<open>pending_weight\<close> (\<open>resume_answered_decreases\<close>). \<open>drain\<close> is the
  environment's schedule that settles the oldest pending task with the answer of a
  policy until none is left or the policy does not answer; it terminates by that
  measure.
\<close>

fun task_weight :: "task \<Rightarrow> nat" where
  "task_weight (TxSubmit _ _) = 4"
| "task_weight (TxWait _ _ _ _) = 3"
| "task_weight (TxReload _) = 1"
| "task_weight LoadActive = 1"
| "task_weight (LoadHist _ _) = 1"
| "task_weight InitAccounts = 4"
| "task_weight InitNetwork = 3"
| "task_weight InitSigner = 2"

definition pending_weight :: "task list \<Rightarrow> nat" where
  "pending_weight ts = sum_list (map task_weight ts)"

fun answers :: "task \<Rightarrow> outcome \<Rightarrow> bool" where
  "answers InitNetwork out = (case out of Reject _ \<Rightarrow> True | ResolveChain _ \<Rightarrow> True | _ \<Rightarrow> False)"
| "answers InitSigner out = (case out of Reject _ \<Rightarrow> True | ResolveAddr _ \<Rightarrow> True | _ \<Rightarrow> False)"
| "answers _ _ = True"

text \<open>An environment that answers every promise successfully: the wallet is on chain \<open>c\<close> with signer \<open>a\<close>.\<close>

definition env_answer :: "jsprim \<Rightarrow> address \<Rightarrow> task \<Rightarrow> outcome" where
  "env_answer c a t = (case t of InitNetwork \<Rightarrow> ResolveChain c | InitSigner \<Rightarrow> ResolveAddr a | _ \<Rightarrow> Resolve)"

subsection \<open>The measure\<close>

lemma pending_weight_update:
  "i < length ts \<Longrightarrow> pending_weight (ts[i := t]) + task_weight (ts ! i) = pending_weight ts + task_weight t"
  unfolding pending_weight_def by (rule sum_list_map_update)

lemma pending_weight_del:
  "i < length ts \<Longrightarrow> pending_weight (del_nth i ts) + task_weight (ts ! i) = pending_weight ts"
  unfolding pending_weight_def by (rule sum_list_map_del_nth)

lemma pending_weight_update_less:
  "i < length ts \<Longrightarrow> task_weight t < task_weight (ts ! i) \<Longrightarrow> pending_weight (ts[i := t]) < pending_weight ts"
  using pending_weight_update [of i ts t] by linarith

lemma pending_weight_del_less: "i < length ts \<Longrightarrow> pending_weight (del_nth i ts) < pending_weight ts"
  using pending_weight_del [of i ts] by (cases "ts ! i") simp_all

lemma pending_weight_snoc [simp]: "pending_weight (ts @ [t]) = pending_weight ts + task_weight t"
  by (simp add: pending_weight_def)

lemma pending_weight_Nil [simp]: "pending_weight [] = 0"
  by (simp add: pending_weight_def)

lemma tasks_verHistorial:
  "pending_weight (tasks (verHistorial v w)) \<le> pending_weight (tasks w) + 1"
  by (simp add: verHistorial_def)

lemma tasks_tx_failed [simp]: "tasks (tx_failed i pc e w) = del_nth i (tasks w)"
  by (simp add: tx_failed_def)

lemma tasks_reload_done [simp]: "tasks (reload_done i pc w) = del_nth i (tasks w)"
  by (simp add: reload_done_def Let_def split: pcall.splits)

lemma tasks_load_active [simp]: "tasks (load_active w) = tasks w"
  by (simp add: load_active_def)

lemma tx_mined_decreases:
  assumes "i < length (tasks w)" and "task_weight (tasks w ! i) = 3"
  shows "pending_weight (tasks (tx_mined i pc w)) < pending_weight (tasks w)"
proof (cases pc)
  case (PPagar j v)
  have "pending_weight (tasks (tx_mined i pc w)) \<le> pending_weight (del_nth i (tasks w)) + 1"
    using tasks_verHistorial [of Solicitado "raise_alert (AlertSuccess APagar) (drop_task i w)"]
    by (simp add: PPagar tx_mined_def)
  then show ?thesis using pending_weight_del [OF assms(1)] assms(2) by linarith
qed (use pending_weight_update [OF assms(1), of "TxReload pc"] assms(2) in \<open>simp_all add: tx_mined_def\<close>)

lemma resume_answered_decreases:
  assumes i: "i < length (tasks w)" and a: "answers (tasks w ! i) out"
  shows "pending_weight (tasks (resume_task i out w)) < pending_weight (tasks w)"
proof -
  have nle: "\<not> length (tasks w) \<le> i" using i by simp
  note less = pending_weight_update_less [OF i] pending_weight_del_less [OF i]
  show ?thesis
  proof (cases "tasks w ! i")
    case (TxWait s pc c v)
    then show ?thesis
      using i less tx_mined_decreases [of i "w\<lparr>chain := l'\<rparr>" pc for l']
      by (auto simp: resume_task_def nle split: outcome.splits sum.splits)
  next
    case InitNetwork
    then show ?thesis using a less by (auto simp: resume_task_def nle Let_def split: outcome.splits)
  next
    case InitSigner
    then show ?thesis using a less pending_weight_del [OF i] by (auto simp: resume_task_def nle split: outcome.splits)
  qed (use less in \<open>auto simp: resume_task_def nle split: outcome.splits option.splits prod.splits sum.splits\<close>)
qed

subsection \<open>Settling every pending task\<close>

function drain :: "(task \<Rightarrow> outcome) \<Rightarrow> world \<Rightarrow> event list" where
  "drain pol w =
     (case tasks w of
        [] \<Rightarrow> []
      | t # _ \<Rightarrow>
          if answers t (pol t) then EvResume 0 (pol t) # drain pol (step w (EvResume 0 (pol t)))
          else [])"
  by pat_completeness auto
termination
proof (relation "measure (\<lambda>(pol, w). pending_weight (tasks w))")
  fix pol and w :: world and t ts
  assume "tasks w = t # ts" and "answers t (pol t)"
  then show "((pol, step w (EvResume 0 (pol t))), pol, w) \<in> measure (\<lambda>(pol, w). pending_weight (tasks w))"
    using resume_answered_decreases [of 0 w "pol t"] by simp
qed simp

declare drain.simps [simp del]

lemma drain_length: "length (drain pol w) \<le> pending_weight (tasks w)"
proof (induction pol w rule: drain.induct)
  case (1 pol w)
  show ?case
  proof (cases "tasks w")
    case (Cons t ts)
    then show ?thesis
      using "1" [OF Cons] resume_answered_decreases [of 0 w "pol t"]
      by (subst drain.simps) (auto simp: Cons)
  qed (simp add: drain.simps)
qed

lemma drain_settles:
  "(\<forall>t. answers t (pol t)) \<Longrightarrow> tasks (run w (drain pol w)) = []"
proof (induction pol w rule: drain.induct)
  case (1 pol w)
  show ?case
  proof (cases "tasks w")
    case (Cons t ts)
    then show ?thesis using "1" by (subst drain.simps) (simp add: run_Cons)
  qed (simp add: drain.simps run_def)
qed

lemma answers_env_answer: "answers t (env_answer c a t)"
  by (cases t) (simp_all add: env_answer_def)

end
