(* ===== verification/Interleaving.thy ===== *)
theory Interleaving
  imports Orchestrator
begin

text \<open>
  Which events of the world commute. The form's text fields (\<open>monto\<close>,
  \<open>plazo\<close> of \<open>src/frontend/src/App.jsx\<close>, lines 34-35) are written only by
  typing and by the end of a successful request (lines 106-107), and read only by
  the request button; whether typing is possible depends on the view, which only
  a history load changes (lines 161 and 172). So typing commutes with the
  resumption of every other task.
\<close>

lemma tx_failed_form:
  "tx_failed i pc e (w\<lparr>app := (app w)\<lparr>monto := s\<rparr>\<rparr>) = (tx_failed i pc e w)\<lparr>app := (app (tx_failed i pc e w))\<lparr>monto := s\<rparr>\<rparr>"
  "tx_failed i pc e (w\<lparr>app := (app w)\<lparr>plazo := s\<rparr>\<rparr>) = (tx_failed i pc e w)\<lparr>app := (app (tx_failed i pc e w))\<lparr>plazo := s\<rparr>\<rparr>"
  by (simp_all add: tx_failed_def report_error_def raise_alert_def set_loading_def drop_task_def split: sum.splits)

lemma resume_keeps_view:
  assumes "case tasks w ! i of LoadHist _ _ \<Rightarrow> False | _ \<Rightarrow> True"
  shows "vista (app (resume_task i out w)) = vista (app w)"
  using assms
  by (cases "tasks w ! i")
     (simp_all add: resume_task_def tx_failed_def tx_mined_def reload_done_def load_active_def Let_def
        verHistorial_def split: option.splits outcome.splits sum.splits pcall.splits prod.splits)

lemma resume_form_monto:
  assumes "case tasks w ! i of TxReload (PSolicitar _ _) \<Rightarrow> False | _ \<Rightarrow> True"
  shows "resume_task i out (w\<lparr>app := (app w)\<lparr>monto := s\<rparr>\<rparr>) = (resume_task i out w)\<lparr>app := (app (resume_task i out w))\<lparr>monto := s\<rparr>\<rparr>"
  using assms
  by (cases "tasks w ! i")
     (simp_all add: resume_task_def tx_mined_def verHistorial_def ensureContract_def tx_failed_form reload_done_def load_active_def
        raise_alert_def spawn_def set_loading_def drop_task_def Let_def
        split: option.splits outcome.splits sum.splits pcall.splits prod.splits)

lemma resume_form_plazo:
  assumes "case tasks w ! i of TxReload (PSolicitar _ _) \<Rightarrow> False | _ \<Rightarrow> True"
  shows "resume_task i out (w\<lparr>app := (app w)\<lparr>plazo := s\<rparr>\<rparr>) = (resume_task i out w)\<lparr>app := (app (resume_task i out w))\<lparr>plazo := s\<rparr>\<rparr>"
  using assms
  by (cases "tasks w ! i")
     (simp_all add: resume_task_def tx_mined_def verHistorial_def ensureContract_def tx_failed_form reload_done_def load_active_def
        raise_alert_def spawn_def set_loading_def drop_task_def Let_def
        split: option.splits outcome.splits sum.splits pcall.splits prod.splits)


lemma resume_keeps_form:
  assumes "case tasks w ! i of TxReload (PSolicitar _ _) \<Rightarrow> False | LoadHist _ _ \<Rightarrow> False | _ \<Rightarrow> True"
  shows "vista (app (resume_task i out w)) = vista (app w)
    \<and> resume_task i out (w\<lparr>app := (app w)\<lparr>monto := s\<rparr>\<rparr>) = (resume_task i out w)\<lparr>app := (app (resume_task i out w))\<lparr>monto := s\<rparr>\<rparr>
    \<and> resume_task i out (w\<lparr>app := (app w)\<lparr>plazo := s\<rparr>\<rparr>) = (resume_task i out w)\<lparr>app := (app (resume_task i out w))\<lparr>plazo := s\<rparr>\<rparr>"
proof -
  have "case tasks w ! i of LoadHist _ _ \<Rightarrow> False | _ \<Rightarrow> True"
    and "case tasks w ! i of TxReload (PSolicitar _ _) \<Rightarrow> False | _ \<Rightarrow> True"
    using assms by (auto split: task.splits pcall.splits)
  then show ?thesis by (simp add: resume_keeps_view resume_form_monto resume_form_plazo)
qed

end
