(* ===== verification/StartUp.thy ===== *)
theory StartUp
  imports Liveness
begin

text \<open>
  The start-up effect of \<open>src/frontend/src/App.jsx\<close> (lines 58-85) seen from the
  whole world. Without a wallet it alerts and returns before any task exists, and
  then no handler can obtain a contract object: every mutating handler stops at
  \<open>ensureContract()\<close> (lines 40-46), and the view buttons load nothing. With a
  wallet that answers, the four awaits run in order and leave the account, the
  contract object and the loaded list of loans.
\<close>

definition disconnected :: "world \<Rightarrow> bool" where
  "disconnected w \<longleftrightarrow> tasks w = [] \<and> contract (app w) = None \<and> loadingAction (app w) = idle_slot"

lemma click_disconnected: "disconnected w \<Longrightarrow> disconnected (click b w)"
  by (cases b)
     (auto simp: disconnected_def handleSubmit_ui_def solicitarPrestamo_ui_def financiarPrestamo_ui_def
        pagarPrestamo_ui_def verHistorial_def ensureContract_def verFormulario_def Let_def
        split: form_result.splits option.splits)

lemma step_disconnected:
  assumes "disconnected w"
  shows "disconnected (step w e)"
proof (cases e)
  case (EvClick b)
  then show ?thesis using click_disconnected [OF assms] by simp
qed (use assms in \<open>auto simp: resume_task_def disconnected_def\<close>)

lemma run_disconnected: "disconnected w \<Longrightarrow> disconnected (run w es)"
  by (induction es arbitrary: w) (simp_all add: run_Cons step_disconnected, simp add: run_def)

lemma init_no_wallet_disconnected: "disconnected (init_world False l t)"
  by (simp add: disconnected_def init_world_def init_app_def)

text \<open>The four resumptions of a successful start-up, oldest task first.\<close>

lemma drain_start_up:
  "drain (env_answer c a) (init_world True l t) =
     [EvResume 0 Resolve, EvResume 0 (ResolveChain c), EvResume 0 (ResolveAddr a), EvResume 0 Resolve]"
  by (simp add: drain.simps init_world_def resume_task_def env_answer_def Let_def
      raise_alert_def spawn_def drop_task_def del_nth_def load_active_def)

end
