(* ===== verification/Signer.thy ===== *)
theory Signer
  imports Orchestrator
begin

text \<open>
  Who signs. \<open>src/frontend/src/App.jsx\<close> creates the contract object once, at the
  end of the start-up effect, bound to the signer whose address it also stores as
  \<open>account\<close> (lines 72-80); every mutating handler sends through that object
  (lines 103, 121, 145). The invariant \<open>signer_inv\<close> says: the account and the
  contract object agree; every transaction in flight is signed by them; while a
  step of start-up is pending there is no contract object yet, and there is at
  most one such step.
\<close>

fun task_signer :: "task \<Rightarrow> address option" where
  "task_signer (TxSubmit s _) = Some s"
| "task_signer (TxWait s _ _ _) = Some s"
| "task_signer _ = None"

fun is_init :: "task \<Rightarrow> bool" where
  "is_init InitAccounts = True"
| "is_init InitNetwork = True"
| "is_init InitSigner = True"
| "is_init _ = False"

definition signer_inv :: "world \<Rightarrow> bool" where
  "signer_inv w \<longleftrightarrow>
     account (app w) = contract (app w)
     \<and> (\<forall>t \<in> set (tasks w). \<forall>s. task_signer t = Some s \<longrightarrow> contract (app w) = Some s)
     \<and> (\<forall>t \<in> set (tasks w). is_init t \<longrightarrow> contract (app w) = None)
     \<and> length (filter is_init (tasks w)) \<le> 1"

lemma signer_inv_frame:
  "signer_inv w \<Longrightarrow> tasks w' = tasks w \<Longrightarrow> account (app w') = account (app w)
   \<Longrightarrow> contract (app w') = contract (app w) \<Longrightarrow> signer_inv w'"
  by (simp add: signer_inv_def)

lemma signer_inv_spawn:
  "signer_inv w \<Longrightarrow> \<not> is_init t \<Longrightarrow> (\<forall>s. task_signer t = Some s \<longrightarrow> contract (app w) = Some s)
   \<Longrightarrow> signer_inv (spawn t w)"
  by (auto simp: signer_inv_def)

lemma signer_inv_drop: "signer_inv w \<Longrightarrow> signer_inv (drop_task i w)"
  using set_del_nth_subset [of i "tasks w"] length_filter_del_nth_le [of is_init i "tasks w"]
  by (auto simp: signer_inv_def)

lemma signer_inv_update:
  assumes "signer_inv w" and "i < length (tasks w)" and "is_init t = is_init (tasks w ! i)"
    and "\<forall>s. task_signer t = Some s \<longrightarrow> contract (app w) = Some s"
  shows "signer_inv (w\<lparr>tasks := (tasks w)[i := t]\<rparr>)"
proof -
  have "is_init t \<Longrightarrow> contract (app w) = None"
    using assms(1-3) nth_mem [OF assms(2)] by (auto simp: signer_inv_def)
  then show ?thesis
    using assms length_filter_update_same [OF assms(2), of is_init t] set_update_subset_insert [of "tasks w" i t]
    by (auto simp: signer_inv_def)
qed

lemmas signer_frames = signer_inv_frame [where w' = "raise_alert a w" for a w]
  signer_inv_frame [where w' = "set_loading sl w" for sl w]
  signer_inv_frame [where w' = "report_error e a w" for e a w]

lemma click_signer: "signer_inv w \<Longrightarrow> signer_inv (click b w)"
proof (cases b)
  case BtnSolicitar
  assume inv: "signer_inv w"
  then show ?thesis using BtnSolicitar
    by (auto simp: handleSubmit_ui_def solicitarPrestamo_ui_def Let_def intro!: signer_inv_spawn
        intro: signer_frames split: form_result.splits option.splits sum.splits validation_error.splits)
qed (auto simp: financiarPrestamo_ui_def pagarPrestamo_ui_def verHistorial_def verFormulario_def Let_def
       intro!: signer_inv_spawn intro: signer_frames signer_inv_frame split: option.splits)


lemma tx_failed_signer: "signer_inv w \<Longrightarrow> signer_inv (tx_failed i pc e w)"
  by (drule signer_inv_drop [of _ i]) (simp add: tx_failed_def signer_inv_def)

lemma tx_mined_signer:
  assumes inv: "signer_inv w" and i: "i < length (tasks w)" and ni: "\<not> is_init (tasks w ! i)"
  shows "signer_inv (tx_mined i pc w)"
proof (cases pc)
  case (PPagar j v)
  from signer_inv_drop [OF inv, of i] show ?thesis
    by (cases "contract (app w)") (auto simp: PPagar tx_mined_def verHistorial_def ensureContract_def signer_inv_def)
qed (use inv i ni in \<open>auto simp: tx_mined_def intro: signer_inv_update\<close>)

lemma init_signer_connects:
  assumes inv: "signer_inv w" and i: "i < length (tasks w)" and t: "tasks w ! i = InitSigner"
  shows "signer_inv (spawn LoadActive (drop_task i (w\<lparr>app := (app w)\<lparr>account := Some a, contract := Some a\<rparr>\<rparr>)))"
proof -
  have mem: "InitSigner \<in> set (tasks w)" using nth_mem [OF i] t by simp
  then have none: "contract (app w) = None" using inv unfolding signer_inv_def by fastforce
  then have nosig: "\<forall>t' \<in> set (tasks w). task_signer t' = None"
    using inv by (auto simp: signer_inv_def)
  have "length (filter is_init (del_nth i (tasks w))) = 0"
    using inv length_filter_del_nth [OF i, of is_init] t by (simp add: signer_inv_def)
  then have noinit: "\<forall>t' \<in> set (del_nth i (tasks w)). \<not> is_init t'"
    by (simp add: filter_empty_conv)
  show ?thesis
    using nosig noinit set_del_nth_subset [of i "tasks w"]
    by (auto simp: signer_inv_def)
qed

lemma resume_task_signer: "signer_inv w \<Longrightarrow> signer_inv (resume_task i out w)"
proof (cases "i < length (tasks w)")
  case False
  then show "signer_inv w \<Longrightarrow> signer_inv (resume_task i out w)" by (simp add: resume_task_def)
next
  case i: True
  assume inv: "signer_inv w"
  have sig: "task_signer (tasks w ! i) = Some s \<Longrightarrow> contract (app w) = Some s" for s
    using inv nth_mem [OF i] by (auto simp: signer_inv_def)
  show ?thesis
  proof (cases "tasks w ! i")
    case (TxWait s pc c v)
    then have "\<not> is_init ((tasks (w\<lparr>chain := l'\<rparr>)) ! i)" for l' by simp
    with TxWait i inv show ?thesis
      using tx_mined_signer [of "w\<lparr>chain := l'\<rparr>" i pc for l'] signer_inv_frame [of w "w\<lparr>chain := l'\<rparr>" for l']
      by (auto simp: resume_task_def tx_failed_signer split: outcome.splits sum.splits)
  next
    case InitNetwork
    have "signer_inv (raise_alert a w)" for a using inv by (rule signer_frames) simp_all
    then show ?thesis
      using i inv InitNetwork signer_inv_update [of "raise_alert AlertSwitchNetwork w" i InitSigner]
        signer_inv_update [of w i InitSigner]
      by (auto simp: resume_task_def Let_def split: outcome.splits)
  next
    case InitSigner
    with i inv show ?thesis
      by (auto simp: resume_task_def init_signer_connects signer_inv_drop split: outcome.splits)
  qed (use i inv sig in \<open>auto simp: resume_task_def reload_done_def load_active_def Let_def tx_failed_signer
        intro: signer_inv_update signer_inv_drop signer_frames signer_inv_frame
        split: outcome.splits option.splits prod.splits pcall.splits sum.splits\<close>)
qed

lemma step_signer: "signer_inv w \<Longrightarrow> signer_inv (step w e)"
  by (cases e) (auto simp: click_signer resume_task_signer intro: signer_inv_frame)

lemma reach_signer_inv: "reach w \<Longrightarrow> signer_inv w"
proof (induction rule: reach.induct)
  case (init l eth t)
  then show ?case by (simp add: signer_inv_def init_world_def init_app_def)
next
  case (step w e)
  from step.IH show ?case by (rule step_signer)
qed


lemma resume_keeps_account:
  assumes inv: "signer_inv w" and c: "contract (app w) \<noteq> None"
  shows "account (app (resume_task i out w)) = account (app w)"
proof (cases "i < length (tasks w)")
  case i: True
  have "\<not> is_init (tasks w ! i)" using inv c nth_mem [OF i] by (auto simp: signer_inv_def)
  then show ?thesis using i
    by (cases "tasks w ! i")
       (auto simp: resume_task_def tx_failed_def tx_mined_def reload_done_def load_active_def verHistorial_def
          Let_def split: outcome.splits option.splits sum.splits pcall.splits prod.splits)
qed (simp add: resume_task_def)

lemma click_keeps_account: "account (app (click b w)) = account (app w)"
  by (cases b)
     (auto simp: handleSubmit_ui_def solicitarPrestamo_ui_def financiarPrestamo_ui_def pagarPrestamo_ui_def
        verHistorial_def verFormulario_def report_error_def Let_def
        split: form_result.splits option.splits sum.splits validation_error.splits prod.splits)

lemma step_keeps_account:
  "signer_inv w \<Longrightarrow> contract (app w) \<noteq> None \<Longrightarrow> account (app (step w e)) = account (app w)"
  by (cases e) (simp_all add: resume_keeps_account click_keeps_account)

end
