(* ===== verification/Deployment.thy ===== *)
theory Deployment
  imports Orchestrator
begin

text \<open>
  The deployment tooling: \<open>src/hardhat.config.js\<close> (the compiler version and the
  one network with its RPC endpoint and deployer key) and \<open>src/scripts/deploy.js\<close>,
  which deploys the contract through Hardhat's ethers plugin, waits for the
  deployment, and prints the new address; a rejection anywhere is printed to the
  error stream and sets the process exit code to 1. The three awaited calls are the
  environment: \<open>deploy_result\<close> says which of them rejects, or the address the
  contract got. The contract's constructor takes no argument, so a deployed contract
  is the empty ledger of the spec's loan registry (\<open>fresh_ledger\<close>).
\<close>

record network_cfg =
  url :: string
  accounts :: "string list"

record hardhat_cfg =
  solidity :: string
  networks :: "(string \<times> network_cfg) list"

definition hardhat_config :: hardhat_cfg where
  "hardhat_config =
     \<lparr>solidity = ''0.8.17'',
      networks = [(''alfajores'',
        \<lparr>url = ''https://alfajores-forno.celo-testnet.org'',
         accounts = [''0db59430a43f4ac3eeedd46aadca0bf1668866a2ce229ac038d9f082895caaa2'']\<rparr>)]\<rparr>"

datatype deploy_result = DeployRejects string | WaitRejects string | DeployedAt address

record deploy_out =
  console_log :: "(string \<times> address) list"
  console_error :: "string list"
  exitCode :: "nat option"

definition fresh_ledger :: "(wei \<Rightarrow> nat \<Rightarrow> wei) \<Rightarrow> ledger" where
  "fresh_ledger rate = \<lparr>loans = [], interest_of = rate\<rparr>"

text \<open>
  \<open>main()\<close> and its \<open>.catch\<close>: the output of the process, and the ledger the
  script reports deployed (none when a step rejects: no address is printed, even if
  the deployment transaction was sent before \<open>waitForDeployment\<close> failed).
\<close>

definition deploy_main :: "(wei \<Rightarrow> nat \<Rightarrow> wei) \<Rightarrow> deploy_result \<Rightarrow> deploy_out \<times> ledger option" where
  "deploy_main rate r =
     (case r of
        DeployRejects e \<Rightarrow> (\<lparr>console_log = [], console_error = [e], exitCode = Some 1\<rparr>, None)
      | WaitRejects e \<Rightarrow> (\<lparr>console_log = [], console_error = [e], exitCode = Some 1\<rparr>, None)
      | DeployedAt a \<Rightarrow>
          (\<lparr>console_log = [(''Contrato desplegado en:'', a)], console_error = [], exitCode = None\<rparr>,
           Some (fresh_ledger rate)))"

lemma fresh_ledger_wf: "ledger_wf (fresh_ledger rate)"
  unfolding fresh_ledger_def by (rule ledger_wf_empty)

end
