(* ===== verification/Format.thy ===== *)
theory Format
  imports JsRuntime
begin

text \<open>
  The two formatting functions the render of \<open>src/frontend/src/App.jsx\<close> applies
  to every amount it shows (lines 220, 229-231, 265-268, 309):
  \<^item> ethers v6 \<open>formatEther(wei)\<close>, that is \<open>FixedNumber.toString\<close> with 18
    decimals: the decimal digits of the value with a point inserted 18 places from
    the right, leading zeros of the whole part and trailing zeros of the fraction
    removed, each part keeping at least one digit;
  \<^item> \<open>Number.prototype.toFixed(2)\<close> (ECMA-262, 21.1.3.3): for \<open>x < 10^21\<close>, the
    integer \<open>n\<close> nearest to \<open>100 x\<close> (the larger on a tie) written with at least
    one digit before the point and exactly two after; above \<open>10^21\<close> the result is
    \<open>ToString(x)\<close> in exponent notation, which is not modelled (\<open>None\<close>).
  Both are library code; the model of the render that calls them is in
  \<open>Render\<close>. The render reads the output of \<open>formatEther\<close> back with
  \<open>Number(...)\<close>; on a decimal literal \<open>Number\<close> and \<open>parseFloat\<close> agree, so
  the model uses \<open>js_parseFloat\<close>.
\<close>

definition pad_left :: "nat \<Rightarrow> string \<Rightarrow> string" where
  "pad_left k s = replicate (k - length s) (CHR ''0'') @ s"

definition trim_trailing_zeros :: "string \<Rightarrow> string" where
  "trim_trailing_zeros s = (let t = rev (dropWhile (\<lambda>c. c = CHR ''0'') (rev s)) in if t = [] then ''0'' else t)"

definition format_ether :: "nat \<Rightarrow> string" where
  "format_ether w =
     show_nat (w div 10 ^ 18) @ ''.'' @ trim_trailing_zeros (pad_left 18 (show_nat (w mod 10 ^ 18)))"

definition fixed2_digits :: "nat \<Rightarrow> string" where
  "fixed2_digits n =
     (let m = pad_left 3 (show_nat n); k = length m in take (k - 2) m @ ''.'' @ drop (k - 2) m)"

definition js_toFixed2 :: "jsnum \<Rightarrow> string option" where
  "js_toFixed2 x =
     (case x of
        NaN \<Rightarrow> Some ''NaN''
      | PosInf \<Rightarrow> Some ''Infinity''
      | NegInf \<Rightarrow> Some ''-Infinity''
      | Num q \<Rightarrow>
          if 10 ^ 21 \<le> \<bar>q\<bar> then None
          else Some ((if q < 0 then ''-'' else []) @ fixed2_digits (nat \<lfloor>\<bar>q\<bar> * 100 + 1 / 2\<rfloor>)))"

subsection \<open>Digit strings\<close>

definition all_digits :: "string \<Rightarrow> bool" where
  "all_digits s \<longleftrightarrow> (\<forall>c \<in> set s. is_digit c)"

lemma digits_value_append:
  "digits_value r (xs @ ys) = digits_value r xs * r ^ length ys + digits_value r ys"
proof (induction ys rule: rev_induct)
  case Nil
  then show ?case by (simp add: digits_value_def)
next
  case (snoc y ys)
  then show ?case
    by (simp only: append_assoc [symmetric] digits_value_snoc) (simp add: algebra_simps)
qed

lemma digits_value_zeros: "digits_value r (replicate k (CHR ''0'')) = 0"
proof (induction k)
  case (Suc k)
  have "replicate (Suc k) (CHR ''0'') = replicate k (CHR ''0'') @ [CHR ''0'']"
    by (simp add: replicate_append_same)
  with Suc show ?case by (simp add: digits_value_snoc digit_val_def is_digit_def)
qed (simp add: digits_value_def)

lemma digit_zero: "is_digit (CHR ''0'')"
  by (simp add: is_digit_def)

lemma pad_left_digits: "all_digits s \<Longrightarrow> all_digits (pad_left k s)"
  by (auto simp: all_digits_def pad_left_def digit_zero)

lemma pad_left_value: "digits_value r (pad_left k s) = digits_value r s"
  by (simp add: pad_left_def digits_value_append digits_value_zeros)

lemma pad_left_length: "length s \<le> k \<Longrightarrow> length (pad_left k s) = k"
  by (simp add: pad_left_def)

lemma pad_left_length_ge: "k \<le> length (pad_left k s)"
  by (simp add: pad_left_def)

lemma show_nat_all_digits: "all_digits (show_nat n)"
  using show_nat_digits by (simp add: all_digits_def)

lemma show_nat_length: "n < 10 ^ k \<Longrightarrow> 0 < k \<Longrightarrow> length (show_nat n) \<le> k"
proof (induction n arbitrary: k rule: show_nat.induct)
  case (1 n)
  show ?case
  proof (cases "n < 10")
    case True
    with "1.prems" show ?thesis by (subst show_nat.simps) simp
  next
    case False
    then obtain k' where k: "k = Suc k'" and "0 < k'"
      using "1.prems" by (cases k; cases "k - 1") (auto simp: le_less_trans [of 10 n])
    moreover have "n div 10 < 10 ^ k'" using "1.prems"(1) k by (simp add: less_mult_imp_div_less)
    ultimately have "length (show_nat (n div 10)) \<le> k'" using "1.IH" False by simp
    with False k show ?thesis by (subst show_nat.simps) simp
  qed
qed


lemma trim_trailing_zeros_split:
  "\<exists>k. s = rev (dropWhile (\<lambda>c. c = CHR ''0'') (rev s)) @ replicate k (CHR ''0'')"
proof -
  let ?z = "takeWhile (\<lambda>c. c = CHR ''0'') (rev s)" and ?d = "dropWhile (\<lambda>c. c = CHR ''0'') (rev s)"
  have "s = rev (?z @ ?d)" by (simp only: takeWhile_dropWhile_id rev_rev_ident)
  then have s: "s = rev ?d @ rev ?z" by (simp only: rev_append)
  have "\<forall>y \<in> set (rev ?z). y = CHR ''0''" by (auto dest: set_takeWhileD)
  then have "replicate (length (rev ?z)) (CHR ''0'') = rev ?z" by (rule replicate_length_same)
  with s show ?thesis by metis
qed

lemma trim_trailing_zeros_value:
  assumes "all_digits s"
  shows "all_digits (trim_trailing_zeros s) \<and> trim_trailing_zeros s \<noteq> []
    \<and> (of_nat (digits_value 10 (trim_trailing_zeros s)) :: rat) / 10 ^ length (trim_trailing_zeros s)
        = of_nat (digits_value 10 s) / 10 ^ length s"
proof -
  define t where "t = rev (dropWhile (\<lambda>c. c = CHR ''0'') (rev s))"
  obtain k where s: "s = t @ replicate k (CHR ''0'')"
    using trim_trailing_zeros_split [of s] unfolding t_def by blast
  have v: "digits_value 10 s = digits_value 10 t * 10 ^ k"
    using s by (simp add: digits_value_append digits_value_zeros)
  have l: "length s = length t + k" using s by simp
  have dt: "all_digits t" using assms s by (simp add: all_digits_def)
  show ?thesis
  proof (cases "t = []")
    case True
    have tr: "trim_trailing_zeros s = ''0''"
      using True by (simp add: trim_trailing_zeros_def Let_def t_def [symmetric])
    have z: "digits_value 10 ''0'' = 0" by (simp add: digits_value_def digit_val_def is_digit_def)
    have "digits_value 10 s = 0" using v True by (simp add: digits_value_def)
    then show ?thesis by (simp add: tr z all_digits_def digit_zero)
  next
    case False
    have tr: "trim_trailing_zeros s = t"
      using False by (simp add: trim_trailing_zeros_def Let_def t_def [symmetric])
    have "(of_nat (digits_value 10 t) :: rat) / 10 ^ length t
        = of_nat (digits_value 10 t * 10 ^ k) / 10 ^ (length t + k)"
      by (simp add: power_add)
    with False dt show ?thesis by (simp only: tr v l) simp
  qed
qed

lemma decimal_parseFloat:
  assumes "a \<noteq> []" and "all_digits a" and "b \<noteq> []" and "all_digits b"
  shows "js_parseFloat (a @ ''.'' @ b)
    = Num (of_nat (digits_value 10 a) + of_nat (digits_value 10 b) / 10 ^ length b)"
proof -
  obtain c cs where a: "a = c # cs" and c: "is_digit c"
    using assms(1,2) by (cases a) (auto simp: all_digits_def)
  have ta: "takeWhile is_digit (a @ CHR ''.'' # b) = a"
    using assms(2) by (simp add: takeWhile_append2 all_digits_def is_digit_def)
  have tb: "takeWhile is_digit b = b" using assms(4) by (simp add: all_digits_def digits_takeWhile)
  have "take 8 (a @ CHR ''.'' # b) \<noteq> ''Infinity''" using a c by (auto simp: is_digit_not_special)
  moreover have "dropWhile js_ws (a @ CHR ''.'' # b) = a @ CHR ''.'' # b"
    using a c by (simp add: is_digit_not_special)
  moreover have "split_sign (a @ CHR ''.'' # b) = (False, a @ CHR ''.'' # b)"
    using a c by (simp add: is_digit_not_special)
  moreover have "(of_nat (digits_value 10 a * 10 ^ length b + digits_value 10 b) :: rat) / 10 ^ length b
      = of_nat (digits_value 10 a) + of_nat (digits_value 10 b) / 10 ^ length b"
    by (simp add: add_divide_distrib)
  ultimately show ?thesis
    by (simp add: js_parseFloat_def Let_def signed_def pow10_def digits_value_append ta tb assms(1)
        del: takeWhile_append takeWhile_append2 takeWhile_eq_all_conv)
qed


subsection \<open>Reading the formatted amounts back\<close>

lemma format_ether_parse: "js_parseFloat (format_ether w) = Num (of_nat w / 10 ^ 18)"
proof -
  let ?f = "pad_left 18 (show_nat (w mod 10 ^ 18))"
  have "length (show_nat (w mod 10 ^ 18)) \<le> 18" by (rule show_nat_length) simp_all
  then have lf: "length ?f = 18" by (rule pad_left_length)
  have df: "all_digits ?f" by (rule pad_left_digits [OF show_nat_all_digits])
  note tr = trim_trailing_zeros_value [OF df]
  have "js_parseFloat (format_ether w)
      = Num (of_nat (digits_value 10 (show_nat (w div 10 ^ 18)))
          + of_nat (digits_value 10 (trim_trailing_zeros ?f)) / 10 ^ length (trim_trailing_zeros ?f))"
    unfolding format_ether_def
    by (rule decimal_parseFloat) (use tr show_nat_nonempty show_nat_all_digits in simp_all)
  also have "\<dots> = Num (of_nat (w div 10 ^ 18) + of_nat (w mod 10 ^ 18) / 10 ^ 18)"
    using tr lf by (simp add: digits_value_show_nat pad_left_value)
  also have "(of_nat (w div 10 ^ 18) :: rat) + of_nat (w mod 10 ^ 18) / 10 ^ 18 = of_nat w / 10 ^ 18"
  proof -
    have "(of_nat w :: rat) = of_nat (w div 10 ^ 18) * 10 ^ 18 + of_nat (w mod 10 ^ 18)"
      by (metis of_nat_add of_nat_mult of_nat_numeral of_nat_power div_mult_mod_eq)
    then show ?thesis by (simp add: field_simps)
  qed
  finally show ?thesis .
qed

lemma fixed2_digits_parse: "js_parseFloat (fixed2_digits n) = Num (of_nat n / 100)"
proof -
  let ?m = "pad_left 3 (show_nat n)"
  have k: "3 \<le> length ?m" by (rule pad_left_length_ge)
  have dm: "all_digits ?m" by (rule pad_left_digits [OF show_nat_all_digits])
  let ?a = "take (length ?m - 2) ?m" and ?b = "drop (length ?m - 2) ?m"
  have a: "?a \<noteq> []" "all_digits ?a" using k dm by (auto simp: all_digits_def dest: in_set_takeD)
  have b: "?b \<noteq> []" "all_digits ?b" "length ?b = 2" using k dm by (auto simp: all_digits_def dest: in_set_dropD)
  have "digits_value 10 ?m = digits_value 10 ?a * 100 + digits_value 10 ?b"
    using digits_value_append [of 10 ?a ?b] b(3) by simp
  then have "(of_nat (digits_value 10 ?a) :: rat) + of_nat (digits_value 10 ?b) / 10 ^ 2 = of_nat n / 100"
    by (simp add: pad_left_value digits_value_show_nat field_simps)
  moreover have "js_parseFloat (fixed2_digits n)
      = Num (of_nat (digits_value 10 ?a) + of_nat (digits_value 10 ?b) / 10 ^ length ?b)"
    unfolding fixed2_digits_def Let_def by (rule decimal_parseFloat) (use a b in simp_all)
  ultimately show ?thesis using b(3) by simp
qed

lemma toFixed2_nearest:
  assumes "0 \<le> q" and "q < 10 ^ 21"
  shows "js_toFixed2 (Num q) = Some (fixed2_digits (nat \<lfloor>q * 100 + 1 / 2\<rfloor>))
    \<and> \<bar>of_int \<lfloor>q * 100 + 1 / 2\<rfloor> / 100 - q\<bar> \<le> 1 / 200"
proof -
  define n :: rat where "n = of_int \<lfloor>q * 100 + 1 / 2\<rfloor>"
  have "n \<le> q * 100 + 1 / 2" unfolding n_def by (rule of_int_floor_le)
  moreover have "q * 100 + 1 / 2 < n + 1"
    unfolding n_def using floor_correct [of "q * 100 + 1 / 2"] by simp
  ultimately have "\<bar>n / 100 - q\<bar> \<le> 1 / 200" unfolding abs_le_iff by linarith
  then have "\<bar>of_int \<lfloor>q * 100 + 1 / 2\<rfloor> / 100 - q\<bar> \<le> 1 / 200" by (simp only: n_def)
  with assms show ?thesis by (simp add: js_toFixed2_def)
qed

end
