(* ===== verification/Render.thy ===== *)
theory Render
  imports Orchestrator Format
begin

text \<open>
  The page \<open>App\<close> renders (\<open>src/frontend/src/App.jsx\<close>, lines 184-316, with
  \<open>BotonesHistorial\<close>): the connected account, and one of three bodies. The form
  view lists the active requests, or the message \<open>Cargando solicitudes
  activas...\<close> when the list is empty; the requester's history shows each loan's
  amount, a status with the total paid, and a \<open>Pagar\<close> button; the funder's history
  shows amount, requester and status. Each fixed text of the markup is a constructor
  (\<open>label\<close>, \<open>btn_text\<close>); each amount is the string the code computes,
  \<open>Number(ethers.formatEther(x)).toFixed(2)\<close>. A rendered button carries its
  \<open>disabled\<close> flag and the click event it sends.
\<close>

datatype label = LPagado | LFinanciado | LPendiente | LCerrado "string option" | LNoFinanciado

datatype btn_text = TxtFinanciar "string option" | TxtFinanciando | TxtPagar "string option" | TxtPagando

record rbutton =
  rb_text :: btn_text
  rb_disabled :: bool
  rb_click :: button

datatype row =
  ActiveRow address "string option" label "rbutton option"
| OwnRow "string option" label "rbutton option"
| FundedRow "string option" address label

datatype body = FormBody "row list option" | SolicitadoBody "row list" | FinanciadoBody "row list"

record page =
  connected :: "address option"
  body :: body

text \<open>\<open>Number(ethers.formatEther(x))\<close>\<close>

definition celo :: "wei \<Rightarrow> jsnum" where
  "celo w = js_parseFloat (format_ether w)"

text \<open>Number addition (lines 266-268: \<open>principal + interes\<close>).\<close>

fun js_add :: "jsnum \<Rightarrow> jsnum \<Rightarrow> jsnum" where
  "js_add (Num a) (Num b) = Num (a + b)"
| "js_add PosInf NegInf = NaN"
| "js_add NegInf PosInf = NaN"
| "js_add PosInf y = (if y = NaN then NaN else PosInf)"
| "js_add NegInf y = (if y = NaN then NaN else NegInf)"
| "js_add x PosInf = (if x = NaN then NaN else PosInf)"
| "js_add x NegInf = (if x = NaN then NaN else NegInf)"
| "js_add _ _ = NaN"

text \<open>One entry of the list of active requests (lines 213-244).\<close>

definition active_row :: "app_state \<Rightarrow> loan \<Rightarrow> row" where
  "active_row s p =
     (let status = (if pagado p then LPagado else if financiado p then LFinanciado else LPendiente);
          totalCelo = js_toFixed2 (celo (totalWei p));
          loading = isLoading s AFinanciar (id_loan p)
      in ActiveRow (solicitante p) (js_toFixed2 (celo (montoPrincipal p))) status
           (if \<not> financiado p then
              Some \<lparr>rb_text = (if loading then TxtFinanciando else TxtFinanciar totalCelo),
                    rb_disabled = loading, rb_click = BtnFinanciar (id_loan p)\<rparr>
            else None))"

text \<open>One entry of the requester's history (lines 255-294).\<close>

definition own_row :: "app_state \<Rightarrow> loan \<Rightarrow> row" where
  "own_row s p =
     (let principal = celo (montoPrincipal p);
          total = js_add principal (celo (interes p));
          status = (if pagado p then LCerrado (js_toFixed2 total)
                    else if financiado p then LFinanciado else LNoFinanciado);
          loading = isLoading s APagar (id_loan p)
      in OwnRow (js_toFixed2 principal) status
           (if canPay p \<and> \<not> pagado p then
              Some \<lparr>rb_text = (if loading then TxtPagando else TxtPagar (js_toFixed2 total)),
                    rb_disabled = loading, rb_click = BtnPagar (id_loan p)\<rparr>
            else None))"

text \<open>One entry of the funder's history (lines 305-310).\<close>

definition funded_row :: "loan \<Rightarrow> row" where
  "funded_row p =
     FundedRow (js_toFixed2 (celo (montoPrincipal p))) (solicitante p) (if pagado p then LPagado else LFinanciado)"

definition render :: "app_state \<Rightarrow> page" where
  "render s =
     \<lparr>connected = account s,
      body = (case vista s of
                Formulario \<Rightarrow> FormBody (if prestamos s = [] then None else Some (map (active_row s) (prestamos s)))
              | Solicitado \<Rightarrow> SolicitadoBody (map (own_row s) (historial s))
              | Financiado \<Rightarrow> FinanciadoBody (map funded_row (historial s)))\<rparr>"

fun row_button :: "row \<Rightarrow> rbutton option" where
  "row_button (ActiveRow _ _ _ b) = b"
| "row_button (OwnRow _ _ b) = b"
| "row_button (FundedRow _ _ _) = None"

fun body_rows :: "body \<Rightarrow> row list" where
  "body_rows (FormBody r) = (case r of Some rs \<Rightarrow> rs | None \<Rightarrow> [])"
| "body_rows (SolicitadoBody rs) = rs"
| "body_rows (FinanciadoBody rs) = rs"

text \<open>The click events of the enabled buttons of the loan rows.\<close>

definition enabled_clicks :: "page \<Rightarrow> button list" where
  "enabled_clicks pg =
     List.map_filter (\<lambda>r. case row_button r of
                            Some b \<Rightarrow> if rb_disabled b then None else Some (rb_click b)
                          | None \<Rightarrow> None) (body_rows (body pg))"

lemmas render_defs = render_def active_row_def own_row_def funded_row_def enabled_clicks_def


subsection \<open>The amounts and the buttons of the page\<close>

lemma celo_exact: "celo w = Num (of_nat w / 10 ^ 18)"
  by (simp add: celo_def format_ether_parse)

lemma in_set_map_filter: "x \<in> set (List.map_filter f xs) \<longleftrightarrow> (\<exists>y \<in> set xs. f y = Some x)"
  by (induction xs) (auto simp: List.map_filter_def)

lemma find_Some_mem: "find P xs = Some x \<Longrightarrow> x \<in> set xs \<and> P x"
  by (induction xs) (auto split: if_splits)

lemma fund_target_exists:
  "fund_target s i \<noteq> None \<longleftrightarrow>
     vista s = Formulario \<and> (\<exists>p \<in> set (prestamos s). id_loan p = i \<and> \<not> financiado p)
     \<and> \<not> isLoading s AFinanciar i"
  by (auto simp: fund_target_def find_None_iff dest: find_Some_mem split: option.splits)

lemma pay_target_exists:
  "pay_target s i \<noteq> None \<longleftrightarrow>
     vista s = Solicitado \<and> (\<exists>p \<in> set (historial s). id_loan p = i \<and> canPay p \<and> \<not> pagado p)
     \<and> \<not> isLoading s APagar i"
  by (auto simp: pay_target_def find_None_iff dest: find_Some_mem split: option.splits)

text \<open>Which buttons of the rendered page are enabled, read off the markup alone.\<close>

lemma render_fund_enabled:
  "BtnFinanciar i \<in> set (enabled_clicks (render s)) \<longleftrightarrow>
     vista s = Formulario \<and> (\<exists>p \<in> set (prestamos s). id_loan p = i \<and> \<not> financiado p)
     \<and> \<not> isLoading s AFinanciar i"
  by (cases "vista s") (auto simp: render_def enabled_clicks_def in_set_map_filter active_row_def
      own_row_def funded_row_def Let_def split: if_splits)

lemma render_pay_enabled:
  "BtnPagar i \<in> set (enabled_clicks (render s)) \<longleftrightarrow>
     vista s = Solicitado \<and> (\<exists>p \<in> set (historial s). id_loan p = i \<and> canPay p \<and> \<not> pagado p)
     \<and> \<not> isLoading s APagar i"
  by (cases "vista s") (auto simp: render_def enabled_clicks_def in_set_map_filter active_row_def
      own_row_def funded_row_def Let_def split: if_splits)

text \<open>The click model of \<open>Orchestrator\<close> fires exactly the enabled buttons of the page.\<close>

lemma enabled_fund_click:
  "BtnFinanciar i \<in> set (enabled_clicks (render s)) \<longleftrightarrow> fund_target s i \<noteq> None"
  unfolding fund_target_exists by (rule render_fund_enabled)

lemma enabled_pay_click:
  "BtnPagar i \<in> set (enabled_clicks (render s)) \<longleftrightarrow> pay_target s i \<noteq> None"
  unfolding pay_target_exists by (rule render_pay_enabled)

text \<open>An amount below \<open>10^21\<close> CELO, as the page writes it, reads back within half a cent.\<close>

lemma toFixed2_wei:
  assumes "w < 10 ^ 39"
  shows "\<exists>t c. js_toFixed2 (celo w) = Some t \<and> js_parseFloat t = Num c
    \<and> \<bar>c - of_nat w / 10 ^ 18\<bar> \<le> 1 / 200"
proof -
  let ?q = "(of_nat w :: rat) / 10 ^ 18"
  have "0 \<le> ?q" by simp
  moreover have "?q < 10 ^ 21"
  proof -
    have "(of_nat w :: rat) < 10 ^ 39" using assms by (metis of_nat_less_numeral_power_cancel_iff)
    then show ?thesis by (simp add: divide_less_eq)
  qed
  ultimately have r: "js_toFixed2 (Num ?q) = Some (fixed2_digits (nat \<lfloor>?q * 100 + 1 / 2\<rfloor>))"
    and b: "\<bar>of_int \<lfloor>?q * 100 + 1 / 2\<rfloor> / 100 - ?q\<bar> \<le> 1 / 200"
    using toFixed2_nearest by blast+
  define n where "n = \<lfloor>?q * 100 + 1 / 2\<rfloor>"
  have "0 \<le> n" by (simp add: n_def)
  then have "js_parseFloat (fixed2_digits (nat n)) = Num (of_int n / 100)"
    by (simp add: fixed2_digits_parse)
  with r b show ?thesis unfolding n_def celo_exact by blast
qed

text \<open>The total on the \<open>Pagar\<close> button, read back, is within half a cent of the wei it sends.\<close>

lemma own_row_pay_text:
  assumes "canPay p" and "\<not> pagado p" and "\<not> isLoading s APagar (id_loan p)"
    and "totalWei p < 10 ^ 39"
  shows "\<exists>t c. own_row s p = OwnRow (js_toFixed2 (celo (montoPrincipal p))) LFinanciado
                 (Some \<lparr>rb_text = TxtPagar (Some t), rb_disabled = False, rb_click = BtnPagar (id_loan p)\<rparr>)
     \<and> js_parseFloat t = Num c \<and> \<bar>c - of_nat (totalWei p) / 10 ^ 18\<bar> \<le> 1 / 200"
proof -
  have tot: "js_add (celo (montoPrincipal p)) (celo (interes p)) = celo (totalWei p)"
    by (simp add: celo_exact totalWei_def add_divide_distrib)
  from toFixed2_wei [OF assms(4)] obtain t c where "js_toFixed2 (celo (totalWei p)) = Some t"
    and "js_parseFloat t = Num c" and "\<bar>c - of_nat (totalWei p) / 10 ^ 18\<bar> \<le> 1 / 200"
    by blast
  then show ?thesis using assms(1-3) tot by (auto simp: own_row_def Let_def canPay_def)
qed

text \<open>The same for the \<open>Financiar\<close> button of an active request.\<close>

lemma active_row_fund_text:
  assumes "\<not> financiado p" and "\<not> isLoading s AFinanciar (id_loan p)" and "totalWei p < 10 ^ 39"
  shows "\<exists>t c. row_button (active_row s p)
       = Some \<lparr>rb_text = TxtFinanciar (Some t), rb_disabled = False, rb_click = BtnFinanciar (id_loan p)\<rparr>
     \<and> js_parseFloat t = Num c \<and> \<bar>c - of_nat (totalWei p) / 10 ^ 18\<bar> \<le> 1 / 200"
proof -
  from toFixed2_wei [OF assms(3)] obtain t c where "js_toFixed2 (celo (totalWei p)) = Some t"
    and "js_parseFloat t = Num c" and "\<bar>c - of_nat (totalWei p) / 10 ^ 18\<bar> \<le> 1 / 200"
    by blast
  then show ?thesis using assms(1,2) by (auto simp: active_row_def Let_def)
qed

lemma active_row_rendered:
  "vista s = Formulario \<Longrightarrow> p \<in> set (prestamos s) \<Longrightarrow> active_row s p \<in> set (body_rows (body (render s)))"
  by (auto simp: render_def)

end
