(* ===== verification/Spec2Isabelle.thy ===== *)
theory Spec2Isabelle
  imports SingleFlight Consistency Liveness Interleaving StartUp Signer Deployment Render "HOL-Library.Word"
begin

text \<open>
  \<^bold>\<open>Microcredit frontend: a verification development.\<close>

  The repository is a React frontend (\<open>src/frontend/src/App.jsx\<close>, with the
  components \<open>SolicitarPrestamo.jsx\<close> and \<open>BotonesHistorial.jsx\<close>) for a
  loan contract on the Celo Alfajores test network, plus a Hardhat configuration
  and deployment script. The frontend validates a loan request, submits the
  contract's three mutating calls (request, fund, repay) through ethers v6 and the
  wallet, waits for each transaction, reloads the loan lists, and turns failures
  into notifications. The contract itself is not in the repository.

  \<^bold>\<open>Theories and what they model.\<close>
  \<^item> \<open>Prelude\<close>: basic type names (addresses, wei, loan ids, seconds), the
    collections \<open>ledger_simps\<close>, \<open>js_simps\<close>, \<open>app_simps\<close>, and list lemmas
    (removal of a task by position, \<open>List.map_filter\<close> under update and removal).
  \<^item> \<open>JsRuntime\<close>: the JavaScript built-ins the code calls: numbers with \<open>NaN\<close>
    and infinities (finite values as exact rationals), truthiness, \<open><\<close>,
    \<open>===\<close> on primitives (numbers, BigInts, strings), \<open>trim\<close>, \<open>includes\<close>,
    \<open>parseInt\<close>, \<open>parseFloat\<close>. These are the language's semantics, not code of
    the repository.
  \<^item> \<open>ErrorClassifier\<close>: \<open>handleTxError\<close> (App.jsx 12-27) over the shapes of
    thrown values, returning the spec's taxonomy or the \<open>TypeError\<close> it throws itself.
  \<^item> \<open>Validation\<close>: the form's \<open>handleSubmit\<close> (SolicitarPrestamo.jsx 2-17), the
    App's request guard (App.jsx 90-99, the spec's \<open>validateRequest\<close>) and the wei
    conversion of line 102.
  \<^item> \<open>Ledger\<close>: the contract, from the spec (sections 3 and 6): loans, the three calls
    with their reverts, the three queries, the loan state machine Pending, Funded,
    Repaid (\<open>loan_step\<close>), and the invariant \<open>ledger_wf\<close> every call keeps.
  \<^item> \<open>AppState\<close>: the React state of \<open>App\<close> (lines 30-37) as a record, the action
    slot \<open>loadingAction\<close>, notifications, and the suspended handlers as tasks.
  \<^item> \<open>View\<close>: what the render derives for the handlers (total, loading flags),
    which buttons are shown and enabled, and the loan each passes to its handler.
  \<^item> \<open>Format\<close>: ethers \<open>formatEther\<close> and JavaScript \<open>toFixed(2)\<close>, the
    formatting every amount on the page goes through, with the lemmas that read
    their output back (library code, not in the map).
  \<^item> \<open>Render\<close>: the page \<open>App\<close> renders (lines 184-316): the connected account,
    the three views, each loan row with its texts, amounts and buttons, and the
    click events of its enabled buttons.
  \<^item> \<open>Orchestrator\<close>: the handlers (App.jsx 40-182) split at their \<open>await\<close>s, the
    resumption of a task when its promise settles, and the event \<open>step\<close> of the
    whole world (frontend, ledger, pending tasks, notifications, clock). Events are
    user input, clicks on rendered buttons, settlement of any pending promise with
    an outcome chosen by the environment, other clients' transactions and time.
    A transaction's first \<open>await\<close> settles after ethers v6 has estimated its gas
    on the current ledger (a call that would revert rejects there, with its reason);
    the second settles when it is mined on the ledger as it then is (a revert there
    rejects with a reasonless \<open>CALL_EXCEPTION\<close>).
    \<open>reach\<close> is the set of worlds reachable from start-up on any wallet and any
    well-formed ledger.
  \<^item> \<open>SingleFlight\<close>: the invariant relating the action slot to the transactions in
    flight, proved for every event.
  \<^item> \<open>Consistency\<close>: the invariant that the ledger stays well formed, that every
    loan the frontend shows agrees with the ledger loan of its id on the fields fixed
    at creation, and that every call in flight carries the principal plus interest of
    the loan it names; proved for every event. It also shows that one event executes
    at most one ledger call (\<open>one_call\<close>), so a loan moves by at most one transition.
  \<^item> \<open>Liveness\<close>: the progress of the suspended handlers: a weight of the pending
    tasks that every answered resumption decreases, and \<open>drain\<close>, the environment's
    schedule that settles the oldest task until none is left, a \<open>function\<close> whose
    termination is proved by that measure.
  \<^item> \<open>Interleaving\<close>: which resumptions commute with typing in the form.
  \<^item> \<open>Signer\<close>: the invariant that the account and the contract object agree,
    that every transaction in flight is signed by them, and that start-up runs
    once, before there is a contract object.
  \<^item> \<open>StartUp\<close>: the start-up effect from the whole world: without a wallet
    the world stays disconnected in every run; with one, the four resumptions of
    a successful start-up.
  \<^item> \<open>Deployment\<close>: \<open>src/hardhat.config.js\<close> as a record and \<open>main()\<close> of
    \<open>src/scripts/deploy.js\<close> over the outcomes of its awaited calls, with the empty
    ledger a deployment leaves.
  \<^item> This theory: the properties that span components, with their witnesses.

  \<^bold>\<open>What is proved here.\<close>
  \<^item> Single flight (C1-C8): the slot is released on every exit path and names a
    call in flight. Single flight itself is not enforced: a request click re-enables
    the funding button of a loan whose funding is in flight (C3). The finally block
    clears another action's slot. Buttons are disabled only for their own loan. The
    repayment has a time guard and sends principal plus interest.
  \<^item> The frontend against the ledger (C9-C12, C25-C26): a revert at mining is shown
    only as the generic failure. After a repayment the \<open>Pagar\<close> button is enabled
    again while the stale history still shows the loan unpaid. Repayments are never
    underpaid, and every funding of a loan with interest reverts. After a funding
    the refresh shows the loan funded; after a repayment only the history is
    refreshed.
  \<^item> Error classification (C13-C17): cancellation is checked first. The
    insufficient-payment class is exactly a substring match. Classification is
    total. A nullish rejection fails silently. No error ethers v6 raises is a
    cancellation.
  \<^item> Validation (C18-C19, C21-C23): the form refines the App's guard. A small amount
    never reaches the ledger. The form reads a term only up to its first non-digit.
    Whole numbers below \<open>2^53\<close> read back exactly. The network check warns on every
    chain, because of the BigInt comparison.
  \<^item> A late history load (C20) switches the view back after the user returned to
    the form.
  \<^item> The page (C24, C27, C30): the enabled buttons of the rendered markup, which do
    not depend on the clock. The \<open>Financiar\<close> and \<open>Pagar\<close> buttons show, to the
    cent, the amount their click sends.
  \<^item> Progress (C28-C29): from every reachable world, once the environment answers
    every pending promise, all handlers finish and the slot is idle. Each answered
    resumption decreases the measure.
  \<^item> Bounds (C31): a request amount that passes the checks is between \<open>10^17\<close>
    and \<open>10^39\<close> wei, so it encodes as a 256-bit word without wrapping.
  \<^item> Ordering (C32-C33): typing commutes with every other resumption, except a
    history load and the end of a request. The end of a request clears input typed
    while it was pending.
  \<^item> Deployment and start-up (C34-C36): the script fails exactly when it exits
    with 1. On success the frontend starts on the empty ledger it leaves. Without a
    wallet nothing is ever submitted. With one, start-up ends connected, with the
    list loaded.
  \<^item> History (C37): \<open>Ver solicitado\<close> shows the ledger's loans of the account.
  \<^item> Reverts (C38): a call that would revert never reaches the wallet; the revert
    reason reaches the classifier, so \<open>Monto insuficiente\<close> gives the
    insufficient-payment notice and any other reason the generic one.
  \<^item> Signer (C39-C40): every transaction in flight is signed by the connected
    account, and once set, the account never changes.

  \<^bold>\<open>Concurrency.\<close> JavaScript runs one handler at a time, but a handler gives up
  control at each \<open>await\<close>; the model makes every such point a task and lets any
  pending task be resumed next, so every interleaving of user actions, wallet and
  node responses and other clients' transactions is a run of \<open>step\<close>. No bound or
  fuel is needed. Every definition is total by structural recursion, except
  \<open>drain\<close>, whose termination is proved by the pending-task measure. Runs are
  finite lists of events.

  \<^bold>\<open>Not modelled.\<close> Styles and the emoji glyphs of the markup (each fixed text
  is a constructor); \<open>toFixed\<close> at \<open>10^21\<close> and above, where it switches to
  exponent notation (\<open>None\<close>); Hardhat's own use of its configuration (compilation,
  key handling, the RPC connection); the wallet and node beyond the outcomes they give a
  promise (ethers' gas estimate is the ledger call on the current state); rounding
  of JavaScript doubles: finite numbers are exact rationals, which is exact for the
  integers below \<open>2^53\<close> the claims on typed numbers assume; it shifts the
  half-cent bounds on the amounts the page shows by at most an ulp, and an amount
  typed with more than 18 decimals is refused by the model's \<open>parseEther\<close> where
  JavaScript would first round it to a double; and non-ASCII white space in
  \<open>trim\<close>.
\<close>

definition demo_ledger :: ledger where
  "demo_ledger = \<lparr>loans = [], interest_of = (\<lambda>a d. a div 10)\<rparr>"

text \<open>
  A start-up on Alfajores (the node answers the chain id as a BigInt), another
  client's request of 100 wei for 10 days, the list loaded, then: fund loan 0,
  type and submit a request, fund loan 0 again.
\<close>

definition demo_start :: "event list" where
  "demo_start = [EvResume 0 Resolve, EvResume 0 (ResolveChain (PBig 44787)),
     EvResume 0 (ResolveAddr 1), EvChain 2 0 (CallSolicitar 100 10), EvResume 0 Resolve]"

definition demo_double :: "event list" where
  "demo_double = [EvClick (BtnFinanciar 0), EvTypeMonto ''1'', EvTypePlazo ''5'',
     EvClick BtnSolicitar, EvClick (BtnFinanciar 0)]"

text \<open>
  The connected account 1 asks for 100 wei for 10 days, account 3 funds it at time
  1000 (maturity 1000 plus ten days), and account 1 opens the history of its requests.
\<close>

definition demo_pay_start :: "event list" where
  "demo_pay_start = [EvResume 0 Resolve, EvResume 0 (ResolveChain (PBig 44787)),
     EvResume 0 (ResolveAddr 1), EvChain 1 0 (CallSolicitar 100 10),
     EvChain 3 100 (CallFinanciar 0), EvResume 0 Resolve,
     EvClick BtnVerSolicitado, EvResume 0 Resolve]"

text \<open>Another client asks for 5 wei (interest 0 under the demo rule); account 1 funds it.\<close>

definition demo_fund_ok :: "event list" where
  "demo_fund_ok = [EvResume 0 Resolve, EvResume 0 (ResolveChain (PBig 44787)),
     EvResume 0 (ResolveAddr 1), EvChain 2 0 (CallSolicitar 5 10), EvResume 0 Resolve,
     EvClick (BtnFinanciar 0), EvResume 0 Resolve]"

text \<open>The funding of the interest-free loan taken over by a request while its transaction is pending.\<close>

definition demo_overlap :: "event list" where
  "demo_overlap = demo_fund_ok @ [EvTypeMonto ''1'', EvTypePlazo ''5'', EvClick BtnSolicitar]"

text \<open>A repayment submitted on the day of maturity and waiting for its receipt.\<close>

definition demo_repay :: "event list" where
  "demo_repay = demo_pay_start @ [EvTick 777600, EvClick (BtnPagar 0), EvResume 0 Resolve]"

definition demo_world :: "event list \<Rightarrow> world" where
  "demo_world es = run (init_world True demo_ledger 1000) es"

lemma demo_reach: "reach (demo_world es)"
  unfolding demo_world_def
  by (rule reach_run, rule reach.init) (simp add: demo_ledger_def ledger_wf_def)

lemma pending_calls_nil_iff: "pending_calls ts = [] \<longleftrightarrow> (\<forall>t \<in> set ts. \<not> is_tx t)"
  by (induction ts) (auto simp: pending_calls_def is_tx_def split: option.splits)

section \<open>Single flight and the action slot\<close>

text \<open>
  C1. The slot is never stuck: in every reachable world in which no transaction
  handler is in flight, \<open>loadingAction\<close> is back to \<open>{type: null, id: null}\<close>.
\<close>

theorem slot_released:
  assumes "reach w" and "\<forall>t \<in> set (tasks w). \<not> is_tx t"
  shows "loadingAction (app w) = idle_slot"
proof -
  have "slot_inv w" using assms(1) by (rule reach_slot_inv)
  moreover have "pending_calls (tasks w) = []" using assms(2) by (simp add: pending_calls_nil_iff)
  ultimately show ?thesis by (simp add: slot_inv_def slot_ok_def)
qed

lemma slot_released_witness:
  "reach (demo_world (demo_start @ [EvClick (BtnFinanciar 0), EvResume 0 (Reject ThrowNullish)]))
   \<and> loadingAction (app (demo_world (demo_start @ [EvClick (BtnFinanciar 0), EvResume 0 (Reject ThrowNullish)])))
       = idle_slot"
proof -
  let ?w = "demo_world (demo_start @ [EvClick (BtnFinanciar 0), EvResume 0 (Reject ThrowNullish)])"
  have r: "reach ?w" by (rule demo_reach)
  have "\<forall>t \<in> set (tasks ?w). \<not> is_tx t"
    by (simp only: demo_world_def demo_start_def demo_ledger_def) code_simp
  with r show ?thesis using slot_released [of ?w] by simp
qed

text \<open>
  C2. A busy slot always belongs to a live transaction: whenever \<open>loadingAction\<close>
  is not idle, some pending transaction handler carries the call it names.
\<close>

theorem slot_owned:
  assumes "reach w" and "loadingAction (app w) \<noteq> idle_slot"
  shows "\<exists>pc \<in> set (pending_calls (tasks w)). slot_of pc = loadingAction (app w)"
proof -
  have "slot_inv w" using assms(1) by (rule reach_slot_inv)
  with assms(2) show ?thesis by (auto simp: slot_inv_def slot_ok_def)
qed

lemma slot_owned_witness:
  "reach (demo_world (demo_start @ [EvClick (BtnFinanciar 0)]))
   \<and> (\<exists>pc \<in> set (pending_calls (tasks (demo_world (demo_start @ [EvClick (BtnFinanciar 0)])))).
        slot_of pc = loadingAction (app (demo_world (demo_start @ [EvClick (BtnFinanciar 0)]))))"
proof -
  let ?w = "demo_world (demo_start @ [EvClick (BtnFinanciar 0)])"
  have r: "reach ?w" by (rule demo_reach)
  have "loadingAction (app ?w) \<noteq> idle_slot"
    by (simp only: demo_world_def demo_start_def demo_ledger_def) code_simp
  with r show ?thesis using slot_owned [of ?w] by simp
qed

text \<open>
  C3. Single flight is not enforced: whatever the slot holds, even the funding of
  loan \<open>i\<close> in flight, a request click takes the slot over, and the \<open>Financiar\<close>
  button of loan \<open>i\<close>, disabled only while the slot names it, is enabled again: a
  second click submits a second funding of the same loan.
\<close>

theorem double_fund_submission:
  assumes "contract (app w) = Some s" and "vista (app w) = Formulario"
    and "handleSubmit (monto (app w)) (plazo (app w)) = FormSubmit a d"
    and "validateRequest a d = Inr (a, d)" and "parse_ether_amount a = Some amt"
    and "find (\<lambda>p. id_loan p = i \<and> \<not> financiado p) (prestamos (app w)) = Some p"
  shows "tasks (run w [EvClick BtnSolicitar, EvClick (BtnFinanciar i)])
    = tasks w @ [TxSubmit s (PSolicitar amt d), TxSubmit s (PFinanciar i (totalWei p))]"
proof -
  let ?w1 = "step w (EvClick BtnSolicitar)"
  have w1: "tasks ?w1 = tasks w @ [TxSubmit s (PSolicitar amt d)]" "app ?w1 = (app w)\<lparr>loadingAction := slot_of (PSolicitar amt d)\<rparr>"
    using assms(1-5) by (simp_all add: form_visible_def handleSubmit_ui_def solicitarPrestamo_ui_def)
  have "prestamos (app w) \<noteq> []" using assms(6) by auto
  then have "fund_target (app ?w1) i = Some p"
    using assms(2,6) w1(2) by (simp add: fund_target_def isLoading_def)
  moreover have "id_loan p = i" using assms(6) by (auto dest: find_Some_mem)
  ultimately show ?thesis
    using w1 assms(1) by (simp add: run_def financiarPrestamo_ui_def)
qed

lemma double_fund_submission_witness:
  "length (filter (\<lambda>pc. pc = PFinanciar 0 110)
     (pending_calls (tasks (run (demo_world (demo_start @ [EvClick (BtnFinanciar 0), EvTypeMonto ''1'', EvTypePlazo ''5'']))
        [EvClick BtnSolicitar, EvClick (BtnFinanciar 0)])))) = 2"
proof -
  let ?w = "demo_world (demo_start @ [EvClick (BtnFinanciar 0), EvTypeMonto ''1'', EvTypePlazo ''5''])"
  have h1: "contract (app ?w) = Some 1" and h2: "vista (app ?w) = Formulario"
    and h3: "monto (app ?w) = ''1''" and h4: "plazo (app ?w) = ''5''"
    and h6: "find (\<lambda>p. id_loan p = 0 \<and> \<not> financiado p) (prestamos (app ?w)) = Some (prestamos (app ?w) ! 0)"
    and h7: "totalWei (prestamos (app ?w) ! 0) = 110"
    and t: "tasks ?w = [TxSubmit 1 (PFinanciar 0 110)]"
    by (simp_all only: demo_world_def demo_start_def demo_ledger_def) code_simp+
  have h5: "handleSubmit (monto (app ?w)) (plazo (app ?w)) = FormSubmit (Num 1) (Num 5)"
    unfolding h3 h4 by code_simp
  have v: "validateRequest (Num 1) (Num 5) = Inr (Num 1, Num 5)" by code_simp
  have e: "parse_ether_amount (Num 1) = Some 1000000000000000000" by code_simp
  show ?thesis using double_fund_submission [OF h1 h2 h5 v e h6] unfolding h7 t by code_simp
qed

text \<open>
  C4. A new mutating action is never rejected as busy: with a contract and a form
  that validates, clicking the request button submits the request and takes over the
  slot, whatever the slot held and whichever transactions are in flight.
\<close>

theorem busy_not_rejected:
  assumes "contract (app w) = Some s" and "vista (app w) = Formulario"
    and "handleSubmit (monto (app w)) (plazo (app w)) = FormSubmit a d"
    and "validateRequest a d = Inr (a, d)" and "parse_ether_amount a = Some amt"
  shows "tasks (step w (EvClick BtnSolicitar)) = tasks w @ [TxSubmit s (PSolicitar amt d)]
    \<and> loadingAction (app (step w (EvClick BtnSolicitar))) = slot_of (PSolicitar amt d)"
  using assms
  by (simp add: form_visible_def handleSubmit_ui_def solicitarPrestamo_ui_def)

lemma busy_not_rejected_witness:
  "loadingAction (app (demo_world (demo_start @ [EvClick (BtnFinanciar 0), EvTypeMonto ''1'', EvTypePlazo ''5''])))
     = slot_of (PFinanciar 0 110)
   \<and> tasks (step (demo_world (demo_start @ [EvClick (BtnFinanciar 0), EvTypeMonto ''1'', EvTypePlazo ''5'']))
         (EvClick BtnSolicitar))
     = tasks (demo_world (demo_start @ [EvClick (BtnFinanciar 0), EvTypeMonto ''1'', EvTypePlazo ''5'']))
       @ [TxSubmit 1 (PSolicitar 1000000000000000000 (Num 5))]"
proof -
  let ?w = "demo_world (demo_start @ [EvClick (BtnFinanciar 0), EvTypeMonto ''1'', EvTypePlazo ''5''])"
  have busy: "loadingAction (app ?w) = slot_of (PFinanciar 0 110)"
    by (simp only: demo_world_def demo_start_def demo_ledger_def) code_simp
  have h1: "contract (app ?w) = Some 1" and h2: "vista (app ?w) = Formulario"
    and h3: "monto (app ?w) = ''1''" and h4: "plazo (app ?w) = ''5''"
    by (simp_all only: demo_world_def demo_start_def demo_ledger_def) code_simp+
  have h5: "handleSubmit ''1'' ''5'' = FormSubmit (Num 1) (Num 5)" by code_simp
  have h6: "validateRequest (Num 1) (Num 5) = Inr (Num 1, Num 5)" by code_simp
  have h7: "parse_ether_amount (Num 1) = Some 1000000000000000000" by code_simp
  have h: "handleSubmit (monto (app ?w)) (plazo (app ?w)) = FormSubmit (Num 1) (Num 5)"
    using h3 h4 h5 by simp
  from busy_not_rejected [OF h1 h2 h h6 h7] busy show ?thesis by simp
qed

text \<open>
  C5. The \<open>finally\<close> of a handler clears the slot unconditionally: when the promise
  of any transaction handler rejects, \<open>loadingAction\<close> becomes idle, even if
  another action has taken the slot over and is still in flight.
\<close>

theorem failure_clears_slot:
  assumes "i < length (tasks w)" and "is_tx (tasks w ! i)"
  shows "loadingAction (app (step w (EvResume i (Reject e)))) = idle_slot"
  using assms by (simp add: resume_reject_tx)

lemma failure_clears_slot_witness:
  "loadingAction (app (demo_world demo_overlap)) = slot_of (PSolicitar 1000000000000000000 (Num 5))
   \<and> loadingAction (app (step (demo_world demo_overlap) (EvResume 0 (Reject (ThrowObj eip1193_rejection)))))
       = idle_slot
   \<and> pending_calls (tasks (step (demo_world demo_overlap) (EvResume 0 (Reject (ThrowObj eip1193_rejection)))))
       = [PSolicitar 1000000000000000000 (Num 5)]"
proof -
  let ?w = "demo_world demo_overlap"
  have a: "loadingAction (app ?w) = slot_of (PSolicitar 1000000000000000000 (Num 5))"
    and b: "0 < length (tasks ?w)" and c: "is_tx (tasks ?w ! 0)"
    by (simp_all only: demo_world_def demo_overlap_def demo_fund_ok_def demo_ledger_def) code_simp+
  have d: "pending_calls (tasks (step ?w (EvResume 0 (Reject (ThrowObj eip1193_rejection)))))
       = [PSolicitar 1000000000000000000 (Num 5)]"
    by (simp only: demo_world_def demo_overlap_def demo_fund_ok_def demo_ledger_def eip1193_rejection_def)
       code_simp
  from a d failure_clears_slot [OF b c] show ?thesis by simp
qed

text \<open>
  C6. The one guard the code has: while the slot names the funding of loan \<open>i\<close>,
  the \<open>Financiar\<close> button of loan \<open>i\<close> is disabled and a click on it changes
  nothing.
\<close>

theorem fund_button_disabled:
  assumes "isLoading (app w) AFinanciar i"
  shows "step w (EvClick (BtnFinanciar i)) = w"
  using assms by (simp add: fund_target_loading)

lemma fund_button_disabled_witness:
  "step (demo_world (demo_start @ [EvClick (BtnFinanciar 0)])) (EvClick (BtnFinanciar 0))
     = demo_world (demo_start @ [EvClick (BtnFinanciar 0)])"
proof -
  have "isLoading (app (demo_world (demo_start @ [EvClick (BtnFinanciar 0)]))) AFinanciar 0"
    by (simp only: demo_world_def demo_start_def demo_ledger_def) code_simp
  then show ?thesis by (rule fund_button_disabled)
qed

section \<open>Repayment\<close>

text \<open>
  C7. Repaying too early fails locally: when the clock is before the maturity minus
  one day, clicking \<open>Pagar\<close> only raises the too-early notice; nothing is
  submitted and the slot is untouched.
\<close>

theorem repay_too_early:
  assumes "pay_target (app w) i = Some p" and "contract (app w) = Some s"
    and "int (clock w) < int (tiempoVencimiento p) - 86400"
  shows "step w (EvClick (BtnPagar i)) = w\<lparr>alerts := alerts w @ [AlertTooEarly]\<rparr>"
  using assms pay_target_Some [OF assms(1)]
  by (simp add: step_click_pay pagarPrestamo_ui_def unDia_def raise_alert_def)

lemma repay_too_early_witness:
  "alerts (step (demo_world demo_pay_start) (EvClick (BtnPagar 0)))
     = alerts (demo_world demo_pay_start) @ [AlertTooEarly]"
proof -
  let ?w = "demo_world demo_pay_start"
  let ?p = "\<lparr>id_loan = 0, solicitante = 1, montoPrincipal = 100, interes = 10, plazoDias = 10,
             financiador = Some 3, financiado = True, pagado = False, tiempoVencimiento = 865000\<rparr>"
  have h1: "pay_target (app ?w) 0 = Some ?p" and h2: "contract (app ?w) = Some 1"
    and h3: "int (clock ?w) < int (tiempoVencimiento ?p) - 86400"
    by (simp_all only: demo_world_def demo_pay_start_def demo_ledger_def) code_simp+
  show ?thesis using repay_too_early [OF h1 h2 h3] by simp
qed

text \<open>
  C8. Repaying on time submits the total due: from one day before maturity on, a
  click on \<open>Pagar\<close> takes the slot for the repayment of loan \<open>i\<close> and submits
  \<open>pagarPrestamo(i)\<close> carrying exactly principal plus interest.
\<close>

theorem repay_submits_total:
  assumes "pay_target (app w) i = Some p" and "contract (app w) = Some s"
    and "\<not> int (clock w) < int (tiempoVencimiento p) - 86400"
  shows "tasks (step w (EvClick (BtnPagar i)))
           = tasks w @ [TxSubmit s (PPagar i (montoPrincipal p + interes p))]
    \<and> loadingAction (app (step w (EvClick (BtnPagar i))))
           = \<lparr>sl_type = Some APagar, sl_id = Some i\<rparr>"
  using assms pay_target_Some [OF assms(1)]
  by (simp add: step_click_pay pagarPrestamo_ui_def unDia_def)

lemma repay_submits_total_witness:
  "tasks (step (demo_world (demo_pay_start @ [EvTick 777600])) (EvClick (BtnPagar 0)))
     = tasks (demo_world (demo_pay_start @ [EvTick 777600])) @ [TxSubmit 1 (PPagar 0 110)]"
proof -
  let ?w = "demo_world (demo_pay_start @ [EvTick 777600])"
  let ?p = "\<lparr>id_loan = 0, solicitante = 1, montoPrincipal = 100, interes = 10, plazoDias = 10,
             financiador = Some 3, financiado = True, pagado = False, tiempoVencimiento = 865000\<rparr>"
  have h1: "pay_target (app ?w) 0 = Some ?p" and h2: "contract (app ?w) = Some 1"
    and h3: "\<not> int (clock ?w) < int (tiempoVencimiento ?p) - 86400"
    by (simp_all only: demo_world_def demo_pay_start_def demo_ledger_def) code_simp+
  have e: "montoPrincipal ?p + interes ?p = 110" by simp
  show ?thesis using repay_submits_total [OF h1 h2 h3] unfolding e by (rule conjunct1)
qed


section \<open>The frontend against the ledger\<close>

text \<open>
  C9. A revert the receipt reports is shown only as the generic failure: when a
  transaction that passed its gas estimate is mined on a ledger that changed
  meanwhile (another funder was first) and reverts, ethers v6 rejects
  \<open>tx.wait()\<close> with an error that carries no reason, so the handler shows its
  generic message whatever the contract's reason. The slot is cleared, the task
  ends and the ledger is unchanged.
\<close>

theorem revert_at_mining_generic:
  assumes "i < length (tasks w)" and "tasks w ! i = TxWait s pc c v"
    and "exec_call (chain w) s v (clock w) c = Inl r"
  shows "alerts (step w (EvResume i Resolve)) = alerts w @ [AlertTx (Generic (default_msg (action_of pc)))]
    \<and> loadingAction (app (step w (EvResume i Resolve))) = idle_slot
    \<and> chain (step w (EvResume i Resolve)) = chain w
    \<and> tasks (step w (EvResume i Resolve)) = del_nth i (tasks w)"
  using assms by (simp add: resume_task_def tx_failed_def report_error_def raise_alert_def receipt_revert_class)

lemma revert_at_mining_generic_witness:
  "alerts (step (demo_world (demo_fund_ok @ [EvChain 3 5 (CallFinanciar 0)])) (EvResume 0 Resolve))
     = alerts (demo_world (demo_fund_ok @ [EvChain 3 5 (CallFinanciar 0)])) @ [AlertTx (Generic (default_msg AFinanciar))]"
proof -
  let ?w = "demo_world (demo_fund_ok @ [EvChain 3 5 (CallFinanciar 0)])"
  have a: "0 < length (tasks ?w)" and b: "tasks ?w ! 0 = TxWait 1 (PFinanciar 0 5) (CallFinanciar 0) 5"
    and c0: "case exec_call (chain ?w) 1 5 (clock ?w) (CallFinanciar 0) of
               Inl r \<Rightarrow> r = RevAlreadyFunded | Inr _ \<Rightarrow> False"
    by (simp_all only: demo_world_def demo_fund_ok_def demo_ledger_def) code_simp+
  from c0 have c: "exec_call (chain ?w) 1 5 (clock ?w) (CallFinanciar 0) = Inl RevAlreadyFunded"
    by (simp split: sum.splits)
  show ?thesis using revert_at_mining_generic [OF a b c] by simp
qed

text \<open>
  C10. A successful repayment leaves its \<open>Pagar\<close> button enabled: the handler
  clears the slot and starts reloading the history without awaiting it, so until
  that load resolves the history still shows the loan unpaid and its \<open>Pagar\<close>
  button is enabled, while the ledger has the loan paid.
\<close>

theorem repay_button_reenabled:
  assumes "i < length (tasks w)" and "tasks w ! i = TxWait s (PPagar j v) (CallPagar j) v"
    and "exec_call (chain w) s v (clock w) (CallPagar j) = Inr l'"
    and "vista (app w) = Solicitado" and "p \<in> set (historial (app w))" and "id_loan p = j"
    and "financiado p" and "\<not> pagado p"
  shows "pagado (loans (chain (step w (EvResume i Resolve))) ! j)
    \<and> BtnPagar j \<in> set (enabled_clicks (render (app (step w (EvResume i Resolve)))))"
proof -
  have l: "j < length (loans (chain w)) \<and> l' = (chain w)\<lparr>loans := (loans (chain w))[j := (loans (chain w) ! j)\<lparr>pagado := True\<rparr>]\<rparr>"
    using pagarPrestamo_step [of "chain w" v j l'] assms(3) by simp
  have a: "app (step w (EvResume i Resolve)) = (app w)\<lparr>loadingAction := idle_slot\<rparr>"
    and c: "chain (step w (EvResume i Resolve)) = l'"
    using assms(1-3) by (simp_all add: resume_task_def tx_mined_def verHistorial_def)
  have "BtnPagar j \<in> set (enabled_clicks (render ((app w)\<lparr>loadingAction := idle_slot\<rparr>)))"
    unfolding render_pay_enabled using assms(4-8) by (auto simp: canPay_def isLoading_def idle_slot_def)
  with l a c show ?thesis by simp
qed

lemma repay_button_reenabled_witness:
  "pagado (loans (chain (step (demo_world demo_repay) (EvResume 0 Resolve))) ! 0)
   \<and> BtnPagar 0 \<in> set (enabled_clicks (render (app (step (demo_world demo_repay) (EvResume 0 Resolve)))))"
proof -
  let ?w = "demo_world demo_repay"
  have a: "0 < length (tasks ?w)" and b: "tasks ?w ! 0 = TxWait 1 (PPagar 0 110) (CallPagar 0) 110"
    and d: "vista (app ?w) = Solicitado" and e: "historial (app ?w) ! 0 \<in> set (historial (app ?w))"
    and f: "id_loan (historial (app ?w) ! 0) = 0" and g: "financiado (historial (app ?w) ! 0)"
    and h: "\<not> pagado (historial (app ?w) ! 0)"
    and c0: "\<not> isl (exec_call (chain ?w) 1 110 (clock ?w) (CallPagar 0))"
    by (simp_all only: demo_world_def demo_repay_def demo_pay_start_def demo_ledger_def) code_simp+
  from c0 obtain l' where c: "exec_call (chain ?w) 1 110 (clock ?w) (CallPagar 0) = Inr l'"
    by (cases "exec_call (chain ?w) 1 110 (clock ?w) (CallPagar 0)") auto
  show ?thesis using repay_button_reenabled [OF a b c d e f g h] .
qed

text \<open>
  C11. A repayment sent from the frontend is never underpaid: whatever other clients
  did meanwhile, a repayment transaction waiting for its receipt carries exactly the
  ledger's principal plus interest, so the ledger never rejects it with the
  insufficient-payment revert.
\<close>

theorem repay_never_underpaid:
  assumes "reach w" and "TxWait s (PPagar i v) c v' \<in> set (tasks w)"
  shows "exec_call (chain w) s v' t c \<noteq> Inl RevInsufficient"
proof -
  have inv: "cons_inv w" using assms(1) by (rule reach_cons_inv)
  then have "wait_ok (TxWait s (PPagar i v) c v')" using assms(2) by (auto simp: cons_inv_def tasks_ok_def)
  then have c: "c = CallPagar i" and v: "v' = v" by auto
  have "PPagar i v \<in> set (pending_calls (tasks w))" using assms(2) by (auto intro: pending_calls_mem)
  then have "i < length (loans (chain w)) \<and> v = totalWei (loans (chain w) ! i)"
    using inv by (auto simp: cons_inv_def tasks_ok_def)
  with c v show ?thesis by (auto simp: pagarPrestamo_def Let_def totalWei_def)
qed

lemma repay_never_underpaid_witness:
  "reach (demo_world demo_repay)
   \<and> TxWait 1 (PPagar 0 110) (CallPagar 0) 110 \<in> set (tasks (demo_world demo_repay))
   \<and> exec_call (chain (demo_world demo_repay)) 1 110 778600 (CallPagar 0) \<noteq> Inl RevInsufficient"
proof -
  have r: "reach (demo_world demo_repay)" by (rule demo_reach)
  have m: "TxWait 1 (PPagar 0 110) (CallPagar 0) 110 \<in> set (tasks (demo_world demo_repay))"
    by (simp only: demo_world_def demo_repay_def demo_pay_start_def demo_ledger_def) code_simp
  show ?thesis using repay_never_underpaid [OF r m] r m by simp
qed

text \<open>
  C12. Funding from the frontend never succeeds on a loan that owes interest: the
  \<open>Financiar\<close> button sends \<open>totalWei\<close> (principal plus interest) where the
  contract requires the principal, so every funding call in flight, at its gas
  estimate or at its receipt, reverts on the ledger.
\<close>

theorem fund_with_interest_reverts:
  assumes "reach w" and "PFinanciar i v \<in> set (pending_calls (tasks w))"
    and "0 < interes (loans (chain w) ! i)"
  shows "exec_call (chain w) s v t (CallFinanciar i) \<in> {Inl RevAlreadyFunded, Inl RevWrongFunding}"
proof -
  have "i < length (loans (chain w)) \<and> v = totalWei (loans (chain w) ! i)"
    using reach_cons_inv [OF assms(1)] assms(2) by (auto simp: cons_inv_def tasks_ok_def)
  with assms(3) show ?thesis by (auto simp: financiarPrestamo_def Let_def totalWei_def)
qed

lemma fund_with_interest_reverts_witness:
  "reach (demo_world (demo_start @ [EvClick (BtnFinanciar 0)]))
   \<and> PFinanciar 0 110 \<in> set (pending_calls (tasks (demo_world (demo_start @ [EvClick (BtnFinanciar 0)]))))
   \<and> 0 < interes (loans (chain (demo_world (demo_start @ [EvClick (BtnFinanciar 0)]))) ! 0)
   \<and> exec_call (chain (demo_world (demo_start @ [EvClick (BtnFinanciar 0)]))) 1 110 1000
       (CallFinanciar 0) \<in> {Inl RevAlreadyFunded, Inl RevWrongFunding}"
proof -
  let ?w = "demo_world (demo_start @ [EvClick (BtnFinanciar 0)])"
  have r: "reach ?w" by (rule demo_reach)
  have m: "PFinanciar 0 110 \<in> set (pending_calls (tasks ?w))"
    and n: "0 < interes (loans (chain ?w) ! 0)"
    by (simp_all only: demo_world_def demo_start_def demo_ledger_def) code_simp+
  show ?thesis using fund_with_interest_reverts [OF r m n] r m n by simp
qed

section \<open>Error classification\<close>

text \<open>
  C13. A cancellation wins: when the error's code or its nested original error's
  code is the wallet's 4001, the result is \<open>UserCancelled\<close>, whatever the message.
\<close>

theorem handleTxError_cancel_first:
  assumes "code e = Some (PNum (Num 4001)) \<or> orig_code e = Some (PNum (Num 4001))"
  shows "handleTxError (ThrowObj e) d = Inr UserCancelled"
  using assms by (auto simp: handleTxError_def is_user_cancel_def user_rejected_code_def)

lemma handleTxError_cancel_first_witness:
  "handleTxError (ThrowObj \<lparr>code = None, orig_code = Some (PNum (Num 4001)),
      message = Some ''Monto insuficiente''\<rparr>) ''x'' = Inr UserCancelled"
  by (rule handleTxError_cancel_first) simp

text \<open>
  C14. The insufficient-payment class is exactly: no cancellation code, and the
  contract's revert text \<open>Monto insuficiente\<close> occurs somewhere in the message,
  as a contiguous sublist (the scanning \<open>includes\<close> agrees with \<open>sublist\<close>).
\<close>

theorem handleTxError_insufficient_iff:
  "handleTxError (ThrowObj e) d = Inr InsufficientPayment \<longleftrightarrow>
     \<not> is_user_cancel e \<and> sublist ''Monto insuficiente'' (err_msg e)"
  by (simp add: handleTxError_def js_includes_sublist insufficient_text_def)

text \<open>
  C15. Classification of an error object is total and never leaks the raw text:
  the result is one of the three classes, and a generic one carries the caller's
  default message.
\<close>

theorem handleTxError_total:
  "handleTxError (ThrowObj e) d \<in> Inr ` {UserCancelled, InsufficientPayment, Generic d}"
  by (simp add: handleTxError_def)

text \<open>
  C16. A nullish rejection is not classified: \<open>e.code\<close> throws inside the
  \<open>catch\<close>, so no notification is shown at all; the \<open>finally\<close> still clears the
  slot and the handler ends (its promise rejects unhandled).
\<close>

theorem nullish_failure_silent:
  assumes "i < length (tasks w)" and "tasks w ! i = TxWait s pc c v"
  shows "alerts (step w (EvResume i (Reject ThrowNullish))) = alerts w
    \<and> loadingAction (app (step w (EvResume i (Reject ThrowNullish)))) = idle_slot
    \<and> tasks (step w (EvResume i (Reject ThrowNullish))) = del_nth i (tasks w)"
  using assms by (simp add: resume_task_def tx_failed_def report_error_def handleTxError_def)

lemma nullish_failure_silent_witness:
  "alerts (step (demo_world demo_fund_ok) (EvResume 0 (Reject ThrowNullish))) = alerts (demo_world demo_fund_ok)"
proof -
  let ?w = "demo_world demo_fund_ok"
  have a: "0 < length (tasks ?w)" and b: "tasks ?w ! 0 = TxWait 1 (PFinanciar 0 5) (CallFinanciar 0) 5"
    by (simp_all only: demo_world_def demo_fund_ok_def demo_ledger_def) code_simp+
  show ?thesis using nullish_failure_silent [OF a b] by (rule conjunct1)
qed

text \<open>
  C17. An error as ethers v6 raises it is never a cancellation: ethers reports a
  failure with a string code (\<open>ACTION_REJECTED\<close> for a rejection in the wallet,
  whose 4001 it moves to \<open>info.error\<close>) and no \<open>data.originalError\<close>, and the
  strict comparison with the number 4001 fails on a string. Such an error gets the
  insufficient-payment notice when its message names it and the generic failure
  otherwise, so a user's cancellation is shown as an unexpected error.
\<close>

theorem ethers6_cancel_generic:
  assumes "code e = Some (PStr k)" and "orig_code e = None"
  shows "handleTxError (ThrowObj e) d
    = Inr (if js_includes (err_msg e) insufficient_text then InsufficientPayment else Generic d)"
  using assms by (simp add: handleTxError_def is_user_cancel_def user_rejected_code_def)

lemma ethers6_cancel_generic_witness:
  "handleTxError (ThrowObj ethers6_rejection) (default_msg AFinanciar) = Inr (Generic (default_msg AFinanciar))"
proof -
  have "code ethers6_rejection = Some (PStr ''ACTION_REJECTED'')" and "orig_code ethers6_rejection = None"
    by (simp_all add: ethers6_rejection_def)
  from ethers6_cancel_generic [OF this, of "default_msg AFinanciar"] show ?thesis
    by (simp add: ethers6_rejection_def err_msg_def insufficient_text_def)
qed

section \<open>Validation of a request\<close>

text \<open>
  C18. The form's check refines the App's: whatever \<open>handleSubmit\<close> lets through,
  the guard of \<open>solicitarPrestamo\<close> accepts unchanged.
\<close>

theorem form_implies_guard:
  assumes "handleSubmit m p = FormSubmit a d"
  shows "validateRequest a d = Inr (a, d)"
proof -
  from handleSubmit_submit [OF assms] obtain k :: int where
    a: "a = PosInf \<or> (\<exists>q. a = Num q \<and> 0.1 \<le> q)" and d: "d = Num (of_int k)" and k: "1 \<le> k"
    by blast
  have "\<not> js_falsy a \<and> \<not> js_less a (Num 0.1)" using a by auto
  moreover have "\<not> js_falsy d \<and> \<not> js_less d (Num 1)" using d k by simp
  ultimately show ?thesis by (simp add: validateRequest_def)
qed

lemma form_implies_guard_witness:
  "handleSubmit ''1.5'' ''30'' = FormSubmit (Num 1.5) (Num 30)
   \<and> validateRequest (Num 1.5) (Num 30) = Inr (Num 1.5, Num 30)"
proof -
  have h: "handleSubmit ''1.5'' ''30'' = FormSubmit (Num 1.5) (Num 30)" by code_simp
  with form_implies_guard [OF h] show ?thesis by simp
qed

text \<open>
  C19. An amount below 0.1, zero or \<open>NaN\<close> never reaches the ledger: with a
  contract, \<open>solicitarPrestamo\<close> only raises the minimum-amount notice (spec
  scenario 1), leaving the slot and the pending tasks as they were.
\<close>

theorem min_amount_no_submission:
  assumes "contract (app w) = Some s" and "js_falsy a \<or> js_less a (Num 0.1)"
  shows "solicitarPrestamo_ui a d w = raise_alert AlertMinAmount w"
  using assms by (auto simp: solicitarPrestamo_ui_def validateRequest_def)

lemma min_amount_no_submission_witness:
  "solicitarPrestamo_ui (Num 0.05) (Num 10) (demo_world demo_start)
     = raise_alert AlertMinAmount (demo_world demo_start)"
proof -
  have c: "contract (app (demo_world demo_start)) = Some 1"
    by (simp only: demo_world_def demo_start_def demo_ledger_def) code_simp
  have "js_falsy (Num 0.05) \<or> js_less (Num 0.05) (Num 0.1)" by simp
  with c show ?thesis by (rule min_amount_no_submission)
qed

section \<open>A late history load\<close>

text \<open>
  C20. A late history load overrides the return to the form: when the user clicks
  \<open>Volver\<close> while a history load is pending, the load's resolution still sets the
  history and switches the view back to it; nothing discards a stale response.
\<close>

theorem late_history_overrides_return:
  assumes "contract (app w) \<noteq> None" and "vista (app w) \<noteq> Formulario"
    and "i < length (tasks w)" and "tasks w ! i = LoadHist v (Some a)"
  shows "vista (app (run w [EvClick BtnVolver, EvResume i Resolve])) = v
    \<and> historial (app (run w [EvClick BtnVolver, EvResume i Resolve])) = history_query v (chain w) a"
  using assms by (simp add: run_def volver_visible_def verFormulario_def spawn_def resume_task_def nth_append)

lemma late_history_overrides_return_witness:
  "vista (app (run (demo_world (demo_pay_start @ [EvClick BtnVerFinanciado])) [EvClick BtnVolver, EvResume 0 Resolve]))
     = Financiado"
proof -
  let ?w = "demo_world (demo_pay_start @ [EvClick BtnVerFinanciado])"
  have a: "contract (app ?w) \<noteq> None" and b: "vista (app ?w) \<noteq> Formulario"
    and c: "0 < length (tasks ?w)" and d: "tasks ?w ! 0 = LoadHist Financiado (Some 1)"
    by (simp_all only: demo_world_def demo_pay_start_def demo_ledger_def) code_simp+
  show ?thesis using late_history_overrides_return [OF a b c d] by (rule conjunct1)
qed

section \<open>Validation of the term\<close>

text \<open>
  C21. The form reads the term up to its first non-digit: \<open>parseInt\<close> stops there,
  so a term typed as digits followed by a fraction (\<open>2.5\<close>) or an exponent
  (\<open>1e3\<close>, a valid value of a number input) is submitted as its integer part,
  exactly as if only the digits had been typed.
\<close>

theorem form_truncates_term:
  assumes "a \<noteq> []" and "\<forall>ch \<in> set a. is_digit ch" and "c \<in> {CHR ''.'', CHR ''e'', CHR ''E''}"
  shows "handleSubmit m (a @ c # r) = handleSubmit m a"
  using assms by (rule handleSubmit_term_prefix)

lemma form_truncates_term_witness:
  "handleSubmit ''1'' ''2.5'' = FormSubmit (Num 1) (Num 2)"
proof -
  have "handleSubmit ''1'' (''2'' @ CHR ''.'' # ''5'') = handleSubmit ''1'' ''2''"
    by (rule form_truncates_term) (simp_all add: is_digit_def)
  moreover have "handleSubmit ''1'' ''2'' = FormSubmit (Num 1) (Num 2)" by code_simp
  ultimately show ?thesis by simp
qed

text \<open>
  C22. Typing whole numbers reads them back exactly: for an amount and a term from 1
  to \<open>2^53 - 1\<close> (the integers a double holds exactly), written in decimal, the
  form submits exactly those numbers.
\<close>

theorem form_roundtrip:
  assumes "1 \<le> a" and "a < 2 ^ 53" and "1 \<le> n" and "n < 2 ^ 53"
  shows "handleSubmit (show_nat a) (show_nat n) = FormSubmit (Num (of_nat a)) (Num (of_nat n))"
proof -
  have "(0.1::rat) \<le> of_nat a" using assms(1) by (simp add: order_trans [of _ 1])
  with assms show ?thesis by (simp add: handleSubmit_def show_nat_parse)
qed

lemma form_roundtrip_witness:
  "handleSubmit (show_nat 2) (show_nat 30) = FormSubmit (Num 2) (Num 30)"
  using form_roundtrip [of 2 30] by simp

section \<open>Start-up and the network guard\<close>

text \<open>
  C23. The network warning is shown on every network: ethers v6 reports the chain id
  as a BigInt, and \<open>chainId !== 44787\<close> compares it with a number, which is never
  strictly equal; Alfajores itself triggers the warning.
\<close>

theorem network_warning_always:
  assumes "i < length (tasks w)" and "tasks w ! i = InitNetwork"
  shows "alerts (step w (EvResume i (ResolveChain (PBig n)))) = alerts w @ [AlertSwitchNetwork]"
  using assms by (simp add: resume_task_def chain_alfajores_def raise_alert_def Let_def)

lemma network_warning_always_witness:
  "alerts (step (demo_world [EvResume 0 Resolve]) (EvResume 0 (ResolveChain (PBig 44787))))
     = [AlertSwitchNetwork]"
proof -
  have a: "0 < length (tasks (demo_world [EvResume 0 Resolve]))"
    and b: "tasks (demo_world [EvResume 0 Resolve]) ! 0 = InitNetwork"
    and c: "alerts (demo_world [EvResume 0 Resolve]) = []"
    by (simp_all only: demo_world_def demo_ledger_def) code_simp+
  show ?thesis using network_warning_always [OF a b] c by simp
qed

section \<open>The rendered page\<close>

text \<open>
  C24. The enabled buttons of the rendered page, read off the markup: a
  \<open>Financiar\<close> button of loan \<open>i\<close> is enabled exactly in the form view, for an
  unfunded loan \<open>i\<close> of the list, unless the slot names the funding of \<open>i\<close>; a
  \<open>Pagar\<close> button exactly in the requester's history, for a funded and unpaid loan
  \<open>i\<close>, unless the slot names its repayment. Neither depends on the clock: the
  time check of lines 260-262 is discarded.
\<close>

theorem render_enabled_buttons:
  "(BtnFinanciar i \<in> set (enabled_clicks (render s)) \<longleftrightarrow>
      vista s = Formulario \<and> (\<exists>p \<in> set (prestamos s). id_loan p = i \<and> \<not> financiado p)
      \<and> \<not> isLoading s AFinanciar i)
   \<and> (BtnPagar i \<in> set (enabled_clicks (render s)) \<longleftrightarrow>
      vista s = Solicitado \<and> (\<exists>p \<in> set (historial s). id_loan p = i \<and> financiado p \<and> \<not> pagado p)
      \<and> \<not> isLoading s APagar i)"
  by (simp add: render_fund_enabled render_pay_enabled canPay_def)

section \<open>Refresh after a transaction\<close>

text \<open>
  C25. After a successful funding, the refresh shows it: when the funding transaction
  of loan \<open>j\<close> is mined and the awaited \<open>loadPrestamos\<close> then resolves, the list
  of active requests is the ledger's, loan \<open>j\<close> is funded in it, the success notice
  is shown and the slot is idle.
\<close>

theorem fund_refresh_shows_funded:
  assumes "i < length (tasks w)" and "tasks w ! i = TxWait s (PFinanciar j v) (CallFinanciar j) v"
    and "exec_call (chain w) s v (clock w) (CallFinanciar j) = Inr l'"
  shows "prestamos (app (step (step w (EvResume i Resolve)) (EvResume i Resolve))) = loans l'
    \<and> j < length (loans l') \<and> financiado (loans l' ! j)
    \<and> loadingAction (app (step (step w (EvResume i Resolve)) (EvResume i Resolve))) = idle_slot
    \<and> alerts (step (step w (EvResume i Resolve)) (EvResume i Resolve)) = alerts w @ [AlertSuccess AFinanciar]"
proof -
  have f: "j < length (loans l') \<and> financiado (loans l' ! j)"
    using financiarPrestamo_step [of "chain w" s v "clock w" j l'] assms(3)
    by (simp add: fund_loan_def)
  have w1: "step w (EvResume i Resolve) = w\<lparr>chain := l', tasks := (tasks w)[i := TxReload (PFinanciar j v)]\<rparr>"
    using assms by (simp add: resume_task_def tx_mined_def)
  show ?thesis
    unfolding w1 using assms(1) f
    by (simp add: resume_task_def reload_done_def load_active_def obtenerPrestamos_def
      raise_alert_def Let_def)
qed

lemma fund_refresh_shows_funded_witness:
  "financiado (prestamos (app (step (step (demo_world demo_fund_ok) (EvResume 0 Resolve)) (EvResume 0 Resolve))) ! 0)"
proof -
  let ?w = "demo_world demo_fund_ok"
  have a: "0 < length (tasks ?w)" and b: "tasks ?w ! 0 = TxWait 1 (PFinanciar 0 5) (CallFinanciar 0) 5"
    and c: "\<not> isl (exec_call (chain ?w) 1 5 (clock ?w) (CallFinanciar 0))"
    by (simp_all only: demo_world_def demo_fund_ok_def demo_ledger_def) code_simp+
  from c obtain l' where "exec_call (chain ?w) 1 5 (clock ?w) (CallFinanciar 0) = Inr l'"
    by (cases "exec_call (chain ?w) 1 5 (clock ?w) (CallFinanciar 0)") auto
  then show ?thesis using fund_refresh_shows_funded [OF a b] by simp
qed

text \<open>
  C26. A successful repayment does not refresh the list of active requests: the
  handler shows its success, starts reloading only the requester's history (not
  awaited), clears the slot and ends; \<open>prestamos\<close> keeps the stale copy.
\<close>

theorem repay_refreshes_history_only:
  assumes "i < length (tasks w)" and "tasks w ! i = TxWait s (PPagar j v) (CallPagar j) v"
    and "exec_call (chain w) s v (clock w) (CallPagar j) = Inr l'" and "contract (app w) \<noteq> None"
  shows "prestamos (app (step w (EvResume i Resolve))) = prestamos (app w)
    \<and> tasks (step w (EvResume i Resolve)) = del_nth i (tasks w) @ [LoadHist Solicitado (account (app w))]
    \<and> alerts (step w (EvResume i Resolve)) = alerts w @ [AlertSuccess APagar]"
  using assms by (simp add: resume_task_def tx_mined_def verHistorial_def ensureContract_def
    raise_alert_def spawn_def drop_task_def)

lemma repay_refreshes_history_only_witness:
  "prestamos (app (step (demo_world demo_repay) (EvResume 0 Resolve))) = prestamos (app (demo_world demo_repay))"
proof -
  let ?w = "demo_world demo_repay"
  have a: "0 < length (tasks ?w)" and b: "tasks ?w ! 0 = TxWait 1 (PPagar 0 110) (CallPagar 0) 110"
    and d: "contract (app ?w) \<noteq> None"
    by (simp_all only: demo_world_def demo_repay_def demo_pay_start_def demo_ledger_def) code_simp+
  have c0: "\<not> isl (exec_call (chain ?w) 1 110 (clock ?w) (CallPagar 0))"
    by (simp only: demo_world_def demo_repay_def demo_pay_start_def demo_ledger_def) code_simp
  from c0 obtain l' where c: "exec_call (chain ?w) 1 110 (clock ?w) (CallPagar 0) = Inr l'"
    by (cases "exec_call (chain ?w) 1 110 (clock ?w) (CallPagar 0)") auto
  show ?thesis using repay_refreshes_history_only [OF a b c d] by (rule conjunct1)
qed

section \<open>The amount on the Financiar button\<close>



section \<open>Progress of the handlers\<close>

text \<open>
  C28. Every pending handler finishes once the environment answers it: from every
  reachable world, settling the oldest pending task with any answering policy
  leaves no task pending, the action slot idle, and a reachable world.
\<close>

theorem settle_to_idle:
  assumes "reach w" and "\<forall>t. answers t (pol t)"
  shows "tasks (run w (drain pol w)) = [] \<and> loadingAction (app (run w (drain pol w))) = idle_slot
    \<and> reach (run w (drain pol w))"
proof -
  have r: "reach (run w (drain pol w))" using assms(1) by (rule reach_run)
  have t: "tasks (run w (drain pol w)) = []" using assms(2) by (rule drain_settles)
  from reach_slot_inv [OF r] t show ?thesis
    using r by (simp add: slot_inv_def slot_ok_def pending_calls_def)
qed

lemma settle_to_idle_witness:
  "tasks (run (demo_world (demo_start @ demo_double)) (drain (env_answer (PBig 44787) 1) (demo_world (demo_start @ demo_double)))) = []
   \<and> loadingAction (app (run (demo_world (demo_start @ demo_double)) (drain (env_answer (PBig 44787) 1) (demo_world (demo_start @ demo_double))))) = idle_slot"
  using settle_to_idle [OF demo_reach, of "env_answer (PBig 44787) 1"] answers_env_answer by blast

text \<open>
  C29. The handlers cannot be resumed forever: settling a pending task with an
  answer of the right shape strictly decreases the weight of the pending tasks
  (the count of resumptions they may still take).
\<close>

theorem answered_resume_progress:
  assumes "i < length (tasks w)" and "answers (tasks w ! i) out"
  shows "pending_weight (tasks (step w (EvResume i out))) < pending_weight (tasks w)"
  using resume_answered_decreases [OF assms] by simp

lemma answered_resume_progress_witness:
  "pending_weight (tasks (step (demo_world demo_double) (EvResume 0 Resolve))) < pending_weight (tasks (demo_world demo_double))"
proof -
  have a: "0 < length (tasks (demo_world demo_double))" and b: "answers (tasks (demo_world demo_double) ! 0) Resolve"
    by (simp_all only: demo_world_def demo_double_def demo_ledger_def) code_simp+
  show ?thesis using answered_resume_progress [OF a b] .
qed

section \<open>The amounts on the page\<close>



section \<open>Bounds of the request amount\<close>

text \<open>
  C31. The wei amount of a request that passes the guard and the conversion lies
  between \<open>10^17\<close> and \<open>10^39\<close>, so it is a \<open>uint256\<close> argument and
  encodes as a 256-bit word without wrapping.
\<close>

theorem request_amount_fits_uint256:
  assumes "validateRequest a d = Inr (a', d')" and "parse_ether_amount a' = Some amt"
  shows "10 ^ 17 \<le> amt \<and> amt < 10 ^ 39 \<and> uint (word_of_int amt :: 256 word) = amt"
proof -
  from assms(1) have a': "a' = a" and nf: "\<not> js_falsy a" "\<not> js_less a (Num 0.1)"
    by (auto simp: validateRequest_def split: if_splits)
  obtain q where q: "a = Num q"
    using assms(2) a' by (cases a) (auto simp: parse_ether_amount_def)
  with nf have q1: "0.1 \<le> q" by simp
  with assms(2) a' q have small: "q < 10 ^ 21" and e: "of_int amt = q * 10 ^ 18"
    by (auto simp: parse_ether_amount_def split: if_splits)
  have "(10 ^ 17 :: rat) \<le> of_int amt" using q1 e by simp
  then have lo: "10 ^ 17 \<le> amt" by (simp flip: of_int_le_iff)
  have "(of_int amt :: rat) < 10 ^ 39" using small e by simp
  then have hi: "amt < 10 ^ 39" by (simp flip: of_int_less_iff)
  have "uint (word_of_int amt :: 256 word) = amt"
    unfolding uint_word_of_int_eq by (rule take_bit_int_eq_self) (use lo hi in simp_all)
  then show ?thesis using lo hi by simp
qed

lemma request_amount_fits_uint256_witness:
  "uint (word_of_int 1500000000000000000 :: 256 word) = 1500000000000000000"
proof -
  have a: "validateRequest (Num 1.5) (Num 30) = Inr (Num 1.5, Num 30)" by (simp add: validateRequest_def)
  have b: "parse_ether_amount (Num 1.5) = Some 1500000000000000000" by code_simp
  show ?thesis using request_amount_fits_uint256 [OF a b] by simp
qed


section \<open>Ordering of events\<close>

text \<open>
  C32. Typing in the form and the settling of a pending task commute, except for
  a history load (it changes the view, so the form may disappear) and the end of a
  request (it clears the form).
\<close>

theorem typing_commutes:
  assumes "case tasks w ! i of TxReload (PSolicitar _ _) \<Rightarrow> False | LoadHist _ _ \<Rightarrow> False | _ \<Rightarrow> True"
  shows "step (step w (EvTypeMonto s)) (EvResume i out) = step (step w (EvResume i out)) (EvTypeMonto s)
    \<and> step (step w (EvTypePlazo s)) (EvResume i out) = step (step w (EvResume i out)) (EvTypePlazo s)"
  using resume_keeps_form [OF assms, of out s] by (simp add: form_visible_def)

lemma typing_commutes_witness:
  "step (step (demo_world (demo_start @ [EvClick (BtnFinanciar 0)])) (EvTypeMonto ''2'')) (EvResume 0 Resolve)
     = step (step (demo_world (demo_start @ [EvClick (BtnFinanciar 0)])) (EvResume 0 Resolve)) (EvTypeMonto ''2'')"
proof -
  have a: "case tasks (demo_world (demo_start @ [EvClick (BtnFinanciar 0)])) ! 0 of TxReload (PSolicitar _ _) \<Rightarrow> False | LoadHist _ _ \<Rightarrow> False | _ \<Rightarrow> True"
    by (simp only: demo_world_def demo_start_def demo_ledger_def) code_simp
  show ?thesis using typing_commutes [OF a, of "''2''" Resolve] by (rule conjunct1)
qed

text \<open>
  C33. Input typed while a request waits for its final reload is lost: the
  handler's \<open>setMonto("")\<close> runs after it, so the order matters, and typing
  after the reload keeps the text.
\<close>

theorem request_reset_loses_input:
  assumes "i < length (tasks w)" and "tasks w ! i = TxReload (PSolicitar x d)" and "form_visible (app w)"
  shows "monto (app (step (step w (EvTypeMonto s)) (EvResume i out))) = []
    \<and> monto (app (step (step w (EvResume i out)) (EvTypeMonto s))) = s"
  using assms
  by (simp add: resume_task_def reload_done_def load_active_def raise_alert_def set_loading_def
      drop_task_def form_visible_def split: outcome.splits)

lemma request_reset_loses_input_witness:
  "monto (app (step (step (demo_world (demo_start @ [EvTypeMonto ''1'', EvTypePlazo ''5'', EvClick BtnSolicitar,
      EvResume 0 Resolve, EvResume 0 Resolve])) (EvTypeMonto ''2'')) (EvResume 0 Resolve))) = []"
proof -
  let ?w = "demo_world (demo_start @ [EvTypeMonto ''1'', EvTypePlazo ''5'', EvClick BtnSolicitar,
      EvResume 0 Resolve, EvResume 0 Resolve])"
  have a: "0 < length (tasks ?w)" and b: "tasks ?w ! 0 = TxReload (PSolicitar 1000000000000000000 (Num 5))"
    and c: "form_visible (app ?w)"
    by (simp_all only: demo_world_def demo_start_def demo_ledger_def) code_simp+
  show ?thesis using request_reset_loses_input [OF a b c] by (rule conjunct1)
qed

section \<open>Deployment and start-up\<close>

text \<open>
  C34. The deployment script fails exactly when its exit code is 1, printing no
  address; when it succeeds it prints the address and leaves an empty, well-formed
  ledger, on which the frontend's start-up is a reachable world, with or without a
  wallet.
\<close>

theorem deploy_then_start:
  assumes "deploy_main rate r = (out, lo)"
  shows "(exitCode out = Some 1 \<longleftrightarrow> lo = None)
    \<and> (case lo of
         Some l \<Rightarrow> loans l = [] \<and> reach (init_world eth l t) \<and> console_error out = []
       | None \<Rightarrow> console_log out = [])"
  using assms fresh_ledger_wf [of rate]
  by (auto simp: deploy_main_def fresh_ledger_def intro: reach.init split: deploy_result.splits)

lemma deploy_then_start_witness:
  "reach (init_world True (fresh_ledger (\<lambda>a d. a div 10)) 0)"
proof -
  have "deploy_main (\<lambda>a d. a div 10) (DeployedAt 7)
      = (\<lparr>console_log = [(''Contrato desplegado en:'', 7)], console_error = [], exitCode = None\<rparr>,
         Some (fresh_ledger (\<lambda>a d. a div 10)))"
    by (simp add: deploy_main_def)
  from deploy_then_start [OF this, of True 0] show ?thesis by simp
qed
text \<open>
  C35. Without a wallet nothing is ever submitted: start-up only shows the
  MetaMask notice, and in every run from there no task is pending, no contract
  object exists and the action slot stays idle.
\<close>

theorem no_wallet_no_tx:
  "tasks (run (init_world False l t) es) = [] \<and> contract (app (run (init_world False l t) es)) = None
   \<and> loadingAction (app (run (init_world False l t) es)) = idle_slot
   \<and> alerts (init_world False l t) = [AlertMetaMask]"
  using run_disconnected [OF init_no_wallet_disconnected, of l t es]
  by (simp add: disconnected_def init_world_def)

text \<open>
  C36. With a wallet that answers, start-up ends connected: after its four awaits
  the account and the contract object are set, the list of loans is the ledger's,
  nothing is pending, and the network notice is shown exactly when the chain id is
  not strictly equal to 44787.
\<close>

theorem startup_connects:
  "account (app (run (init_world True l t) (drain (env_answer c a) (init_world True l t)))) = Some a
   \<and> contract (app (run (init_world True l t) (drain (env_answer c a) (init_world True l t)))) = Some a
   \<and> prestamos (app (run (init_world True l t) (drain (env_answer c a) (init_world True l t)))) = obtenerPrestamos l
   \<and> tasks (run (init_world True l t) (drain (env_answer c a) (init_world True l t))) = []
   \<and> alerts (run (init_world True l t) (drain (env_answer c a) (init_world True l t)))
       = (if js_strict_eq c chain_alfajores then [] else [AlertSwitchNetwork])"
  unfolding drain_start_up
  by (simp add: run_def init_world_def init_app_def resume_task_def Let_def raise_alert_def spawn_def
      drop_task_def del_nth_def load_active_def)

section \<open>History views\<close>

text \<open>
  C37. \<open>Ver solicitado\<close> shows the requester's loans: with a contract and an account,
  clicking it and settling the load it starts sets the history to the ledger's loans
  requested by the account and switches to that view, leaving no task behind.
\<close>

theorem history_shows_query:
  assumes "contract (app w) \<noteq> None" and "account (app w) = Some a"
  shows "historial (app (step (step w (EvClick BtnVerSolicitado)) (EvResume (length (tasks w)) Resolve)))
           = prestamosPorSolicitante (chain w) a
    \<and> vista (app (step (step w (EvClick BtnVerSolicitado)) (EvResume (length (tasks w)) Resolve))) = Solicitado
    \<and> tasks (step (step w (EvClick BtnVerSolicitado)) (EvResume (length (tasks w)) Resolve)) = tasks w"
  using assms
  by (simp add: verHistorial_def ensureContract_def resume_task_def history_query_def spawn_def
      drop_task_def del_nth_def nth_append)

lemma history_shows_query_witness:
  "historial (app (step (step (demo_world demo_start) (EvClick BtnVerSolicitado)) (EvResume 0 Resolve)))
     = prestamosPorSolicitante (chain (demo_world demo_start)) 1"
proof -
  have a: "contract (app (demo_world demo_start)) \<noteq> None" and b: "account (app (demo_world demo_start)) = Some 1"
    and c: "length (tasks (demo_world demo_start)) = 0"
    by (simp_all only: demo_world_def demo_start_def demo_ledger_def) code_simp+
  show ?thesis using history_shows_query [OF a b] c by simp
qed
section \<open>Reverts reach the classifier\<close>

text \<open>
  C38. A call the contract would revert never reaches the wallet: ethers estimates
  the gas before it asks the wallet to sign, and the estimate rejects with the
  revert reason in its message. Whatever the wallet would have answered, the
  handler ends with the insufficient-payment notice when the reason contains
  \<open>Monto insuficiente\<close> (the spec's reason for an underpaid repayment) and with
  the generic one otherwise; the slot is cleared, the task ends and the ledger is
  unchanged.
\<close>

theorem revert_reported:
  assumes "i < length (tasks w)" and "tasks w ! i = TxSubmit s pc" and "encode_call pc = Some (c, v)"
    and "exec_call (chain w) s v (clock w) c = Inl r"
  shows "step w (EvResume i out) = step w (EvResume i Resolve)
    \<and> alerts (step w (EvResume i out)) = alerts w @
      [AlertTx (if js_includes (revert_reason r) insufficient_text then InsufficientPayment
                else Generic (default_msg (action_of pc)))]
    \<and> loadingAction (app (step w (EvResume i out))) = idle_slot
    \<and> chain (step w (EvResume i out)) = chain w
    \<and> tasks (step w (EvResume i out)) = del_nth i (tasks w)"
  using assms by (simp add: resume_task_def tx_failed_def report_error_def raise_alert_def revert_error_class)

lemma revert_reported_witness:
  "step (demo_world (demo_start @ [EvClick (BtnFinanciar 0)])) (EvResume 0 (Reject (ThrowObj eip1193_rejection)))
     = step (demo_world (demo_start @ [EvClick (BtnFinanciar 0)])) (EvResume 0 Resolve)
   \<and> alerts (step (demo_world (demo_start @ [EvClick (BtnFinanciar 0)])) (EvResume 0 (Reject (ThrowObj eip1193_rejection))))
     = alerts (demo_world (demo_start @ [EvClick (BtnFinanciar 0)])) @ [AlertTx (Generic (default_msg AFinanciar))]"
proof -
  let ?w = "demo_world (demo_start @ [EvClick (BtnFinanciar 0)])"
  have a: "0 < length (tasks ?w)" and b: "tasks ?w ! 0 = TxSubmit 1 (PFinanciar 0 110)"
    and c0: "case exec_call (chain ?w) 1 110 (clock ?w) (CallFinanciar 0) of
               Inl r \<Rightarrow> r = RevWrongFunding | Inr _ \<Rightarrow> False"
    by (simp_all only: demo_world_def demo_start_def demo_ledger_def) code_simp+
  from c0 have c: "exec_call (chain ?w) 1 110 (clock ?w) (CallFinanciar 0) = Inl RevWrongFunding"
    by (simp split: sum.splits)
  have e: "encode_call (PFinanciar 0 110) = Some (CallFinanciar 0, 110)" by simp
  have n: "\<not> js_includes (revert_reason RevWrongFunding) insufficient_text"
    by (simp add: insufficient_text_def)
  note th = revert_reported [OF a b e c, of "Reject (ThrowObj eip1193_rejection)"]
  have t1: "step ?w (EvResume 0 (Reject (ThrowObj eip1193_rejection))) = step ?w (EvResume 0 Resolve)"
    using th by (rule conjunct1)
  have t2: "alerts (step ?w (EvResume 0 (Reject (ThrowObj eip1193_rejection)))) = alerts ?w @
      [AlertTx (if js_includes (revert_reason RevWrongFunding) insufficient_text then InsufficientPayment
                else Generic (default_msg (action_of (PFinanciar 0 110))))]"
    using th by blast
  show ?thesis using t1 t2 n by (simp only: if_False action_of.simps simp_thms)
qed

section \<open>Who signs\<close>

text \<open>
  C39. Every transaction in flight is signed by the connected account: in every
  reachable world, a pending submission or receipt wait names the signer that is
  both the stored account and the contract object's signer.
\<close>

theorem tx_signed_by_account:
  assumes "reach w" and "t \<in> set (tasks w)" and "task_signer t = Some s"
  shows "contract (app w) = Some s \<and> account (app w) = Some s"
  using reach_signer_inv [OF assms(1)] assms(2,3) by (auto simp: signer_inv_def)

lemma tx_signed_by_account_witness:
  "account (app (demo_world (demo_start @ [EvClick (BtnFinanciar 0)]))) = Some 1"
proof -
  let ?w = "demo_world (demo_start @ [EvClick (BtnFinanciar 0)])"
  have t: "TxSubmit 1 (PFinanciar 0 110) \<in> set (tasks ?w)"
    by (simp only: demo_world_def demo_start_def demo_ledger_def) code_simp
  have "task_signer (TxSubmit 1 (PFinanciar 0 110)) = Some 1" by simp
  from tx_signed_by_account [OF demo_reach t this] show ?thesis by (rule conjunct2)
qed

text \<open>
  C40. Once connected, the account never changes: in a reachable world with an
  account, no event (click, settlement, other clients' transactions, time) changes
  it.
\<close>

theorem account_fixed:
  assumes "reach w" and "account (app w) = Some a"
  shows "account (app (step w e)) = Some a"
proof -
  have inv: "signer_inv w" using assms(1) by (rule reach_signer_inv)
  then have "contract (app w) \<noteq> None" using assms(2) by (auto simp: signer_inv_def)
  with inv assms(2) show ?thesis by (simp add: step_keeps_account)
qed

lemma account_fixed_witness:
  "account (app (step (demo_world demo_start) (EvChain 2 0 (CallSolicitar 5 3)))) = Some 1"
proof -
  have "account (app (demo_world demo_start)) = Some 1"
    by (simp only: demo_world_def demo_start_def demo_ledger_def) code_simp
  with demo_reach show ?thesis by (rule account_fixed)
qed
end
